theory Spec2Isabelle
  imports Complex_Main
begin

section \<open>Go types as the reflection API shows them\<close>

text \<open>
  The library inspects handler input types through \<^verbatim>\<open>reflect\<close>. A type is modelled by
  its shape; a struct type is a name whose declaration (fields and method set) is looked
  up in a table of declarations, so that a struct may refer to itself through a pointer,
  as in Go; an interface type is known by its name (empty for \<^verbatim>\<open>interface{}\<close>). Two types are identical exactly when their terms are equal, which is the
  identity \<^verbatim>\<open>map[reflect.Type]Schema\<close> uses for its keys.
\<close>

datatype kind =
    KBool | KInt | KInt8 | KInt16 | KInt32 | KInt64
  | KUint | KUint8 | KUint16 | KUint32 | KUint64 | KUintptr
  | KFloat32 | KFloat64 | KComplex64 | KComplex128 | KString
  | KArray | KChan | KFunc | KInterface | KMap | KPointer | KSlice | KStruct
  | KUnsafePointer

datatype prim =
    PBool | PInt | PInt8 | PInt16 | PInt32 | PInt64
  | PUint | PUint8 | PUint16 | PUint32 | PUint64 | PUintptr
  | PFloat32 | PFloat64 | PComplex64 | PComplex128 | PString | PUnsafePointer

datatype gotype =
    Prim prim
  | SliceT gotype
  | ArrayT gotype
  | PtrT gotype
  | MapT gotype gotype
  | ChanT gotype
  | FuncT
  | InterfaceT string
  | StructT string

fun prim_kind :: "prim \<Rightarrow> kind" where
  "prim_kind PBool = KBool"
| "prim_kind PInt = KInt"
| "prim_kind PInt8 = KInt8"
| "prim_kind PInt16 = KInt16"
| "prim_kind PInt32 = KInt32"
| "prim_kind PInt64 = KInt64"
| "prim_kind PUint = KUint"
| "prim_kind PUint8 = KUint8"
| "prim_kind PUint16 = KUint16"
| "prim_kind PUint32 = KUint32"
| "prim_kind PUint64 = KUint64"
| "prim_kind PUintptr = KUintptr"
| "prim_kind PFloat32 = KFloat32"
| "prim_kind PFloat64 = KFloat64"
| "prim_kind PComplex64 = KComplex64"
| "prim_kind PComplex128 = KComplex128"
| "prim_kind PString = KString"
| "prim_kind PUnsafePointer = KUnsafePointer"

text \<open>\<^verbatim>\<open>reflect.Type.Kind\<close>.\<close>

fun Kind :: "gotype \<Rightarrow> kind" where
  "Kind (Prim p) = prim_kind p"
| "Kind (SliceT _) = KSlice"
| "Kind (ArrayT _) = KArray"
| "Kind (PtrT _) = KPointer"
| "Kind (MapT _ _) = KMap"
| "Kind (ChanT _) = KChan"
| "Kind FuncT = KFunc"
| "Kind (InterfaceT _) = KInterface"
| "Kind (StructT _) = KStruct"

text \<open>
  \<^verbatim>\<open>reflect.StructField\<close>: the name, the declared type, the struct tag as key/value pairs
  and the embedded flag.
\<close>

record field =
  fld_Name :: string
  fld_Type :: gotype
  fld_Tag :: "(string \<times> string) list"
  fld_Anonymous :: bool

text \<open>\<^verbatim>\<open>reflect.StructTag.Get\<close>: the value of the key, or the empty string.\<close>

definition Tag_Get :: "(string \<times> string) list \<Rightarrow> string \<Rightarrow> string" where
  "Tag_Get tag key = (case map_of tag key of None \<Rightarrow> [] | Some v \<Rightarrow> v)"

section \<open>Errors\<close>

datatype numerr = ErrSyntax | ErrRange

text \<open>\<^verbatim>\<open>param.InvalidParamError\<close>; a nil \<^verbatim>\<open>ParamType\<close> is \<open>None\<close>.\<close>

record invalid_param =
  ipe_Struct :: gotype
  ipe_Field :: field
  ipe_ParamType :: "gotype option"
  ipe_Message :: string
  ipe_Err :: string
  ipe_UnderlineAll :: bool

text \<open>
  The validation engine's error tree (\<^verbatim>\<open>*jsonschema.ValidationError\<close> of the external
  library: the message of its basic output, the instance location and the causes), and
  the package's \<^verbatim>\<open>ValidationError\<close> built from it (original error, causes, message,
  location).
\<close>

datatype lib_verr = LibVErr string "string list" "lib_verr list"

datatype validation_error =
  VError "lib_verr option" "validation_error list" string string

text \<open>
  The error values of the packages. \<open>Wrapf pre e post\<close> is
  \<^verbatim>\<open>fmt.Errorf(pre + "%w" + post, e)\<close>, \<open>Wrap2 a b\<close> is \<^verbatim>\<open>fmt.Errorf("%w: %w", a, b)\<close>,
  \<open>Joined\<close> is \<^verbatim>\<open>errors.Join\<close>, \<open>NumError\<close> is \<^verbatim>\<open>*strconv.NumError\<close>,
  \<open>UnknownTypeError typ kind\<close> is \<^verbatim>\<open>ErrUnknowType\<close> wrapped with the type and the kind,
  \<open>NonStructArgError typ\<close> is \<^verbatim>\<open>ErrNonStructArg\<close> wrapped with the type (by the walker),
  \<open>NonStructKindError kind\<close> is \<^verbatim>\<open>ErrNonStructArg\<close> wrapped with the kind (by the extractor),
  \<open>UnknownFieldTypeError field typ struct related\<close> is \<^verbatim>\<open>*extractor.UnknownFieldTypeError\<close>,
  \<open>InvalidParamStyleError struct field typ style dataType location err msg underlineMsg\<close> is
  the error of that name of package \<^verbatim>\<open>openapi3/param\<close>, \<open>HandlerError\<close> is
  \<^verbatim>\<open>routey.HandlerError\<close> with its \<^verbatim>\<open>Err\<close>,
  and \<open>OtherError\<close> is an error of a collaborator, known by its text only.
\<close>

datatype err =
    ErrInvalidParamType
  | ErrNonStructArg
  | ErrNoParser
  | ErrParamFailedToExtract
  | NumError string string numerr
  | InvalidParamError invalid_param
  | UnknownFieldTypeError string gotype "gotype option" "gotype list"
  | ErrInvalidMapKey
  | UnknownTypeError gotype kind
  | NonStructArgError gotype
  | NonStructKindError kind
  | ErrExtactType
  | ErrInvalidStyle
  | ErrInvalidLocation
  | ErrInvalidLocForStyle
  | ErrInvalidTypeForLocation
  | UpdateFromTagsError string err
  | InvalidParamStyleError gotype field "gotype option" string string string err string string
  | HandlerError err
  | ErrSchemaLoad
  | ErrSchemaNotFound
  | ValidationError validation_error
  | OtherError string
  | Wrapf string err string
  | Wrap2 err err
  | Joined "err list"

text \<open>
  \<^verbatim>\<open>errors.Is(e, ErrInvalidParamType)\<close>: the sentinel itself, or an error that wraps it.
  \<^verbatim>\<open>NumError\<close> unwraps to a \<^verbatim>\<open>strconv\<close> error and the struct errors do not unwrap.
\<close>

fun is_ErrInvalidParamType :: "err \<Rightarrow> bool" where
  "is_ErrInvalidParamType ErrInvalidParamType = True"
| "is_ErrInvalidParamType (Wrapf _ e _) = is_ErrInvalidParamType e"
| "is_ErrInvalidParamType (Wrap2 a b) = (is_ErrInvalidParamType a \<or> is_ErrInvalidParamType b)"
| "is_ErrInvalidParamType (Joined es) = (\<exists>e \<in> set es. is_ErrInvalidParamType e)"
| "is_ErrInvalidParamType _ = False"

text \<open>\<^verbatim>\<open>errors.Is(err, ErrInvalidParamType)\<close> on a possibly nil error.\<close>

definition errors_Is_InvalidParamType :: "err option \<Rightarrow> bool" where
  "errors_Is_InvalidParamType e = (case e of None \<Rightarrow> False | Some x \<Rightarrow> is_ErrInvalidParamType x)"

section \<open>The standard library's number parsing, base 10\<close>

text \<open>
  \<^verbatim>\<open>strconv.ParseUint(s, 10, bitSize)\<close> and \<^verbatim>\<open>strconv.ParseInt(s, 10, bitSize)\<close> as the Go
  standard library defines them: the digits are read left to right, a byte that is not a
  decimal digit is a syntax error with value 0, a value beyond the width is a range error
  with the clamped value. A \<^verbatim>\<open>bitSize\<close> of 0 is the size of \<^verbatim>\<open>int\<close>, 64 bits here.
\<close>

definition intSize :: nat where
  "intSize = 64"

definition is_digit :: "char \<Rightarrow> bool" where
  "is_digit c = (48 \<le> (of_char c :: nat) \<and> (of_char c :: nat) \<le> 57)"

definition digit_val :: "char \<Rightarrow> int" where
  "digit_val c = of_char c - 48"

fun parseUint_digits :: "int \<Rightarrow> int \<Rightarrow> string \<Rightarrow> int \<times> numerr option" where
  "parseUint_digits maxVal n [] = (n, None)"
| "parseUint_digits maxVal n (c # cs) =
     (if \<not> is_digit c then (0, Some ErrSyntax)
      else if n * 10 + digit_val c > maxVal then (maxVal, Some ErrRange)
      else parseUint_digits maxVal (n * 10 + digit_val c) cs)"

definition strconv_ParseUint :: "string \<Rightarrow> nat \<Rightarrow> int \<times> err option" where
  "strconv_ParseUint s bitSize =
     (if s = [] then (0, Some (NumError ''ParseUint'' s ErrSyntax))
      else
        let bs = (if bitSize = 0 then intSize else bitSize) in
        (case parseUint_digits (2 ^ bs - 1) 0 s of
           (v, None) \<Rightarrow> (v, None)
         | (v, Some e) \<Rightarrow> (v, Some (NumError ''ParseUint'' s e))))"

definition strconv_ParseInt :: "string \<Rightarrow> nat \<Rightarrow> int \<times> err option" where
  "strconv_ParseInt s0 bitSize =
     (case s0 of
        [] \<Rightarrow> (0, Some (NumError ''ParseInt'' s0 ErrSyntax))
      | c # cs \<Rightarrow>
          let neg = (c = CHR ''-'');
              s = (if c = CHR ''+'' \<or> c = CHR ''-'' then cs else s0);
              bs = (if bitSize = 0 then intSize else bitSize);
              cutoff = (2 :: int) ^ (bs - 1)
          in (case strconv_ParseUint s bitSize of
                (un, Some (NumError _ _ ErrSyntax)) \<Rightarrow> (0, Some (NumError ''ParseInt'' s0 ErrSyntax))
              | (un, _) \<Rightarrow>
                  if \<not> neg \<and> un \<ge> cutoff then (cutoff - 1, Some (NumError ''ParseInt'' s0 ErrRange))
                  else if neg \<and> un > cutoff then (- cutoff, Some (NumError ''ParseInt'' s0 ErrRange))
                  else (if neg then - un else un, None)))"

text \<open>\<^verbatim>\<open>strconv.ParseBool\<close>.\<close>

definition strconv_ParseBool :: "string \<Rightarrow> bool \<times> err option" where
  "strconv_ParseBool s =
     (if s \<in> set [''1'', ''t'', ''T'', ''TRUE'', ''true'', ''True''] then (True, None)
      else if s \<in> set [''0'', ''f'', ''F'', ''FALSE'', ''false'', ''False''] then (False, None)
      else (False, Some (NumError ''ParseBool'' s ErrSyntax)))"

section \<open>Values a parser writes to\<close>

text \<open>
  An object with an \<^verbatim>\<open>UnmarshalText\<close> method: its state, and the method as a function of
  the state and the text, giving the error and the new state.
\<close>

record textobj =
  tu_state :: string
  tu_UnmarshalText :: "string \<Rightarrow> string \<Rightarrow> err option \<times> string"

text \<open>
  The variable behind the \<^verbatim>\<open>value any\<close> pointer a parser receives, by its dynamic type.
  A floating point value is a finite one, given by the real it denotes (the negative zero
  apart), an infinity or a NaN. \<open>VStruct\<close> is a struct value with its fields in
  declaration order; \<open>VSlice\<close> is a variable of a slice type that holds a slice with the
  given elements (a variable holding the nil slice is a \<open>VOther\<close>); \<open>VHTTPRequest\<close> and \<open>VHTTPResponse\<close> are
  variables of type \<^verbatim>\<open>*http.Request\<close> and \<^verbatim>\<open>http.ResponseWriter\<close>, \<open>True\<close> once they hold
  the request or the writer of the call; \<open>VOther\<close> is a variable of any other type.
\<close>

datatype gofloat = Finite real | NegZero | PosInf | NegInf | NaN

datatype goval =
    VInt int | VInt8 int | VInt16 int | VInt32 int | VInt64 int
  | VUint int | VUint8 int | VUint16 int | VUint32 int | VUint64 int
  | VFloat32 gofloat | VFloat64 gofloat
  | VBool bool
  | VString string
  | VText textobj
  | VStruct string "goval list"
  | VSlice gotype "goval list"
  | VHTTPRequest bool
  | VHTTPResponse bool
  | VOther gotype

text \<open>
  What a call of a parser does: it panics (an index out of range), or it returns an
  error (nil is \<open>None\<close>) and leaves the variable with a new content.
\<close>

datatype outcome = Panic | Ret "err option" goval

type_synonym parser = "goval \<Rightarrow> string list \<Rightarrow> outcome"

section \<open>The built-in parsers (param/parse.go)\<close>

text \<open>
  Each parser starts from \<^verbatim>\<open>err := ErrInvalidParamType\<close>. \<^verbatim>\<open>ParseInt\<close>, \<^verbatim>\<open>ParseUint\<close> and
  \<^verbatim>\<open>ParseFloat\<close> read \<^verbatim>\<open>params[0]\<close> before the type switch; the other three read it inside
  the branch of the matching type.
\<close>

definition ParseInt :: parser where
  "ParseInt v params =
     (case params of
        [] \<Rightarrow> Panic
      | param # _ \<Rightarrow>
          (case v of
             VInt _ \<Rightarrow> (case strconv_ParseInt param 0 of (i, e) \<Rightarrow> Ret e (VInt i))
           | VInt8 _ \<Rightarrow> (case strconv_ParseInt param 8 of (i, e) \<Rightarrow> Ret e (VInt8 i))
           | VInt16 _ \<Rightarrow> (case strconv_ParseInt param 16 of (i, e) \<Rightarrow> Ret e (VInt16 i))
           | VInt32 _ \<Rightarrow> (case strconv_ParseInt param 32 of (i, e) \<Rightarrow> Ret e (VInt32 i))
           | VInt64 _ \<Rightarrow> (case strconv_ParseInt param 64 of (i, e) \<Rightarrow> Ret e (VInt64 i))
           | _ \<Rightarrow> Ret (Some ErrInvalidParamType) v))"

definition ParseUint :: parser where
  "ParseUint v params =
     (case params of
        [] \<Rightarrow> Panic
      | param # _ \<Rightarrow>
          (case v of
             VUint _ \<Rightarrow> (case strconv_ParseUint param 0 of (i, e) \<Rightarrow> Ret e (VUint i))
           | VUint8 _ \<Rightarrow> (case strconv_ParseUint param 8 of (i, e) \<Rightarrow> Ret e (VUint8 i))
           | VUint16 _ \<Rightarrow> (case strconv_ParseUint param 16 of (i, e) \<Rightarrow> Ret e (VUint16 i))
           | VUint32 _ \<Rightarrow> (case strconv_ParseUint param 32 of (i, e) \<Rightarrow> Ret e (VUint32 i))
           | VUint64 _ \<Rightarrow> (case strconv_ParseUint param 64 of (i, e) \<Rightarrow> Ret e (VUint64 i))
           | _ \<Rightarrow> Ret (Some ErrInvalidParamType) v))"

text \<open>
  \<^verbatim>\<open>strconv.ParseFloat\<close> is a parameter \<open>pf\<close> of the model (text and bit size to value
  and error).
\<close>

definition ParseFloat :: "(string \<Rightarrow> nat \<Rightarrow> gofloat \<times> err option) \<Rightarrow> parser" where
  "ParseFloat pf v params =
     (case params of
        [] \<Rightarrow> Panic
      | param # _ \<Rightarrow>
          (case v of
             VFloat32 _ \<Rightarrow> (case pf param 32 of (i, e) \<Rightarrow> Ret e (VFloat32 i))
           | VFloat64 _ \<Rightarrow> (case pf param 64 of (i, e) \<Rightarrow> Ret e (VFloat64 i))
           | _ \<Rightarrow> Ret (Some ErrInvalidParamType) v))"

definition ParseTextUnmarshaller :: parser where
  "ParseTextUnmarshaller v params =
     (case v of
        VText obj \<Rightarrow>
          (case params of
             [] \<Rightarrow> Panic
           | param # _ \<Rightarrow>
               (case tu_UnmarshalText obj (tu_state obj) param of
                  (e, st) \<Rightarrow> Ret e (VText (obj\<lparr>tu_state := st\<rparr>))))
      | _ \<Rightarrow> Ret (Some ErrInvalidParamType) v)"

definition ParseBool :: parser where
  "ParseBool v params =
     (case v of
        VBool _ \<Rightarrow>
          (case params of
             [] \<Rightarrow> Panic
           | param # _ \<Rightarrow> (case strconv_ParseBool param of (b, e) \<Rightarrow> Ret e (VBool b)))
      | _ \<Rightarrow> Ret (Some ErrInvalidParamType) v)"

definition ParseString :: parser where
  "ParseString v params =
     (case v of
        VString _ \<Rightarrow>
          (case params of
             [] \<Rightarrow> Panic
           | param # _ \<Rightarrow> Ret None (VString param))
      | _ \<Rightarrow> Ret (Some ErrInvalidParamType) v)"

section \<open>The parser chain (param/parse.go, Parsers.Parse)\<close>

text \<open>
  The loop of \<^verbatim>\<open>Parsers.Parse\<close>: \<open>e\<close> is the local \<^verbatim>\<open>err\<close>, nil before the first parser.
  A parser that panics ends the call.
\<close>

fun Parsers_loop :: "parser list \<Rightarrow> err option \<Rightarrow> parser" where
  "Parsers_loop [] e v params = Ret e v"
| "Parsers_loop (p # ps) e v params =
     (case p v params of
        Panic \<Rightarrow> Panic
      | Ret e' v' \<Rightarrow>
          if \<not> errors_Is_InvalidParamType e' then Ret e' v'
          else Parsers_loop ps e' v' params)"

definition Parsers_Parse :: "parser list \<Rightarrow> parser" where
  "Parsers_Parse ps v params = Parsers_loop ps None v params"

text \<open>An outcome that is the "invalid type" sentinel (or wraps it).\<close>

definition is_sentinel :: "outcome \<Rightarrow> bool" where
  "is_sentinel out = (case out of Panic \<Rightarrow> False | Ret e _ \<Rightarrow> errors_Is_InvalidParamType e)"

text \<open>
  The variable after every parser of the list, run in order, has returned the sentinel;
  \<open>None\<close> when one of them did not.
\<close>

fun after_sentinels :: "parser list \<Rightarrow> goval \<Rightarrow> string list \<Rightarrow> goval option" where
  "after_sentinels [] v params = Some v"
| "after_sentinels (p # ps) v params =
     (case p v params of
        Panic \<Rightarrow> None
      | Ret e v' \<Rightarrow>
          if errors_Is_InvalidParamType e then after_sentinels ps v' params else None)"

section \<open>Parse options (param/param.go)\<close>

text \<open>
  What the library reads of a \<^verbatim>\<open>*http.Request\<close>: the values of the URL's query string
  (\<^verbatim>\<open>r.URL.Query()\<close>), and the query values cached in the request's context, if any.
\<close>

record request =
  rq_URL_Query :: "string \<Rightarrow> string list"
  rq_cachedQuery :: "(string \<Rightarrow> string list) option"

text \<open>\<^verbatim>\<open>param.Opts\<close>; the \<^verbatim>\<open>Pather\<close> is its \<^verbatim>\<open>Param\<close> method, \<open>None\<close> when nil.\<close>

record opts =
  o_Name :: string
  o_Default :: string
  o_Parser :: "parser option"
  o_Pather :: "(string \<Rightarrow> request \<Rightarrow> string) option"

text \<open>A call of a possibly nil parser.\<close>

definition call_parser :: "parser option \<Rightarrow> parser" where
  "call_parser p v params = (case p of None \<Rightarrow> Panic | Some f \<Rightarrow> f v params)"

text \<open>\<^verbatim>\<open>Opts.Parse\<close>.\<close>

definition Opts_Parse :: "opts \<Rightarrow> parser" where
  "Opts_Parse opt v params =
     (if length params = 0 \<and> o_Default opt \<noteq> [] then call_parser (o_Parser opt) v [o_Default opt]
      else if length params = 0 then Ret None v
      else call_parser (o_Parser opt) v params)"

section \<open>Schemas (jsonschema/schema.go)\<close>

text \<open>
  The fields of \<^verbatim>\<open>openapi.Schema\<close> the synthesizer and the parameter builder touch.
  \<^verbatim>\<open>Type\<close> is a pointer to a list of type names: \<open>os_Type\<close> is the address of that list
  in the store of the synthesizer's state (\<open>None\<close> is the nil pointer), because
  \<^verbatim>\<open>Add\<close> appends through the pointer and a copied schema shares it. \<^verbatim>\<open>Properties\<close>
  is a map, kept as an association list with one entry per key. A default value is kept
  as its text.
\<close>

datatype oschema =
  OSchema
    (os_Type : "nat option")
    (os_Format : string)
    (os_Minimum : "int option")
    (os_Default : "string option")
    (os_Description : string)
    (os_Properties : "(string \<times> ref_or_spec) list")
    (os_Required : "string list")
    (os_Items : "ref_or_spec option")
    (os_AdditionalProperties : "ref_or_spec option")
and ref_or_spec = Ref string | Spec oschema

text \<open>\<^verbatim>\<open>jsonschema.Schema\<close>: the embedded \<^verbatim>\<open>openapi.Schema\<close> and the three private fields.\<close>

record schema =
  sch_Schema :: oschema
  sch_refPath :: string
  sch_noRef :: bool
  sch_name :: string

definition empty_oschema :: oschema where
  "empty_oschema = OSchema None [] None None [] [] [] None None"

text \<open>\<^verbatim>\<open>New\<close>: the zero schema.\<close>

definition New :: schema where
  "New = \<lparr>sch_Schema = empty_oschema, sch_refPath = [], sch_noRef = False, sch_name = []\<rparr>"

definition set_Type :: "nat option \<Rightarrow> oschema \<Rightarrow> oschema" where
  "set_Type a s = (case s of OSchema _ f m d ds p r i ap \<Rightarrow> OSchema a f m d ds p r i ap)"

definition set_Format :: "string \<Rightarrow> oschema \<Rightarrow> oschema" where
  "set_Format f s = (case s of OSchema a _ m d ds p r i ap \<Rightarrow> OSchema a f m d ds p r i ap)"

definition set_Minimum :: "int option \<Rightarrow> oschema \<Rightarrow> oschema" where
  "set_Minimum m s = (case s of OSchema a f _ d ds p r i ap \<Rightarrow> OSchema a f m d ds p r i ap)"

definition set_Default :: "string option \<Rightarrow> oschema \<Rightarrow> oschema" where
  "set_Default d s = (case s of OSchema a f m _ ds p r i ap \<Rightarrow> OSchema a f m d ds p r i ap)"

definition set_Description :: "string \<Rightarrow> oschema \<Rightarrow> oschema" where
  "set_Description ds s = (case s of OSchema a f m d _ p r i ap \<Rightarrow> OSchema a f m d ds p r i ap)"

definition set_Properties :: "(string \<times> ref_or_spec) list \<Rightarrow> oschema \<Rightarrow> oschema" where
  "set_Properties p s = (case s of OSchema a f m d ds _ r i ap \<Rightarrow> OSchema a f m d ds p r i ap)"

definition set_Required :: "string list \<Rightarrow> oschema \<Rightarrow> oschema" where
  "set_Required r s = (case s of OSchema a f m d ds p _ i ap \<Rightarrow> OSchema a f m d ds p r i ap)"

definition set_Items :: "ref_or_spec option \<Rightarrow> oschema \<Rightarrow> oschema" where
  "set_Items i s = (case s of OSchema a f m d ds p r _ ap \<Rightarrow> OSchema a f m d ds p r i ap)"

definition set_AdditionalProperties :: "ref_or_spec option \<Rightarrow> oschema \<Rightarrow> oschema" where
  "set_AdditionalProperties ap s =
     (case s of OSchema a f m d ds p r i _ \<Rightarrow> OSchema a f m d ds p r i ap)"

text \<open>Assignment to a key of a Go map: the entry of the key is replaced or added.\<close>

fun map_assign :: "('k \<times> 'v) list \<Rightarrow> 'k \<Rightarrow> 'v \<Rightarrow> ('k \<times> 'v) list" where
  "map_assign [] k v = [(k, v)]"
| "map_assign ((k', v') # m) k v = (if k' = k then (k, v) # m else (k', v') # map_assign m k v)"

text \<open>\<^verbatim>\<open>maps.Copy(dst, src)\<close>.\<close>

definition maps_Copy :: "('k \<times> 'v) list \<Rightarrow> ('k \<times> 'v) list \<Rightarrow> ('k \<times> 'v) list" where
  "maps_Copy dst src = fold (\<lambda>(k, v) m. map_assign m k v) src dst"

text \<open>The type and format names of the OpenAPI library.\<close>

definition BooleanType :: string where "BooleanType = ''boolean''"
definition IntegerType :: string where "IntegerType = ''integer''"
definition NumberType :: string where "NumberType = ''number''"
definition StringType :: string where "StringType = ''string''"
definition ObjectType :: string where "ObjectType = ''object''"
definition ArrayType :: string where "ArrayType = ''array''"
definition NullType :: string where "NullType = ''null''"
definition Int32Format :: string where "Int32Format = ''int32''"
definition Int64Format :: string where "Int64Format = ''int64''"
definition FloatFormat :: string where "FloatFormat = ''float''"
definition DoubleFormat :: string where "DoubleFormat = ''double''"

section \<open>Declarations of struct types\<close>

text \<open>
  What the library can learn about a declared struct type: its name, its fields, and the
  methods it looks for by interface assertion. Each method is \<open>None\<close> when the type
  does not have it.
  \<^item> \<open>sd_Source\<close>: \<^verbatim>\<open>Source() string\<close>;
  \<^item> \<open>sd_Inner\<close>: \<^verbatim>\<open>Inner() any\<close>, as the type of the value returned (\<open>Some None\<close> when
    \<^verbatim>\<open>reflect.TypeOf\<close> of it is nil);
  \<^item> \<open>sd_CanParse\<close>: \<^verbatim>\<open>CanParse(p, field, value) error\<close>;
  \<^item> \<open>sd_JSONSchema\<close>: \<^verbatim>\<open>JSONSchema() Schema\<close>, as the schema and the content of its type
    list, which is put in a fresh cell;
  \<^item> \<open>sd_JSONSchemaExtend\<close>: \<^verbatim>\<open>JSONSchemaExtend(*Schema)\<close>, as a function on the schema;
  \<^item> \<open>sd_NoRef\<close>: the type implements \<^verbatim>\<open>NoRef()\<close>;
  \<^item> \<open>sd_UnmarshalText\<close>: \<^verbatim>\<open>UnmarshalText([]byte) error\<close>, as for \<open>textobj\<close>;
  \<^item> \<open>sd_Extract\<close>: \<^verbatim>\<open>Extract(*http.Request, *route.Info) error\<close>, on the variable of
    the type and the request, both of which it may change;
  \<^item> \<open>sd_ParamExtract\<close>: \<^verbatim>\<open>Extract(*http.Request, *route.Info, param.Opts) error\<close>,
    likewise.
\<close>

record struct_decl =
  sd_Name :: string
  sd_Fields :: "field list"
  sd_Source :: "string option"
  sd_Inner :: "gotype option option"
  sd_CanParse :: "(parser \<Rightarrow> field \<Rightarrow> goval \<Rightarrow> err option) option"
  sd_JSONSchema :: "(schema \<times> string list option) option"
  sd_JSONSchemaExtend :: "(schema \<Rightarrow> schema) option"
  sd_NoRef :: bool
  sd_UnmarshalText :: "(string \<Rightarrow> string \<Rightarrow> err option \<times> string) option"
  sd_Extract :: "(request \<Rightarrow> goval \<Rightarrow> outcome \<times> request) option"
  sd_ParamExtract :: "(request \<Rightarrow> opts \<Rightarrow> goval \<Rightarrow> outcome \<times> request) option"

type_synonym decls = "string \<Rightarrow> struct_decl"

text \<open>A struct type with fields only.\<close>

definition plain_struct :: "string \<Rightarrow> field list \<Rightarrow> struct_decl" where
  "plain_struct name fs =
     \<lparr>sd_Name = name, sd_Fields = fs, sd_Source = None, sd_Inner = None,
      sd_CanParse = None, sd_JSONSchema = None, sd_JSONSchemaExtend = None, sd_NoRef = False,
      sd_UnmarshalText = None, sd_Extract = None, sd_ParamExtract = None\<rparr>"

text \<open>
  The method of the type \<^verbatim>\<open>reflect.New(typ).Interface()\<close> is asserted to have: only a
  declared struct type has methods, and a pointer to a pointer has none.
\<close>

definition method_of :: "decls \<Rightarrow> (struct_decl \<Rightarrow> 'a option) \<Rightarrow> gotype \<Rightarrow> 'a option" where
  "method_of D m typ = (case typ of StructT n \<Rightarrow> m (D n) | _ \<Rightarrow> None)"

text \<open>\<^verbatim>\<open>reflect.Type.Elem\<close>, \<^verbatim>\<open>Key\<close>, \<^verbatim>\<open>NumField\<close> and \<^verbatim>\<open>Name\<close>.\<close>

fun Elem :: "gotype \<Rightarrow> gotype" where
  "Elem (SliceT t) = t"
| "Elem (ArrayT t) = t"
| "Elem (PtrT t) = t"
| "Elem (MapT _ t) = t"
| "Elem (ChanT t) = t"
| "Elem t = t"

fun Key :: "gotype \<Rightarrow> gotype" where
  "Key (MapT k _) = k"
| "Key t = t"

definition Fields :: "decls \<Rightarrow> gotype \<Rightarrow> field list" where
  "Fields D typ = (case typ of StructT n \<Rightarrow> sd_Fields (D n) | _ \<Rightarrow> [])"

fun prim_name :: "prim \<Rightarrow> string" where
  "prim_name PBool = ''bool''"
| "prim_name PInt = ''int''"
| "prim_name PInt8 = ''int8''"
| "prim_name PInt16 = ''int16''"
| "prim_name PInt32 = ''int32''"
| "prim_name PInt64 = ''int64''"
| "prim_name PUint = ''uint''"
| "prim_name PUint8 = ''uint8''"
| "prim_name PUint16 = ''uint16''"
| "prim_name PUint32 = ''uint32''"
| "prim_name PUint64 = ''uint64''"
| "prim_name PUintptr = ''uintptr''"
| "prim_name PFloat32 = ''float32''"
| "prim_name PFloat64 = ''float64''"
| "prim_name PComplex64 = ''complex64''"
| "prim_name PComplex128 = ''complex128''"
| "prim_name PString = ''string''"
| "prim_name PUnsafePointer = ''Pointer''"

definition Name :: "decls \<Rightarrow> gotype \<Rightarrow> string" where
  "Name D typ = (case typ of Prim p \<Rightarrow> prim_name p | StructT n \<Rightarrow> sd_Name (D n) | _ \<Rightarrow> [])"

text \<open>\<^verbatim>\<open>getTypeName\<close>.\<close>

definition getTypeName :: "decls \<Rightarrow> gotype \<Rightarrow> string" where
  "getTypeName D typ = (if Kind typ = KPointer then Name D (Elem typ) else Name D typ)"

section \<open>The schema synthesizer (jsonschema/schema.go)\<close>

text \<open>
  \<^verbatim>\<open>Schemer\<close>: the three settings, which no method changes, and the state the methods
  share through the \<^verbatim>\<open>types\<close> map: the map itself (the memoization cache) and the store
  of type lists, with the next free address.
\<close>

record schemer =
  sc_DefaultStructRequire :: bool
  sc_RefPath :: string
  sc_GetTypeName :: "gotype \<Rightarrow> string"

record sstate =
  st_types :: "gotype \<Rightarrow> schema option"
  st_heap :: "nat \<Rightarrow> string list"
  st_next :: nat

text \<open>\<^verbatim>\<open>NewSchemer\<close>.\<close>

definition NewSchemer :: "decls \<Rightarrow> schemer" where
  "NewSchemer D =
     \<lparr>sc_DefaultStructRequire = False, sc_RefPath = ''/schemas/'', sc_GetTypeName = getTypeName D\<rparr>"

definition empty_sstate :: sstate where
  "empty_sstate = \<lparr>st_types = (\<lambda>_. None), st_heap = (\<lambda>_. []), st_next = 0\<rparr>"

text \<open>
  A call of the synthesizer panics, or returns a schema and an error (Go returns both)
  and leaves a new state.
\<close>

datatype sres = SPanic | SRet schema "err option" sstate

text \<open>\<^verbatim>\<open>openapi.NewSingleOrArray\<close>: a fresh cell holding the given type names.\<close>

definition NewSingleOrArray :: "string list \<Rightarrow> sstate \<Rightarrow> nat \<times> sstate" where
  "NewSingleOrArray xs st =
     (st_next st, st\<lparr>st_heap := (st_heap st)(st_next st := xs), st_next := Suc (st_next st)\<rparr>)"

text \<open>\<^verbatim>\<open>(*SingleOrArray).Add\<close> on a cell: the name is appended in place.\<close>

definition Add_type :: "nat \<Rightarrow> string \<Rightarrow> sstate \<Rightarrow> sstate" where
  "Add_type a x st = st\<lparr>st_heap := (st_heap st)(a := st_heap st a @ [x])\<rparr>"

text \<open>\<^verbatim>\<open>Schema.GetType\<close> and \<^verbatim>\<open>Schema.hasType\<close>.\<close>

definition GetType :: "sstate \<Rightarrow> schema \<Rightarrow> string list" where
  "GetType st s = (case os_Type (sch_Schema s) of None \<Rightarrow> [] | Some a \<Rightarrow> st_heap st a)"

definition hasType :: "sstate \<Rightarrow> schema \<Rightarrow> bool" where
  "hasType st s = (length (GetType st s) > 0)"

definition with_Type :: "string \<Rightarrow> sstate \<Rightarrow> schema \<times> sstate" where
  "with_Type t st =
     (case NewSingleOrArray [t] st of
        (a, st') \<Rightarrow> (New\<lparr>sch_Schema := set_Type (Some a) (sch_Schema New)\<rparr>, st'))"

definition createBoolSchema :: "sstate \<Rightarrow> schema \<times> sstate" where
  "createBoolSchema st = with_Type BooleanType st"

definition createStringSchema :: "sstate \<Rightarrow> schema \<times> sstate" where
  "createStringSchema st = with_Type StringType st"

definition createIntSchema :: "kind \<Rightarrow> sstate \<Rightarrow> schema \<times> sstate" where
  "createIntSchema k st =
     (case with_Type IntegerType st of
        (s, st') \<Rightarrow>
          (if k = KInt32 then s\<lparr>sch_Schema := set_Format Int32Format (sch_Schema s)\<rparr>
           else if k = KInt64 then s\<lparr>sch_Schema := set_Format Int64Format (sch_Schema s)\<rparr>
           else s, st'))"

definition createUintSchema :: "kind \<Rightarrow> sstate \<Rightarrow> schema \<times> sstate" where
  "createUintSchema k st =
     (case with_Type IntegerType st of
        (s0, st') \<Rightarrow>
          let s = s0\<lparr>sch_Schema := set_Minimum (Some 0) (sch_Schema s0)\<rparr> in
          (if k = KUint32 then s\<lparr>sch_Schema := set_Format Int32Format (sch_Schema s)\<rparr>
           else if k = KUint64 then s\<lparr>sch_Schema := set_Format Int64Format (sch_Schema s)\<rparr>
           else s, st'))"

definition createFloatSchema :: "sstate \<Rightarrow> schema \<times> sstate" where
  "createFloatSchema st =
     (case with_Type NumberType st of
        (s, st') \<Rightarrow> (s\<lparr>sch_Schema := set_Format FloatFormat (sch_Schema s)\<rparr>, st'))"

text \<open>\<^verbatim>\<open>loadSchemaOptions\<close> and \<^verbatim>\<open>JSONFieldName\<close>.\<close>

definition loadSchemaOptions :: "field \<Rightarrow> oschema \<Rightarrow> oschema" where
  "loadSchemaOptions f s =
     (let s1 = (if Tag_Get (fld_Tag f) ''default'' \<noteq> []
                then set_Default (Some (Tag_Get (fld_Tag f) ''default'')) s else s)
      in if Tag_Get (fld_Tag f) ''doc'' \<noteq> []
         then set_Description (Tag_Get (fld_Tag f) ''doc'') s1 else s1)"

definition JSONFieldName :: "field \<Rightarrow> string" where
  "JSONFieldName f =
     (let jsonTag = Tag_Get (fld_Tag f) ''json'' in
      if jsonTag = ''-'' then []
      else let name = takeWhile (\<lambda>c. c \<noteq> CHR '','') jsonTag in
           if name = [] then fld_Name f else name)"

text \<open>\<^verbatim>\<open>Schemer.NewRef\<close>, \<^verbatim>\<open>useRefs\<close> and \<^verbatim>\<open>refOrSpec\<close>.\<close>

definition NewRef :: "schemer \<Rightarrow> string \<Rightarrow> string" where
  "NewRef cfg name = (if name = [] then [] else sc_RefPath cfg @ name)"

definition useRefs :: "schemer \<Rightarrow> bool" where
  "useRefs cfg = (sc_RefPath cfg \<noteq> [])"

definition refOrSpec :: "schemer \<Rightarrow> sstate \<Rightarrow> gotype \<Rightarrow> schema \<Rightarrow> bool \<Rightarrow> ref_or_spec" where
  "refOrSpec cfg st t s useRef =
     (case st_types st t of
        Some fieldSchema \<Rightarrow>
          if useRef then Ref (NewRef cfg (sch_name fieldSchema)) else Spec (sch_Schema s)
      | None \<Rightarrow> Spec (sch_Schema s))"

text \<open>\<^verbatim>\<open>addObjectRequired\<close>.\<close>

definition addObjectRequired :: "schemer \<Rightarrow> sstate \<Rightarrow> field \<Rightarrow> schema \<Rightarrow> schema \<Rightarrow> schema" where
  "addObjectRequired cfg st f s fieldSchema =
     (let fieldName = JSONFieldName f in
      if fieldName \<noteq> [] then
        let shouldUseRef = (useRefs cfg \<and> \<not> sch_noRef fieldSchema);
            specOrRef = refOrSpec cfg st (fld_Type f) fieldSchema shouldUseRef;
            o1 = set_Properties (map_assign (os_Properties (sch_Schema s)) fieldName specOrRef)
                   (sch_Schema s);
            o2 = (if sc_DefaultStructRequire cfg \<and> Kind (fld_Type f) \<noteq> KPointer
                  then set_Required (os_Required o1 @ [fieldName]) o1 else o1)
        in s\<lparr>sch_Schema := o2\<rparr>
      else s)"

text \<open>
  The functions that recurse take the recursive call \<open>rec\<close> (\<^verbatim>\<open>s.schemaFromType\<close>) as
  an argument; it returns \<open>None\<close> when the call does not return.
\<close>

type_synonym schema_rec = "sstate \<Rightarrow> gotype \<Rightarrow> sres option"

text \<open>\<^verbatim>\<open>createArraySchema\<close>.\<close>

definition createArraySchema :: "schema_rec \<Rightarrow> schemer \<Rightarrow> sstate \<Rightarrow> gotype \<Rightarrow> sres option" where
  "createArraySchema rec cfg st typ =
     (case with_Type ArrayType st of
        (s, st0) \<Rightarrow>
          (case rec st0 (Elem typ) of
             None \<Rightarrow> None
           | Some SPanic \<Rightarrow> Some SPanic
           | Some (SRet arrayItemSchema (Some e) st1) \<Rightarrow> Some (SRet s (Some e) st1)
           | Some (SRet arrayItemSchema None st1) \<Rightarrow>
               if hasType st1 arrayItemSchema then
                 let specOrRef = refOrSpec cfg st1 (Elem typ) arrayItemSchema
                                   (useRefs cfg \<and> \<not> sch_noRef arrayItemSchema)
                 in Some (SRet (s\<lparr>sch_Schema := set_Items (Some specOrRef) (sch_Schema s)\<rparr>) None st1)
               else Some (SRet s None st1)))"

text \<open>
  \<^verbatim>\<open>createPointerSchema\<close>. \<^verbatim>\<open>Add\<close> writes through the \<^verbatim>\<open>Type\<close> pointer of the pointee's
  schema, so it panics when that pointer is nil.
\<close>

definition createPointerSchema :: "schema_rec \<Rightarrow> sstate \<Rightarrow> gotype \<Rightarrow> sres option" where
  "createPointerSchema rec st typ =
     (case rec st (Elem typ) of
        None \<Rightarrow> None
      | Some SPanic \<Rightarrow> Some SPanic
      | Some (SRet typeSchema (Some e) st1) \<Rightarrow> Some (SRet typeSchema (Some e) st1)
      | Some (SRet typeSchema None st1) \<Rightarrow>
          (case os_Type (sch_Schema typeSchema) of
             None \<Rightarrow> Some SPanic
           | Some a \<Rightarrow> Some (SRet typeSchema None (Add_type a NullType st1))))"

text \<open>\<^verbatim>\<open>createMapSchema\<close>.\<close>

definition createMapSchema :: "schema_rec \<Rightarrow> sstate \<Rightarrow> gotype \<Rightarrow> sres option" where
  "createMapSchema rec st typ =
     (if Kind (Key typ) \<noteq> KString then Some (SRet New (Some ErrInvalidMapKey) st)
      else
        (case with_Type ObjectType st of
           (s, st0) \<Rightarrow>
             (case rec st0 (Elem typ) of
                None \<Rightarrow> None
              | Some SPanic \<Rightarrow> Some SPanic
              | Some (SRet mapItemSchema (Some e) st1) \<Rightarrow> Some (SRet s (Some e) st1)
              | Some (SRet mapItemSchema None st1) \<Rightarrow>
                  if hasType st1 mapItemSchema then
                    Some (SRet (s\<lparr>sch_Schema :=
                                     set_AdditionalProperties (Some (Spec (sch_Schema mapItemSchema)))
                                       (sch_Schema s)\<rparr>) None st1)
                  else Some (SRet s None st1))))"

text \<open>
  The closure \<^verbatim>\<open>updateSchema\<close> of \<^verbatim>\<open>schemaFromStruct\<close>: \<open>s\<close> is the captured variable
  \<^verbatim>\<open>schema\<close>, returned with the error.
\<close>

definition updateSchema ::
  "schema_rec \<Rightarrow> schemer \<Rightarrow> nat \<Rightarrow> schema \<Rightarrow> sstate \<Rightarrow> field \<Rightarrow> sres option" where
  "updateSchema rec cfg fieldCount s st f =
     (let hasFieldType = (st_types st (fld_Type f) \<noteq> None) in
      case rec st (fld_Type f) of
        None \<Rightarrow> None
      | Some SPanic \<Rightarrow> Some SPanic
      | Some (SRet fieldSchema0 (Some e) st1) \<Rightarrow> Some (SRet s (Some e) st1)
      | Some (SRet fieldSchema0 None st1) \<Rightarrow>
          let fieldSchema =
                fieldSchema0\<lparr>sch_Schema := loadSchemaOptions f (sch_Schema fieldSchema0)\<rparr>
          in
          if fld_Anonymous f then
            let st2 = (if \<not> hasFieldType
                       then st1\<lparr>st_types := (st_types st1)(fld_Type f := None)\<rparr> else st1)
            in
            if fieldCount = 1 then Some (SRet fieldSchema None st2)
            else Some (SRet (s\<lparr>sch_Schema :=
                                  set_Properties
                                    (maps_Copy (os_Properties (sch_Schema s))
                                       (os_Properties (sch_Schema fieldSchema)))
                                    (sch_Schema s)\<rparr>) None st2)
          else Some (SRet (addObjectRequired cfg st1 f s fieldSchema) None st1))"

text \<open>The loop of \<^verbatim>\<open>schemaFromStruct\<close> over the fields, ended by the first error.\<close>

fun fields_loop ::
  "schema_rec \<Rightarrow> schemer \<Rightarrow> nat \<Rightarrow> schema \<Rightarrow> sstate \<Rightarrow> field list \<Rightarrow> sres option" where
  "fields_loop rec cfg fieldCount s st [] = Some (SRet s None st)"
| "fields_loop rec cfg fieldCount s st (f # fs) =
     (case updateSchema rec cfg fieldCount s st f of
        None \<Rightarrow> None
      | Some SPanic \<Rightarrow> Some SPanic
      | Some (SRet s' (Some e) st') \<Rightarrow> Some (SRet s' (Some e) st')
      | Some (SRet s' None st') \<Rightarrow> fields_loop rec cfg fieldCount s' st' fs)"

text \<open>\<^verbatim>\<open>schemaFromStruct\<close>.\<close>

definition schemaFromStruct :: "schema_rec \<Rightarrow> decls \<Rightarrow> schemer \<Rightarrow> sstate \<Rightarrow> gotype \<Rightarrow> sres option" where
  "schemaFromStruct rec D cfg st typ =
     (case with_Type ObjectType st of
        (s, st0) \<Rightarrow>
          fields_loop rec cfg (length (Fields D typ))
            (s\<lparr>sch_Schema := set_Properties [] (sch_Schema s)\<rparr>) st0 (Fields D typ))"

text \<open>\<^verbatim>\<open>typ.Implements(noReferType)\<close>.\<close>

definition implements_noRefer :: "decls \<Rightarrow> gotype \<Rightarrow> bool" where
  "implements_noRefer D typ = (case typ of StructT n \<Rightarrow> sd_NoRef (D n) | _ \<Rightarrow> False)"

text \<open>
  \<^verbatim>\<open>createStructSchema\<close>: the type is entered in the cache after \<^verbatim>\<open>schemaFromStruct\<close>
  has returned.
\<close>

definition createStructSchema :: "schema_rec \<Rightarrow> decls \<Rightarrow> schemer \<Rightarrow> sstate \<Rightarrow> gotype \<Rightarrow> sres option" where
  "createStructSchema rec D cfg st typ =
     (case schemaFromStruct rec D cfg st typ of
        None \<Rightarrow> None
      | Some SPanic \<Rightarrow> Some SPanic
      | Some (SRet structSchema (Some e) st1) \<Rightarrow> Some (SRet structSchema (Some e) st1)
      | Some (SRet structSchema None st1) \<Rightarrow>
          let s1 = structSchema\<lparr>sch_name := sc_GetTypeName cfg typ\<rparr>;
              s2 = (if implements_noRefer D typ then s1\<lparr>sch_noRef := True\<rparr> else s1)
          in Some (SRet s2 None (st1\<lparr>st_types := (st_types st1)(typ \<mapsto> s2)\<rparr>)))"

text \<open>\<^verbatim>\<open>createSchemaByKind\<close>.\<close>

definition createSchemaByKind :: "schema_rec \<Rightarrow> decls \<Rightarrow> schemer \<Rightarrow> sstate \<Rightarrow> gotype \<Rightarrow> sres option" where
  "createSchemaByKind rec D cfg st typ =
     (let k = Kind typ in
      if k = KBool then (case createBoolSchema st of (s, st') \<Rightarrow> Some (SRet s None st'))
      else if k = KString then (case createStringSchema st of (s, st') \<Rightarrow> Some (SRet s None st'))
      else if k \<in> {KInt, KInt8, KInt16, KInt32, KInt64}
        then (case createIntSchema k st of (s, st') \<Rightarrow> Some (SRet s None st'))
      else if k \<in> {KUint, KUint8, KUint16, KUint32, KUint64}
        then (case createUintSchema k st of (s, st') \<Rightarrow> Some (SRet s None st'))
      else if k \<in> {KFloat32, KFloat64}
        then (case createFloatSchema st of (s, st') \<Rightarrow> Some (SRet s None st'))
      else if k \<in> {KSlice, KArray} then createArraySchema rec cfg st typ
      else if k = KPointer then createPointerSchema rec st typ
      else if k = KMap then createMapSchema rec st typ
      else if k = KStruct then createStructSchema rec D cfg st typ
      else if k = KInterface then Some (SRet New None st)
      else Some (SRet New (Some (UnknownTypeError typ k)) st))"

text \<open>\<^verbatim>\<open>handleCustomSchemer\<close>, given what \<^verbatim>\<open>JSONSchema()\<close> returned.\<close>

definition handleCustomSchemer ::
  "schemer \<Rightarrow> sstate \<Rightarrow> schema \<times> string list option \<Rightarrow> gotype \<Rightarrow> sres" where
  "handleCustomSchemer cfg st js typ =
     (case js of
        (s0, tys) \<Rightarrow>
          (case (case tys of
                   None \<Rightarrow> (s0\<lparr>sch_Schema := set_Type None (sch_Schema s0)\<rparr>, st)
                 | Some xs \<Rightarrow>
                     (case NewSingleOrArray xs st of
                        (a, st') \<Rightarrow> (s0\<lparr>sch_Schema := set_Type (Some a) (sch_Schema s0)\<rparr>, st')))
           of (s1, st1) \<Rightarrow>
             let s2 = (if sch_name s1 = [] then s1\<lparr>sch_name := sc_GetTypeName cfg typ\<rparr> else s1)
             in SRet s2 None (st1\<lparr>st_types := (st_types st1)(typ \<mapsto> s2)\<rparr>)))"

text \<open>\<^verbatim>\<open>applyExtensions\<close>.\<close>

definition applyExtensions :: "decls \<Rightarrow> sstate \<Rightarrow> gotype \<Rightarrow> schema \<Rightarrow> sres" where
  "applyExtensions D st typ s =
     (case method_of D sd_JSONSchemaExtend typ of
        None \<Rightarrow> SRet s None st
      | Some extend_fn \<Rightarrow>
          let s' = extend_fn s in
          if Kind typ = KStruct then SRet s' None (st\<lparr>st_types := (st_types st)(typ \<mapsto> s')\<rparr>)
          else SRet s' None st)"

text \<open>
  \<^verbatim>\<open>schemaFromType\<close>. The first argument bounds the depth of the nested calls; the call
  does not return within that depth when the result is \<open>None\<close>. A nil \<^verbatim>\<open>reflect.Type\<close>
  is \<open>None\<close>.
\<close>

fun schemaFromType :: "nat \<Rightarrow> decls \<Rightarrow> schemer \<Rightarrow> sstate \<Rightarrow> gotype option \<Rightarrow> sres option" where
  "schemaFromType 0 D cfg st t = None"
| "schemaFromType (Suc n) D cfg st None = Some (SRet New None st)"
| "schemaFromType (Suc n) D cfg st (Some typ) =
     (case st_types st typ of
        Some s \<Rightarrow> Some (SRet s None st)
      | None \<Rightarrow>
          (case method_of D sd_JSONSchema typ of
             Some js \<Rightarrow> Some (handleCustomSchemer cfg st js typ)
           | None \<Rightarrow>
               (case createSchemaByKind (\<lambda>st' t'. schemaFromType n D cfg st' (Some t')) D cfg st typ of
                  None \<Rightarrow> None
                | Some SPanic \<Rightarrow> Some SPanic
                | Some (SRet s (Some e) st1) \<Rightarrow> Some (SRet s (Some e) st1)
                | Some (SRet s None st1) \<Rightarrow> Some (applyExtensions D st1 typ s))))"

text \<open>\<^verbatim>\<open>Schemer.Get\<close>, on a \<^verbatim>\<open>reflect.Type\<close>.\<close>

definition Get :: "nat \<Rightarrow> decls \<Rightarrow> schemer \<Rightarrow> sstate \<Rightarrow> gotype option \<Rightarrow> sres option" where
  "Get n D cfg st obj = schemaFromType n D cfg st obj"

section \<open>Specification-side definitions for the synthesizer\<close>

text \<open>
  The table of the primitive kinds in the specification's words (type, format, minimum),
  with the format of both floating point kinds as the code gives it. The kinds the table
  leaves out have no schema.
\<close>

fun spec_primitive_schema :: "prim \<Rightarrow> (string \<times> string \<times> int option) option" where
  "spec_primitive_schema PBool = Some (''boolean'', [], None)"
| "spec_primitive_schema PString = Some (''string'', [], None)"
| "spec_primitive_schema PInt = Some (''integer'', [], None)"
| "spec_primitive_schema PInt8 = Some (''integer'', [], None)"
| "spec_primitive_schema PInt16 = Some (''integer'', [], None)"
| "spec_primitive_schema PInt32 = Some (''integer'', ''int32'', None)"
| "spec_primitive_schema PInt64 = Some (''integer'', ''int64'', None)"
| "spec_primitive_schema PUint = Some (''integer'', [], Some 0)"
| "spec_primitive_schema PUint8 = Some (''integer'', [], Some 0)"
| "spec_primitive_schema PUint16 = Some (''integer'', [], Some 0)"
| "spec_primitive_schema PUint32 = Some (''integer'', ''int32'', Some 0)"
| "spec_primitive_schema PUint64 = Some (''integer'', ''int64'', Some 0)"
| "spec_primitive_schema PFloat32 = Some (''number'', ''float'', None)"
| "spec_primitive_schema PFloat64 = Some (''number'', ''float'', None)"
| "spec_primitive_schema _ = None"

text \<open>
  The field graph of a type has depth at most \<open>n\<close>: every chain of element, pointee and
  field types that starts at the type ends within \<open>n\<close> steps. A struct type that contains
  itself, directly or through other types, has no depth.
\<close>

inductive type_depth :: "decls \<Rightarrow> gotype \<Rightarrow> nat \<Rightarrow> bool" for D :: decls where
  depth_leaf: "Kind t \<notin> {KSlice, KArray, KPointer, KMap, KStruct} \<Longrightarrow> type_depth D t (Suc n)"
| depth_slice: "type_depth D t n \<Longrightarrow> type_depth D (SliceT t) (Suc n)"
| depth_array: "type_depth D t n \<Longrightarrow> type_depth D (ArrayT t) (Suc n)"
| depth_ptr: "type_depth D t n \<Longrightarrow> type_depth D (PtrT t) (Suc n)"
| depth_map: "type_depth D t n \<Longrightarrow> type_depth D (MapT k t) (Suc n)"
| depth_struct: "\<forall>f \<in> set (sd_Fields (D name)). type_depth D (fld_Type f) n \<Longrightarrow>
                 type_depth D (StructT name) (Suc n)"

text \<open>A call returns (with a schema, an error or a panic) within the given depth.\<close>

definition returns :: "sres option \<Rightarrow> bool" where
  "returns r = (r \<noteq> None)"

text \<open>One recursive call returns whatever the other does.\<close>

definition rec_le :: "schema_rec \<Rightarrow> schema_rec \<Rightarrow> bool" where
  "rec_le r1 r2 = (\<forall>st t r. r1 st t = Some r \<longrightarrow> r2 st t = Some r)"

text \<open>Example declarations: no struct types at all; a linked list node; a pair.\<close>

definition no_decls :: decls where
  "no_decls = (\<lambda>_. plain_struct [] [])"

definition Node_decls :: decls where
  "Node_decls = (\<lambda>_. plain_struct ''Node''
     [\<lparr>fld_Name = ''Next'', fld_Type = PtrT (StructT ''Node''), fld_Tag = [],
       fld_Anonymous = False\<rparr>])"

definition Pair_decls :: decls where
  "Pair_decls = (\<lambda>_. plain_struct ''Pair''
     [\<lparr>fld_Name = ''A'', fld_Type = Prim PInt, fld_Tag = [], fld_Anonymous = False\<rparr>,
      \<lparr>fld_Name = ''B'', fld_Type = PtrT (Prim PString), fld_Tag = [], fld_Anonymous = False\<rparr>])"

section \<open>The type walker (package param)\<close>

text \<open>\<^verbatim>\<open>param.Info\<close>; a nil \<^verbatim>\<open>Type\<close> is \<open>None\<close>.\<close>

record info =
  i_Name :: string
  i_Source :: string
  i_Default :: string
  i_Type :: "gotype option"
  i_Field :: field
  i_Struct :: gotype
  i_ParentFields :: "field list"

text \<open>
  \<^verbatim>\<open>Namer\<close> and \<^verbatim>\<open>Parser\<close> are function values and may be nil (\<open>None\<close>); calling a
  nil function panics.
\<close>

type_synonym namer = "string \<Rightarrow> string \<Rightarrow> string"

text \<open>What a call of the walker does: it panics, fails with an error, or returns infos.\<close>

datatype wres = WPanic | WErr err | WOk "info list"

text \<open>
  \<^verbatim>\<open>GetSourceAndType\<close>: the source and the value type, or \<open>None\<close> for the result
  \<^verbatim>\<open>("", nil, false)\<close> of a type without a \<^verbatim>\<open>Source\<close> method.
\<close>

definition GetSourceAndType :: "decls \<Rightarrow> gotype \<Rightarrow> (string \<times> gotype) option" where
  "GetSourceAndType D typ =
     (case method_of D sd_Source typ of
        None \<Rightarrow> None
      | Some source \<Rightarrow>
          Some (source, case method_of D sd_Inner typ of Some (Some t) \<Rightarrow> t | _ \<Rightarrow> typ))"

text \<open>
  The variable \<^verbatim>\<open>reflect.New(typ)\<close> points to: the zero value of the type. A struct type
  with an \<^verbatim>\<open>UnmarshalText\<close> method is a text object in its initial state.
\<close>

definition zero_val :: "decls \<Rightarrow> gotype \<Rightarrow> goval" where
  "zero_val D typ =
     (case typ of
        Prim PInt \<Rightarrow> VInt 0 | Prim PInt8 \<Rightarrow> VInt8 0 | Prim PInt16 \<Rightarrow> VInt16 0
      | Prim PInt32 \<Rightarrow> VInt32 0 | Prim PInt64 \<Rightarrow> VInt64 0
      | Prim PUint \<Rightarrow> VUint 0 | Prim PUint8 \<Rightarrow> VUint8 0 | Prim PUint16 \<Rightarrow> VUint16 0
      | Prim PUint32 \<Rightarrow> VUint32 0 | Prim PUint64 \<Rightarrow> VUint64 0
      | Prim PFloat32 \<Rightarrow> VFloat32 (Finite 0) | Prim PFloat64 \<Rightarrow> VFloat64 (Finite 0)
      | Prim PBool \<Rightarrow> VBool False
      | Prim PString \<Rightarrow> VString []
      | StructT n \<Rightarrow>
          (case sd_UnmarshalText (D n) of
             Some um \<Rightarrow> VText \<lparr>tu_state = [], tu_UnmarshalText = um\<rparr>
           | None \<Rightarrow> VOther typ)
      | _ \<Rightarrow> VOther typ)"

text \<open>\<^verbatim>\<open>NameFromField\<close>; \<open>None\<close> is the panic of calling a nil namer.\<close>

definition NameFromField :: "field \<Rightarrow> namer option \<Rightarrow> string \<Rightarrow> string option" where
  "NameFromField f nm source =
     (let name = Tag_Get (fld_Tag f) ''name'' in
      if name = [] then (case nm of None \<Rightarrow> None | Some g \<Rightarrow> Some (g (fld_Name f) source))
      else Some name)"

text \<open>
  \<^verbatim>\<open>canParseType\<close>. The trial parse writes to the variable, which the caller goes on to
  use, so the outcome carries it. The type \<^verbatim>\<open>reflect.New(field.Type)\<close> points to has the
  methods of the field's type, so the second assertion of the source (on the pointee
  itself) finds nothing the first did not.
\<close>

definition canParseType :: "decls \<Rightarrow> parser option \<Rightarrow> goval \<Rightarrow> field \<Rightarrow> outcome" where
  "canParseType D p v f =
     (case call_parser p v [[]] of
        Panic \<Rightarrow> Panic
      | Ret e v' \<Rightarrow>
          if \<not> errors_Is_InvalidParamType e then Ret None v'
          else
            (case method_of D sd_CanParse (fld_Type f) of
               Some cp \<Rightarrow> (case p of None \<Rightarrow> Panic | Some g \<Rightarrow> Ret (cp g f v') v')
             | None \<Rightarrow> Ret (Some ErrInvalidParamType) v'))"

text \<open>\<^verbatim>\<open>errors.As(err, &want)\<close> for \<^verbatim>\<open>*InvalidParamError\<close>: the first one in the chain.\<close>

fun as_InvalidParamError :: "err \<Rightarrow> invalid_param option" where
  "as_InvalidParamError (InvalidParamError x) = Some x"
| "as_InvalidParamError (Wrapf _ e _) = as_InvalidParamError e"
| "as_InvalidParamError (Wrap2 a b) =
     (case as_InvalidParamError a of Some x \<Rightarrow> Some x | None \<Rightarrow> as_InvalidParamError b)"
| "as_InvalidParamError (Joined es) =
     (case List.find (\<lambda>x. x \<noteq> None) (map as_InvalidParamError es) of
        Some r \<Rightarrow> r | None \<Rightarrow> None)"
| "as_InvalidParamError _ = None"

definition ErrUnparsableDefault :: string where
  "ErrUnparsableDefault = ''default value cannot be parsed''"

text \<open>
  What the model takes from outside as the parameter \<open>rd\<close>:
  \<^item> \<open>rd_Error\<close>: the text of the errors that are rendered as a diagnostic with the struct
    printed (or with a type's name in it);
  \<^item> \<open>rd_Quote\<close>: \<^verbatim>\<open>strconv.Quote\<close> of the standard library, which is also what the verb
    \<^verbatim>\<open>%q\<close> of \<^verbatim>\<open>fmt\<close> applies to a string.
\<close>

record render =
  rd_Error :: "err \<Rightarrow> string"
  rd_Quote :: "string \<Rightarrow> string"

text \<open>
  \<^verbatim>\<open>err.Error()\<close>. The text of a \<^verbatim>\<open>*strconv.NumError\<close> is
  \<^verbatim>\<open>"strconv." + e.Func + ": parsing " + strconv.Quote(e.Num) + ": " + e.Err.Error()\<close>.
\<close>

fun Error_text :: "render \<Rightarrow> err \<Rightarrow> string" where
  "Error_text rd ErrInvalidParamType = ''invalid param type''"
| "Error_text rd ErrNonStructArg = ''handler argument should be a struct''"
| "Error_text rd ErrNoParser = ''no param parser provided''"
| "Error_text rd ErrParamFailedToExtract = ''failed to extract param''"
| "Error_text rd ErrInvalidMapKey = ''maps only support string keys''"
| "Error_text rd (NumError fn num e) =
     ''strconv.'' @ fn @ '': parsing '' @ rd_Quote rd num @ '': '' @
       (case e of ErrSyntax \<Rightarrow> ''invalid syntax'' | ErrRange \<Rightarrow> ''value out of range'')"
| "Error_text rd (OtherError s) = s"
| "Error_text rd (Wrapf pre e post) = pre @ Error_text rd e @ post"
| "Error_text rd (Wrap2 a b) = Error_text rd a @ '': '' @ Error_text rd b"
| "Error_text rd (Joined es) =
     (case es of [] \<Rightarrow> [] | x # xs \<Rightarrow> Error_text rd x @ concat (map (\<lambda>y. CHR 0x0A # Error_text rd y) xs))"
| "Error_text rd e = rd_Error rd e"

text \<open>
  \<^verbatim>\<open>infoFromField\<close>, \<^verbatim>\<open>getParamsFromStruct\<close> and the loop of \<^verbatim>\<open>infoFromValue\<close>, with the
  recursive call \<open>rec\<close> (\<^verbatim>\<open>infoFromValue\<close> on the type of a nested struct) as an
  argument; \<open>rec\<close> returns \<open>None\<close> when the call does not return.
\<close>

type_synonym walk_rec = "gotype \<Rightarrow> wres option"

definition getParamsFromStruct :: "walk_rec \<Rightarrow> field \<Rightarrow> parser option \<Rightarrow> wres option" where
  "getParamsFromStruct rec f p =
     (if p = None then Some (WErr ErrNoParser)
      else if Kind (fld_Type f) \<noteq> KStruct then Some (WOk [])
      else
        (case rec (fld_Type f) of
           None \<Rightarrow> None
         | Some WPanic \<Rightarrow> Some WPanic
         | Some (WErr e) \<Rightarrow> Some (WErr e)
         | Some (WOk infos) \<Rightarrow>
             Some (WOk (map (\<lambda>i. i\<lparr>i_ParentFields := i_ParentFields i @ [f]\<rparr>) infos))))"

definition infoFromField ::
  "walk_rec \<Rightarrow> decls \<Rightarrow> render \<Rightarrow> gotype \<Rightarrow> field \<Rightarrow> namer option \<Rightarrow> parser option
   \<Rightarrow> wres option" where
  "infoFromField rec D rd structType f nm p =
     (case GetSourceAndType D (fld_Type f) of
        None \<Rightarrow> getParamsFromStruct rec f p
      | Some (source, ty) \<Rightarrow>
            (case canParseType D p (zero_val D ty) f of
               Panic \<Rightarrow> Some WPanic
             | Ret (Some e) v \<Rightarrow>
                 (case as_InvalidParamError e of
                    Some want \<Rightarrow> Some (WErr (InvalidParamError want))
                  | None \<Rightarrow>
                      Some (WErr (InvalidParamError
                        \<lparr>ipe_Struct = structType, ipe_Field = f, ipe_ParamType = Some ty,
                         ipe_Message = [], ipe_Err = [], ipe_UnderlineAll = False\<rparr>)))
             | Ret None v \<Rightarrow>
                 let defaultValue = Tag_Get (fld_Tag f) ''default'' in
                 (case (if defaultValue \<noteq> [] then call_parser p v [defaultValue]
                        else Ret None v) of
                    Panic \<Rightarrow> Some WPanic
                  | Ret (Some e) v' \<Rightarrow>
                      Some (WErr (InvalidParamError
                        \<lparr>ipe_Struct = structType, ipe_Field = f, ipe_ParamType = Some ty,
                         ipe_Message = ErrUnparsableDefault @ '': '' @ defaultValue,
                         ipe_Err = Error_text rd e, ipe_UnderlineAll = False\<rparr>))
                  | Ret None v' \<Rightarrow>
                      (case NameFromField f nm source of
                         None \<Rightarrow> Some WPanic
                       | Some name \<Rightarrow>
                           Some (WOk [\<lparr>i_Name = name, i_Source = source,
                                       i_Default = defaultValue, i_Type = Some ty, i_Field = f,
                                       i_Struct = structType, i_ParentFields = []\<rparr>])))))"

text \<open>The loop of \<^verbatim>\<open>infoFromValue\<close>: \<open>params\<close> collects the infos field by field.\<close>

fun info_loop ::
  "walk_rec \<Rightarrow> decls \<Rightarrow> render \<Rightarrow> gotype \<Rightarrow> namer option \<Rightarrow> parser option
   \<Rightarrow> info list \<Rightarrow> field list \<Rightarrow> wres option" where
  "info_loop rec D rd structType nm p params [] = Some (WOk params)"
| "info_loop rec D rd structType nm p params (f # fs) =
     (case infoFromField rec D rd structType f nm p of
        None \<Rightarrow> None
      | Some WPanic \<Rightarrow> Some WPanic
      | Some (WErr e) \<Rightarrow> Some (WErr e)
      | Some (WOk infos) \<Rightarrow> info_loop rec D rd structType nm p (params @ infos) fs)"

text \<open>
  \<^verbatim>\<open>infoFromValue\<close> on a \<^verbatim>\<open>reflect.Type\<close>. The first argument bounds the depth of the
  nested calls; the result is \<open>None\<close> when the call does not return within it.
\<close>

fun infoFromValue ::
  "nat \<Rightarrow> decls \<Rightarrow> render \<Rightarrow> namer option \<Rightarrow> parser option \<Rightarrow> gotype \<Rightarrow> wres option" where
  "infoFromValue 0 D rd nm p structType = None"
| "infoFromValue (Suc n) D rd nm p structType =
     (if Kind structType \<noteq> KStruct
      then Some (WErr (NonStructArgError structType))
      else info_loop (infoFromValue n D rd nm p) D rd structType nm p [] (Fields D structType))"

text \<open>\<^verbatim>\<open>InfoFromStruct[T]\<close>.\<close>

definition InfoFromStruct ::
  "nat \<Rightarrow> decls \<Rightarrow> render \<Rightarrow> gotype \<Rightarrow> namer option \<Rightarrow> parser option \<Rightarrow> wres option" where
  "InfoFromStruct n D rd T nm p = infoFromValue n D rd nm p T"

section \<open>The reflection parser and the router's parser (param/parse.go, router.go)\<close>

text \<open>\<^verbatim>\<open>strings.Split(s, ",")\<close>.\<close>

fun strings_Split :: "string \<Rightarrow> string list" where
  "strings_Split [] = [[]]"
| "strings_Split (c # cs) =
     (if c = CHR '','' then [] # strings_Split cs
      else (case strings_Split cs of [] \<Rightarrow> [[c]] | w # ws \<Rightarrow> (c # w) # ws))"

text \<open>
  The loop of \<^verbatim>\<open>createSlice\<close>: each item is a fresh element of the slice, parsed from one
  text; the first error ends the loop. \<open>None\<close> is a panic of the parser.
\<close>

fun createSlice_items :: "parser \<Rightarrow> goval \<Rightarrow> string list \<Rightarrow> (err + goval list) option" where
  "createSlice_items parser zero [] = Some (Inr [])"
| "createSlice_items parser zero (x # xs) =
     (case parser zero [x] of
        Panic \<Rightarrow> None
      | Ret (Some e) v \<Rightarrow> Some (Inl (Wrapf ''error parsing array item: '' e []))
      | Ret None v \<Rightarrow>
          (case createSlice_items parser zero xs of
             None \<Rightarrow> None
           | Some (Inl e) \<Rightarrow> Some (Inl e)
           | Some (Inr vs) \<Rightarrow> Some (Inr (v # vs))))"

text \<open>
  \<^verbatim>\<open>createSlice\<close>. \<^verbatim>\<open>reflect.MakeSlice\<close> panics on a type that is not a slice type, which is
  where an array type ends.
\<close>

definition createSlice :: "decls \<Rightarrow> parser \<Rightarrow> string list \<Rightarrow> gotype \<Rightarrow> (err + goval list) option" where
  "createSlice D parser params typ =
     (let params' = (if length params = 1 then strings_Split (hd params) else params) in
      if Kind typ \<noteq> KSlice then None
      else createSlice_items parser (zero_val D (Elem typ)) params')"

text \<open>
  \<^verbatim>\<open>NewReflectParser\<close>: the type of the variable decides; a variable of an array or slice
  type is set to the slice built, and left as it is on an error.
\<close>

definition NewReflectParser :: "decls \<Rightarrow> parser \<Rightarrow> parser" where
  "NewReflectParser D parser v params =
     (case (case v of
              VSlice typ items \<Rightarrow> Some typ
            | VOther typ \<Rightarrow> if Kind typ = KArray \<or> Kind typ = KSlice then Some typ else None
            | _ \<Rightarrow> None) of
        None \<Rightarrow> Ret (Some ErrInvalidParamType) v
      | Some typ \<Rightarrow>
          (case createSlice D parser params typ of
             None \<Rightarrow> Panic
           | Some (Inl e) \<Rightarrow> Ret (Some e) v
           | Some (Inr items) \<Rightarrow> Ret None (VSlice typ items)))"

text \<open>\<^verbatim>\<open>newParamParsers\<close> of the router: the parser a new router registers handlers with.\<close>

definition newParamParsers :: "(string \<Rightarrow> nat \<Rightarrow> gofloat \<times> err option) \<Rightarrow> decls \<Rightarrow> parser" where
  "newParamParsers pf D =
     (let parsers = [ParseTextUnmarshaller, ParseInt, ParseUint, ParseFloat pf, ParseString,
                     ParseBool];
          reflectParser = NewReflectParser D (Parsers_Parse parsers);
          finalParser = [Parsers_Parse parsers, reflectParser]
      in Parsers_Parse finalParser)"

section \<open>The request-time extractor (package extractor)\<close>

text \<open>\<^verbatim>\<open>GetAndSetQueryValues\<close>: the cached query values, parsed and cached on first use.\<close>

definition GetAndSetQueryValues :: "request \<Rightarrow> (string \<Rightarrow> string list) \<times> request" where
  "GetAndSetQueryValues r =
     (case rq_cachedQuery r of
        Some values \<Rightarrow> (values, r)
      | None \<Rightarrow> (rq_URL_Query r, r\<lparr>rq_cachedQuery := Some (rq_URL_Query r)\<rparr>))"

text \<open>
  \<^verbatim>\<open>Query[T].Extract\<close> and \<^verbatim>\<open>Path[T].Extract\<close>, on the variable of type \<^verbatim>\<open>Query[T]\<close> or
  \<^verbatim>\<open>Path[T]\<close>: a struct with the single field \<^verbatim>\<open>Value\<close>. A variable of another shape
  cannot be the receiver; the model panics there.
\<close>

definition wrap_failed :: "err option \<Rightarrow> err option" where
  "wrap_failed e = (case e of None \<Rightarrow> None | Some x \<Rightarrow> Some (Wrap2 ErrParamFailedToExtract x))"

definition Query_Extract :: "request \<Rightarrow> opts \<Rightarrow> goval \<Rightarrow> outcome \<times> request" where
  "Query_Extract r opt q =
     (case q of
        VStruct nm [v] \<Rightarrow>
          (case GetAndSetQueryValues r of
             (values, r') \<Rightarrow>
               (case Opts_Parse opt v (values (o_Name opt)) of
                  Panic \<Rightarrow> (Panic, r')
                | Ret e v' \<Rightarrow> (Ret (wrap_failed e) (VStruct nm [v']), r')))
      | _ \<Rightarrow> (Panic, r))"

definition Path_Extract :: "request \<Rightarrow> opts \<Rightarrow> goval \<Rightarrow> outcome \<times> request" where
  "Path_Extract r opt q =
     (case q of
        VStruct nm [v] \<Rightarrow>
          (case o_Pather opt of
             None \<Rightarrow> (Panic, r)
           | Some pather \<Rightarrow>
               (case Opts_Parse opt v [pather (o_Name opt) r] of
                  Panic \<Rightarrow> (Panic, r)
                | Ret e v' \<Rightarrow> (Ret (wrap_failed e) (VStruct nm [v']), r)))
      | _ \<Rightarrow> (Panic, r))"

text \<open>
  The declarations of \<^verbatim>\<open>Query[T]\<close> and \<^verbatim>\<open>Path[T]\<close> under a given name. \<^verbatim>\<open>Inner()\<close> returns
  the zero \<^verbatim>\<open>Value\<close>, whose dynamic type is \<^verbatim>\<open>T\<close> unless \<^verbatim>\<open>T\<close> is an interface type.
\<close>

definition Value_field :: "gotype \<Rightarrow> field" where
  "Value_field T = \<lparr>fld_Name = ''Value'', fld_Type = T, fld_Tag = [], fld_Anonymous = False\<rparr>"

definition Query_decl :: "string \<Rightarrow> gotype \<Rightarrow> struct_decl" where
  "Query_decl nm T =
     (plain_struct nm [Value_field T])
       \<lparr>sd_Source := Some ''query'',
        sd_Inner := Some (if Kind T = KInterface then None else Some T),
        sd_ParamExtract := Some Query_Extract\<rparr>"

definition Path_decl :: "string \<Rightarrow> gotype \<Rightarrow> struct_decl" where
  "Path_decl nm T =
     (plain_struct nm [Value_field T])
       \<lparr>sd_Source := Some ''path'',
        sd_Inner := Some (if Kind T = KInterface then None else Some T),
        sd_ParamExtract := Some Path_Extract\<rparr>"

text \<open>
  A compiled extraction step: given the request and the variable it fills, the outcome
  and the request (whose context may now cache the query values).
\<close>

type_synonym extractorFn = "request \<Rightarrow> goval \<Rightarrow> outcome \<times> request"

record extractorForOpts =
  eo_Namer :: "namer option"
  eo_Parser :: "parser option"
  eo_Pather :: "(string \<Rightarrow> request \<Rightarrow> string) option"
  eo_CollectAllErrors :: bool

text \<open>
  The result of compiling: a panic (a nil namer is called), an error, or a step; \<open>CNil\<close>
  is the result \<^verbatim>\<open>(nil, nil)\<close> of a strategy that does not apply.
\<close>

datatype cres = CPanic | CErr err | CNil | CFn extractorFn

definition httpReqType :: gotype where
  "httpReqType = PtrT (StructT ''http.Request'')"

definition httpRespType :: gotype where
  "httpRespType = InterfaceT ''http.ResponseWriter''"

definition extractHTTPRequest :: "field \<Rightarrow> cres" where
  "extractHTTPRequest f =
     (if fld_Type f \<noteq> httpReqType then CNil else CFn (\<lambda>r v. (Ret None (VHTTPRequest True), r)))"

definition extractHTTPResponse :: "field \<Rightarrow> cres" where
  "extractHTTPResponse f =
     (if fld_Type f \<noteq> httpRespType then CNil else CFn (\<lambda>r v. (Ret None (VHTTPResponse True), r)))"

text \<open>\<^verbatim>\<open>extractExtractor\<close>: the pointer to the field's type implements \<^verbatim>\<open>Extractor\<close>.\<close>

definition extractExtractor :: "decls \<Rightarrow> field \<Rightarrow> cres" where
  "extractExtractor D f =
     (case method_of D sd_Extract (fld_Type f) of
        None \<Rightarrow> CNil
      | Some ex \<Rightarrow> CFn (\<lambda>r v. ex r v))"

text \<open>
  \<^verbatim>\<open>extractParamExtractor\<close>: the pointer to the field's type implements \<^verbatim>\<open>ParamExtractor\<close>
  (\<^verbatim>\<open>Extract\<close> with options, and \<^verbatim>\<open>Source\<close>). The options the step passes have the
  resolved name, the parser and the pather, and the empty string as \<^verbatim>\<open>Default\<close>.
\<close>

definition extractParamExtractor :: "decls \<Rightarrow> field \<Rightarrow> extractorForOpts \<Rightarrow> cres" where
  "extractParamExtractor D f eo =
     (case (method_of D sd_ParamExtract (fld_Type f), method_of D sd_Source (fld_Type f)) of
        (Some pe, Some source) \<Rightarrow>
          (case NameFromField f (eo_Namer eo) source of
             None \<Rightarrow> CPanic
           | Some name \<Rightarrow>
               CFn (\<lambda>r v. pe r \<lparr>o_Name = name, o_Default = [], o_Parser = eo_Parser eo,
                                 o_Pather = eo_Pather eo\<rparr> v))
      | _ \<Rightarrow> CNil)"

text \<open>
  \<^verbatim>\<open>extractFromExtractors\<close>: \<open>reg\<close> is the process-wide registry \<^verbatim>\<open>extractors\<close>, from a
  type to the function registered for it.
\<close>

type_synonym registry = "gotype \<Rightarrow> (request \<Rightarrow> goval \<times> err option) option"

definition extractFromExtractors :: "registry \<Rightarrow> field \<Rightarrow> cres" where
  "extractFromExtractors reg f =
     (case reg (fld_Type f) of
        None \<Rightarrow> CNil
      | Some ex \<Rightarrow>
          CFn (\<lambda>r v. case ex r of
                        (t, None) \<Rightarrow> (Ret None t, r)
                      | (t, Some e) \<Rightarrow> (Ret (Some (Wrap2 ErrExtactType e)) v, r)))"

text \<open>
  The functions that recurse take the recursive call \<open>rec\<close> (\<^verbatim>\<open>extractorFor\<close> on the type
  of a nested struct) as an argument; it returns \<open>None\<close> when the call does not return.
\<close>

type_synonym compile_rec = "gotype \<Rightarrow> cres option"

definition extractFromStructOfExtractors :: "compile_rec \<Rightarrow> field \<Rightarrow> cres option" where
  "extractFromStructOfExtractors rec f =
     (if Kind (fld_Type f) \<noteq> KStruct then Some CNil else rec (fld_Type f))"

text \<open>The first strategy of the list that applies (or panics).\<close>

fun first_strategy :: "cres list \<Rightarrow> cres" where
  "first_strategy [] = CNil"
| "first_strategy (CNil # cs) = first_strategy cs"
| "first_strategy (c # cs) = c"

text \<open>\<^verbatim>\<open>extractorFromField\<close>.\<close>

definition extractorFromField ::
  "compile_rec \<Rightarrow> decls \<Rightarrow> registry \<Rightarrow> field \<Rightarrow> extractorForOpts \<Rightarrow> cres option" where
  "extractorFromField rec D reg f eo =
     (case first_strategy
             [extractHTTPRequest f, extractHTTPResponse f, extractExtractor D f,
              extractParamExtractor D f eo, extractFromExtractors reg f] of
        CNil \<Rightarrow>
          (case extractFromStructOfExtractors rec f of
             None \<Rightarrow> None
           | Some CNil \<Rightarrow> Some (CErr (UnknownFieldTypeError (fld_Name f) (fld_Type f) None []))
           | Some c \<Rightarrow> Some c)
      | c \<Rightarrow> Some c)"

text \<open>
  \<^verbatim>\<open>findRelatedExtractors\<close>: the pointer to the field's type, and the pointee when the
  type is a pointer, for which a step can be compiled.
\<close>

definition has_fn :: "cres option \<Rightarrow> bool" where
  "has_fn c = (case c of Some (CFn _) \<Rightarrow> True | _ \<Rightarrow> False)"

definition findRelatedExtractors ::
  "compile_rec \<Rightarrow> decls \<Rightarrow> registry \<Rightarrow> field \<Rightarrow> extractorForOpts \<Rightarrow> (gotype list) option option" where
  "findRelatedExtractors rec D reg f eo =
     (let ty = fld_Type f in
      case extractorFromField rec D reg (f\<lparr>fld_Type := PtrT ty\<rparr>) eo of
        None \<Rightarrow> None
      | Some CPanic \<Rightarrow> Some None
      | Some c1 \<Rightarrow>
          let related = (if has_fn (Some c1) then [PtrT ty] else []) in
          if Kind ty = KPointer then
            (case extractorFromField rec D reg (f\<lparr>fld_Type := Elem ty\<rparr>) eo of
               None \<Rightarrow> None
             | Some CPanic \<Rightarrow> Some None
             | Some c2 \<Rightarrow> Some (Some (related @ (if has_fn (Some c2) then [Elem ty] else []))))
          else Some (Some related))"

text \<open>\<^verbatim>\<open>extractorFromFieldWithRelated\<close>.\<close>

definition extractorFromFieldWithRelated ::
  "compile_rec \<Rightarrow> decls \<Rightarrow> registry \<Rightarrow> field \<Rightarrow> extractorForOpts \<Rightarrow> cres option" where
  "extractorFromFieldWithRelated rec D reg f eo =
     (case extractorFromField rec D reg f eo of
        Some (CErr (UnknownFieldTypeError fname ftype st related)) \<Rightarrow>
          (case findRelatedExtractors rec D reg f eo of
             None \<Rightarrow> None
           | Some None \<Rightarrow> Some CPanic
           | Some (Some found) \<Rightarrow> Some (CErr (UnknownFieldTypeError fname ftype st found)))
      | c \<Rightarrow> c)"

text \<open>\<^verbatim>\<open>(*UnknownFieldTypeError).setStruct\<close>, applied when the error is of that type.\<close>

definition setStruct :: "gotype \<Rightarrow> err \<Rightarrow> err" where
  "setStruct structType e =
     (case e of
        UnknownFieldTypeError fname ftype None related \<Rightarrow>
          UnknownFieldTypeError fname ftype (Some structType) related
      | _ \<Rightarrow> e)"

text \<open>
  The loop of \<^verbatim>\<open>extractorFor\<close> that compiles one step per field. A nil step without an
  error would panic when it is run.
\<close>

fun compile_fields ::
  "compile_rec \<Rightarrow> decls \<Rightarrow> registry \<Rightarrow> gotype \<Rightarrow> extractorForOpts \<Rightarrow> field list
   \<Rightarrow> (cres + extractorFn list) option" where
  "compile_fields rec D reg argType eo [] = Some (Inr [])"
| "compile_fields rec D reg argType eo (f # fs) =
     (case extractorFromFieldWithRelated rec D reg f eo of
        None \<Rightarrow> None
      | Some CPanic \<Rightarrow> Some (Inl CPanic)
      | Some (CErr e) \<Rightarrow> Some (Inl (CErr (setStruct argType e)))
      | Some c \<Rightarrow>
          (case compile_fields rec D reg argType eo fs of
             None \<Rightarrow> None
           | Some (Inl c') \<Rightarrow> Some (Inl c')
           | Some (Inr fns) \<Rightarrow>
               Some (Inr ((case c of CFn fn \<Rightarrow> fn | _ \<Rightarrow> (\<lambda>r v. (Panic, r))) # fns))))"

text \<open>\<^verbatim>\<open>errors.Join\<close>: nil when there is no error.\<close>

definition errors_Join :: "err list \<Rightarrow> err option" where
  "errors_Join es = (if es = [] then None else Some (Joined es))"

text \<open>
  The function \<^verbatim>\<open>extractorFor\<close> returns: the steps run in field order, each on its field
  of the struct variable; an error ends the run unless all errors are collected.
\<close>

fun run_steps ::
  "bool \<Rightarrow> extractorFn list \<Rightarrow> err list \<Rightarrow> request \<Rightarrow> goval list \<Rightarrow> goval list
   \<Rightarrow> (err option \<times> goval list) option \<times> request" where
  "run_steps collect [] allErrors r filled todo = (Some (errors_Join allErrors, filled @ todo), r)"
| "run_steps collect (fn # fns) allErrors r filled [] = (None, r)"
| "run_steps collect (fn # fns) allErrors r filled (v # vs) =
     (case fn r v of
        (Panic, r') \<Rightarrow> (None, r')
      | (Ret None v', r') \<Rightarrow> run_steps collect fns allErrors r' (filled @ [v']) vs
      | (Ret (Some e) v', r') \<Rightarrow>
          if \<not> collect then (Some (Some e, filled @ v' # vs), r')
          else run_steps collect fns (allErrors @ [e]) r' (filled @ [v']) vs)"

definition run_extractor :: "bool \<Rightarrow> extractorFn list \<Rightarrow> extractorFn" where
  "run_extractor collect fns r args =
     (case args of
        VStruct nm vs \<Rightarrow>
          (case run_steps collect fns [] r [] vs of
             (None, r') \<Rightarrow> (Panic, r')
           | (Some (e, vs'), r') \<Rightarrow> (Ret e (VStruct nm vs'), r'))
      | _ \<Rightarrow> (Panic, r))"

text \<open>
  \<^verbatim>\<open>extractorFor\<close>. The first argument bounds the depth of the nested calls; the result
  is \<open>None\<close> when the call does not return within it.
\<close>

fun extractorFor ::
  "nat \<Rightarrow> decls \<Rightarrow> registry \<Rightarrow> extractorForOpts \<Rightarrow> gotype \<Rightarrow> cres option" where
  "extractorFor 0 D reg eo argType = None"
| "extractorFor (Suc n) D reg eo argType =
     (if Kind argType \<noteq> KStruct then Some (CErr (NonStructKindError (Kind argType)))
      else
        (case compile_fields (extractorFor n D reg eo) D reg argType eo (Fields D argType) of
           None \<Rightarrow> None
         | Some (Inl c) \<Rightarrow> Some c
         | Some (Inr fns) \<Rightarrow> Some (CFn (run_extractor (eo_CollectAllErrors eo) fns))))"

section \<open>Specification-side definitions and examples for the walker and the extractor\<close>

text \<open>
  In the specification's words: walking the struct type \<open>T\<close> discovers the parameter
  field \<open>f\<close> of the struct type \<open>S\<close> inside the enclosing fields \<open>path\<close>, listed
  outermost first. A parameter field is one whose type has a source; an enclosing field
  is a struct-typed field that has none.
\<close>

inductive param_at :: "decls \<Rightarrow> gotype \<Rightarrow> field list \<Rightarrow> gotype \<Rightarrow> field \<Rightarrow> bool" for D :: decls where
  at_top: "f \<in> set (Fields D T) \<Longrightarrow> GetSourceAndType D (fld_Type f) \<noteq> None \<Longrightarrow>
           param_at D T [] T f"
| at_nested: "g \<in> set (Fields D T) \<Longrightarrow> GetSourceAndType D (fld_Type g) = None \<Longrightarrow>
              Kind (fld_Type g) = KStruct \<Longrightarrow> param_at D (fld_Type g) path S f \<Longrightarrow>
              param_at D T (g # path) S f"

text \<open>
  The walk of \<open>T\<close> returns within the depth \<open>n\<close>: the struct-typed fields that are walked
  as nested structs nest less than \<open>n\<close> deep. (Go admits no struct type that holds itself
  by value, so every struct type has such a depth.)
\<close>

inductive walk_depth :: "decls \<Rightarrow> gotype \<Rightarrow> nat \<Rightarrow> bool" for D :: decls where
  walk_depth_struct:
    "\<forall>g \<in> set (Fields D T). GetSourceAndType D (fld_Type g) = None \<and> Kind (fld_Type g) = KStruct
        \<longrightarrow> walk_depth D (fld_Type g) n \<Longrightarrow>
     walk_depth D T (Suc n)"

text \<open>
  The parameter field \<open>f\<close> of \<open>S\<close>, inside the enclosing fields \<open>path\<close> of \<open>T\<close>, is the
  first field at which the walk of \<open>T\<close> can fail: at every level, the fields declared
  before the one the path goes through are walked without error. The number is the depth
  of the walk.
\<close>

inductive walked_first ::
  "decls \<Rightarrow> render \<Rightarrow> namer option \<Rightarrow> parser option \<Rightarrow> nat \<Rightarrow> gotype \<Rightarrow> field list \<Rightarrow> gotype
   \<Rightarrow> field \<Rightarrow> bool"
  for D :: decls and rd :: render and nm :: "namer option" and p :: "parser option" where
  first_top:
    "Fields D T = pre @ f # post \<Longrightarrow> GetSourceAndType D (fld_Type f) \<noteq> None \<Longrightarrow>
     \<forall>g \<in> set pre. \<exists>js. infoFromField (infoFromValue n D rd nm p) D rd T g nm p = Some (WOk js) \<Longrightarrow>
     walked_first D rd nm p (Suc n) T [] T f"
| first_nested:
    "Fields D T = pre @ g # post \<Longrightarrow> GetSourceAndType D (fld_Type g) = None \<Longrightarrow>
     \<forall>h \<in> set pre. \<exists>js. infoFromField (infoFromValue n D rd nm p) D rd T h nm p = Some (WOk js) \<Longrightarrow>
     walked_first D rd nm p n (fld_Type g) path S f \<Longrightarrow>
     walked_first D rd nm p (Suc n) T (g # path) S f"

text \<open>
  For each integer type, the built-in parser that handles it and the call of \<^verbatim>\<open>strconv\<close>
  that parser makes on the raw text (base 10, with the bit size of the type).
\<close>

fun int_parser :: "prim \<Rightarrow> (parser \<times> (string \<Rightarrow> int \<times> err option)) option" where
  "int_parser PInt = Some (ParseInt, \<lambda>s. strconv_ParseInt s 0)"
| "int_parser PInt8 = Some (ParseInt, \<lambda>s. strconv_ParseInt s 8)"
| "int_parser PInt16 = Some (ParseInt, \<lambda>s. strconv_ParseInt s 16)"
| "int_parser PInt32 = Some (ParseInt, \<lambda>s. strconv_ParseInt s 32)"
| "int_parser PInt64 = Some (ParseInt, \<lambda>s. strconv_ParseInt s 64)"
| "int_parser PUint = Some (ParseUint, \<lambda>s. strconv_ParseUint s 0)"
| "int_parser PUint8 = Some (ParseUint, \<lambda>s. strconv_ParseUint s 8)"
| "int_parser PUint16 = Some (ParseUint, \<lambda>s. strconv_ParseUint s 16)"
| "int_parser PUint32 = Some (ParseUint, \<lambda>s. strconv_ParseUint s 32)"
| "int_parser PUint64 = Some (ParseUint, \<lambda>s. strconv_ParseUint s 64)"
| "int_parser _ = None"

text \<open>
  Example declarations:
  \<^verbatim>\<open>type Input struct { Field routey.Query[int] `default:"1"` }\<close>,
  \<^verbatim>\<open>type BadDefault struct { Field routey.Query[int] `default:"1."` }\<close>,
  \<^verbatim>\<open>type PathInput struct { ID routey.Path[int] `required:"false"` }\<close> and the nesting
  \<^verbatim>\<open>type Outer struct { A Mid }\<close>, \<^verbatim>\<open>type Mid struct { B Inner }\<close>,
  \<^verbatim>\<open>type Inner struct { P routey.Query[int] }\<close>; the fields \<^verbatim>\<open>Flag routey.Query[bool]\<close> and
  \<^verbatim>\<open>Hook routey.Query[func()]\<close>; and
  \<^verbatim>\<open>type Search struct { Term routey.Query[string]; Limits Limits }\<close> with
  \<^verbatim>\<open>type Limits struct { Max routey.Query[int] `default:"1."` }\<close>.
\<close>

definition Hook_Field :: field where
  "Hook_Field = \<lparr>fld_Name = ''Hook'', fld_Type = StructT ''Query[func()]'', fld_Tag = [],
                  fld_Anonymous = False\<rparr>"

definition Search_Term :: field where
  "Search_Term = \<lparr>fld_Name = ''Term'', fld_Type = StructT ''Query[string]'', fld_Tag = [],
                   fld_Anonymous = False\<rparr>"

definition Search_Limits :: field where
  "Search_Limits = \<lparr>fld_Name = ''Limits'', fld_Type = StructT ''Limits'', fld_Tag = [],
                     fld_Anonymous = False\<rparr>"

definition Limits_Max :: field where
  "Limits_Max = \<lparr>fld_Name = ''Max'', fld_Type = StructT ''Query[int]'',
                  fld_Tag = [(''default'', ''1.'')], fld_Anonymous = False\<rparr>"

definition Input_Field :: field where
  "Input_Field = \<lparr>fld_Name = ''Field'', fld_Type = StructT ''Query[int]'',
                   fld_Tag = [(''default'', ''1'')], fld_Anonymous = False\<rparr>"

definition BadDefault_Field :: field where
  "BadDefault_Field = \<lparr>fld_Name = ''Field'', fld_Type = StructT ''Query[int]'',
                        fld_Tag = [(''default'', ''1.'')], fld_Anonymous = False\<rparr>"

definition PathInput_ID :: field where
  "PathInput_ID = \<lparr>fld_Name = ''ID'', fld_Type = StructT ''Path[int]'',
                    fld_Tag = [(''required'', ''false'')], fld_Anonymous = False\<rparr>"

definition Outer_A :: field where
  "Outer_A = \<lparr>fld_Name = ''A'', fld_Type = StructT ''Mid'', fld_Tag = [], fld_Anonymous = False\<rparr>"

definition Mid_B :: field where
  "Mid_B = \<lparr>fld_Name = ''B'', fld_Type = StructT ''Inner'', fld_Tag = [], fld_Anonymous = False\<rparr>"

definition Inner_P :: field where
  "Inner_P = \<lparr>fld_Name = ''P'', fld_Type = StructT ''Query[int]'', fld_Tag = [],
               fld_Anonymous = False\<rparr>"

definition Flag_Field :: field where
  "Flag_Field = \<lparr>fld_Name = ''Flag'', fld_Type = StructT ''Query[bool]'', fld_Tag = [],
                  fld_Anonymous = False\<rparr>"

definition Example_decls :: decls where
  "Example_decls n =
     (if n = ''Query[int]'' then Query_decl ''Query[int]'' (Prim PInt)
      else if n = ''Query[bool]'' then Query_decl ''Query[bool]'' (Prim PBool)
      else if n = ''Query[string]'' then Query_decl ''Query[string]'' (Prim PString)
      else if n = ''Query[func()]'' then Query_decl ''Query[func()]'' FuncT
      else if n = ''Path[int]'' then Path_decl ''Path[int]'' (Prim PInt)
      else if n = ''Input'' then plain_struct ''Input'' [Input_Field]
      else if n = ''BadDefault'' then plain_struct ''BadDefault'' [BadDefault_Field]
      else if n = ''PathInput'' then plain_struct ''PathInput'' [PathInput_ID]
      else if n = ''Outer'' then plain_struct ''Outer'' [Outer_A]
      else if n = ''Mid'' then plain_struct ''Mid'' [Mid_B]
      else if n = ''Inner'' then plain_struct ''Inner'' [Inner_P]
      else if n = ''Search'' then plain_struct ''Search'' [Search_Term, Search_Limits]
      else if n = ''Limits'' then plain_struct ''Limits'' [Limits_Max]
      else plain_struct [] [])"

text \<open>
  For the examples: a namer that lowers nothing; a rendering whose diagnostics are empty
  and that quotes by enclosing in double quotes (what \<^verbatim>\<open>strconv.Quote\<close> gives for the
  texts of the examples, which are letters, digits and the dot); a \<^verbatim>\<open>strconv.ParseFloat\<close>
  that rejects every text; and a request without a query string.
\<close>

definition plain_namer :: namer where
  "plain_namer name style = name"

definition plain_render :: render where
  "plain_render = \<lparr>rd_Error = (\<lambda>e. []), rd_Quote = (\<lambda>s. [CHR 0x22] @ s @ [CHR 0x22])\<rparr>"

definition no_floats :: "string \<Rightarrow> nat \<Rightarrow> gofloat \<times> err option" where
  "no_floats s bits = (Finite 0, Some (NumError ''ParseFloat'' s ErrSyntax))"

definition no_query :: request where
  "no_query = \<lparr>rq_URL_Query = (\<lambda>_. []), rq_cachedQuery = None\<rparr>"

section \<open>OpenAPI parameters (openapi3/param/param.go)\<close>

text \<open>The fields of \<^verbatim>\<open>openapi.Parameter\<close> the package sets.\<close>

record parameter =
  p_Name :: string
  p_In :: string
  p_Schema :: "ref_or_spec option"
  p_Style :: string
  p_Explode :: bool
  p_Required :: bool
  p_Deprecated :: bool
  p_AllowReserved :: bool

text \<open>\<^verbatim>\<open>New\<close> of the package: the zero parameter.\<close>

definition New_parameter :: parameter where
  "New_parameter =
     \<lparr>p_Name = [], p_In = [], p_Schema = None, p_Style = [], p_Explode = False,
      p_Required = False, p_Deprecated = False, p_AllowReserved = False\<rparr>"

text \<open>\<^verbatim>\<open>SetSchema\<close>.\<close>

definition SetSchema :: "schema \<Rightarrow> parameter \<Rightarrow> parameter" where
  "SetSchema s p = p\<lparr>p_Schema := Some (Spec (sch_Schema s))\<rparr>"

definition StyleMatrix :: string where "StyleMatrix = ''matrix''"
definition StyleLabel :: string where "StyleLabel = ''label''"
definition StyleForm :: string where "StyleForm = ''form''"
definition StyleSimple :: string where "StyleSimple = ''simple''"
definition StyleSpaceDelimited :: string where "StyleSpaceDelimited = ''spaceDelimited''"
definition StylePipeDelimited :: string where "StylePipeDelimited = ''pipeDelimited''"
definition StyleDeepObject :: string where "StyleDeepObject = ''deepObject''"

definition LocationPath :: string where "LocationPath = ''path''"
definition LocationQuery :: string where "LocationQuery = ''query''"
definition LocationHeader :: string where "LocationHeader = ''header''"
definition LocationCookie :: string where "LocationCookie = ''cookie''"

definition DataTypePrimitive :: string where "DataTypePrimitive = ''primitive''"
definition DataTypeArray :: string where "DataTypeArray = ''array''"
definition DataTypeObject :: string where "DataTypeObject = ''object''"

text \<open>\<^verbatim>\<open>StyleFromString\<close>.\<close>

definition StyleFromString :: "string \<Rightarrow> string \<times> err option" where
  "StyleFromString str =
     (if str \<in> set [StyleMatrix, StyleLabel, StyleForm, StyleSimple, StyleSpaceDelimited,
                     StylePipeDelimited, StyleDeepObject]
      then (str, None)
      else ([], Some (Wrapf [] ErrInvalidStyle ('': '' @ str))))"

text \<open>\<^verbatim>\<open>defaultStyle\<close>.\<close>

definition defaultStyle :: "string \<Rightarrow> string \<times> err option" where
  "defaultStyle loc =
     (if loc = LocationHeader then (StyleSimple, None)
      else if loc = LocationPath then (StyleSimple, None)
      else if loc = LocationQuery then (StyleForm, None)
      else if loc = LocationCookie then (StyleForm, None)
      else ([], Some ErrInvalidLocation))"

text \<open>\<^verbatim>\<open>tags\<close> and \<^verbatim>\<open>getTags\<close>.\<close>

record tags =
  t_explode :: string
  t_deprecated :: string
  t_style :: string
  t_required :: string
  t_reserved :: string
  t_minimum :: string

definition getTags :: "(string \<times> string) list \<Rightarrow> tags" where
  "getTags tag =
     \<lparr>t_explode = Tag_Get tag ''explode'', t_deprecated = Tag_Get tag ''deprecated'',
      t_style = Tag_Get tag ''style'', t_required = Tag_Get tag ''required'',
      t_reserved = Tag_Get tag ''reserved'', t_minimum = Tag_Get tag ''minimum''\<rparr>"

text \<open>
  \<^verbatim>\<open>parse\<close>, for the three uses: the error, and the value the pointer holds afterwards
  (unchanged on empty input and on error).
\<close>

definition parse_with :: "(string \<Rightarrow> 'a \<times> err option) \<Rightarrow> string \<Rightarrow> 'a \<Rightarrow> err option \<times> 'a" where
  "parse_with fn input cur =
     (if input = [] then (None, cur)
      else (case fn input of (r, Some e) \<Rightarrow> (Some e, cur) | (r, None) \<Rightarrow> (None, r)))"

definition parseBool :: "string \<Rightarrow> bool \<Rightarrow> err option \<times> bool" where
  "parseBool input cur = parse_with strconv_ParseBool input cur"

text \<open>\<^verbatim>\<open>parseStyle\<close>: on success the style parsed, empty for empty input, is stored.\<close>

definition parseStyle :: "string \<Rightarrow> string \<Rightarrow> err option \<times> string" where
  "parseStyle input cur =
     (case parse_with StyleFromString input [] of
        (Some e, style) \<Rightarrow> (Some e, cur)
      | (None, style) \<Rightarrow> (None, style))"

text \<open>The local function \<^verbatim>\<open>wrap\<close> of \<^verbatim>\<open>updateFromTags\<close>, and \<^verbatim>\<open>cmp.Or\<close> on errors.\<close>

definition wrap_tag :: "render \<Rightarrow> string \<Rightarrow> err option \<Rightarrow> err option" where
  "wrap_tag rd tag e =
     (case e of
        None \<Rightarrow> None
      | Some x \<Rightarrow> Some (Wrapf (''failed to parse tag '' @ rd_Quote rd tag @ '': '') x []))"

fun cmp_Or :: "err option list \<Rightarrow> err option" where
  "cmp_Or [] = None"
| "cmp_Or (None # es) = cmp_Or es"
| "cmp_Or (Some e # es) = Some e"

text \<open>
  \<^verbatim>\<open>updateFromTags\<close>. The parameter is a pointer, so what the parsers store stays when
  one of them fails; all six are run before \<^verbatim>\<open>cmp.Or\<close> picks the first error.
  \<open>parseInt0\<close> is \<^verbatim>\<open>strconv.ParseInt(s, 0, 0)\<close>, a parameter of the model. The result
  is \<open>None\<close> for the panic of a parameter without an inline schema: the last argument of
  \<^verbatim>\<open>cmp.Or\<close> reads \<^verbatim>\<open>p.Schema.Spec.Minimum\<close> whether the tag is empty or not.
\<close>

definition updateFromTags ::
  "render \<Rightarrow> (string \<Rightarrow> int \<times> err option) \<Rightarrow> tags \<Rightarrow> parameter
   \<Rightarrow> (err option \<times> parameter) option" where
  "updateFromTags rd parseInt0 tg p =
     (case (if t_minimum tg \<noteq> [] then
              (case p_Schema p of
                 Some (Spec sp) \<Rightarrow> Some (p\<lparr>p_Schema := Some (Spec (set_Minimum (Some 0) sp))\<rparr>)
               | _ \<Rightarrow> None)
            else Some p) of
        None \<Rightarrow> None
      | Some p0 \<Rightarrow>
          (case parseBool (t_explode tg) (p_Explode p0) of (e1, explode) \<Rightarrow>
           case parseBool (t_deprecated tg) (p_Deprecated p0) of (e2, deprecated) \<Rightarrow>
           case parseBool (t_required tg) (p_Required p0) of (e3, required) \<Rightarrow>
           case parseBool (t_reserved tg) (p_AllowReserved p0) of (e4, reserved) \<Rightarrow>
           case parseStyle (t_style tg) (p_Style p0) of (e5, style) \<Rightarrow>
           let p1 = p0\<lparr>p_Explode := explode, p_Deprecated := deprecated, p_Required := required,
                       p_AllowReserved := reserved, p_Style := style\<rparr>
           in
           (case (case p_Schema p1 of
                    Some (Spec sp) \<Rightarrow>
                      if t_minimum tg = [] then Some (None, p1)
                      else
                        (case parse_with parseInt0 (t_minimum tg) 0 of
                           (Some e, m) \<Rightarrow> Some (Some e, p1)
                         | (None, m) \<Rightarrow>
                             Some (None, p1\<lparr>p_Schema := Some (Spec (set_Minimum (Some m) sp))\<rparr>))
                  | _ \<Rightarrow> None) of
              None \<Rightarrow> None
            | Some (e6, p2) \<Rightarrow>
                Some (cmp_Or [wrap_tag rd ''explode'' e1, wrap_tag rd ''deprecated'' e2,
                              wrap_tag rd ''required'' e3, wrap_tag rd ''reserved'' e4,
                              wrap_tag rd ''style'' e5, wrap_tag rd ''minimum'' e6], p2))))"

text \<open>\<^verbatim>\<open>setDefaults\<close>.\<close>

definition setDefaults :: "parameter \<Rightarrow> tags \<Rightarrow> parameter \<times> err option" where
  "setDefaults p tg =
     (case (if p_Style p = [] then
              (case defaultStyle (p_In p) of
                 (st, Some e) \<Rightarrow> Inl e
               | (st, None) \<Rightarrow> Inr (p\<lparr>p_Style := st\<rparr>))
            else Inr p) of
        Inl e \<Rightarrow> (p, Some e)
      | Inr p1 \<Rightarrow>
          let p2 = (if p_Style p1 = StyleForm \<and> t_explode tg = [] then p1\<lparr>p_Explode := True\<rparr>
                    else p1);
              p3 = (if p_In p2 = LocationPath then p2\<lparr>p_Required := True\<rparr> else p2)
          in (p3, None))"

text \<open>\<^verbatim>\<open>getSchemasDataType\<close>: the data type of the first type name that has one.\<close>

definition dataTypes :: "(string \<times> string) list" where
  "dataTypes =
     [(IntegerType, DataTypePrimitive), (NumberType, DataTypePrimitive),
      (StringType, DataTypePrimitive), (BooleanType, DataTypePrimitive),
      (NullType, DataTypePrimitive), (ObjectType, DataTypeObject), (ArrayType, DataTypeArray)]"

fun first_dataType :: "string list \<Rightarrow> string \<times> bool" where
  "first_dataType [] = ([], False)"
| "first_dataType (t # ts) =
     (case map_of dataTypes t of Some d \<Rightarrow> (d, True) | None \<Rightarrow> first_dataType ts)"

definition getSchemasDataType :: "sstate \<Rightarrow> schema \<Rightarrow> string \<times> bool" where
  "getSchemasDataType st s = first_dataType (GetType st s)"

text \<open>
  \<^verbatim>\<open>styleValidation\<close>: for each style the data types (sorted, as \<^verbatim>\<open>sort\<close> leaves them)
  and the locations; and \<^verbatim>\<open>paramValidation.Validate\<close>.
\<close>

definition styleValidation :: "(string \<times> (string list \<times> string list)) list" where
  "styleValidation =
     [(StyleDeepObject, ([DataTypeObject], [LocationQuery])),
      (StyleSpaceDelimited, ([DataTypeArray, DataTypeObject], [LocationQuery])),
      (StylePipeDelimited, ([DataTypeArray, DataTypeObject], [LocationQuery])),
      (StyleSimple, ([DataTypeArray, DataTypeObject, DataTypePrimitive],
                     [LocationPath, LocationHeader])),
      (StyleForm, ([DataTypeArray, DataTypeObject, DataTypePrimitive],
                   [LocationQuery, LocationCookie])),
      (StyleLabel, ([DataTypeArray, DataTypeObject, DataTypePrimitive], [LocationPath])),
      (StyleMatrix, ([DataTypeArray, DataTypeObject, DataTypePrimitive], [LocationPath]))]"

definition Validate_style :: "string list \<times> string list \<Rightarrow> string \<Rightarrow> string \<Rightarrow> err option" where
  "Validate_style rule loc dt =
     (case rule of
        (types, locs) \<Rightarrow>
          if loc \<notin> set locs then Some ErrInvalidLocForStyle
          else if dt \<notin> set types then Some ErrInvalidTypeForLocation
          else None)"

text \<open>\<^verbatim>\<open>errors.Is\<close> for a sentinel, and \<^verbatim>\<open>errors.As\<close> for \<^verbatim>\<open>updateFromTagsError\<close>.\<close>

fun errors_Is :: "err \<Rightarrow> err \<Rightarrow> bool" where
  "errors_Is (Wrapf pre e post) t = (Wrapf pre e post = t \<or> errors_Is e t)"
| "errors_Is (Wrap2 a b) t = (Wrap2 a b = t \<or> errors_Is a t \<or> errors_Is b t)"
| "errors_Is (Joined es) t = (Joined es = t \<or> (\<exists>e \<in> set es. errors_Is e t))"
| "errors_Is (UpdateFromTagsError n e) t = (UpdateFromTagsError n e = t \<or> errors_Is e t)"
| "errors_Is e t = (e = t)"

fun as_updateFromTagsError :: "err \<Rightarrow> (string \<times> err) option" where
  "as_updateFromTagsError (UpdateFromTagsError n e) = Some (n, e)"
| "as_updateFromTagsError (Wrapf _ e _) = as_updateFromTagsError e"
| "as_updateFromTagsError (Wrap2 a b) =
     (case as_updateFromTagsError a of Some x \<Rightarrow> Some x | None \<Rightarrow> as_updateFromTagsError b)"
| "as_updateFromTagsError (Joined es) =
     (case List.find (\<lambda>x. x \<noteq> None) (map as_updateFromTagsError es) of
        Some r \<Rightarrow> r | None \<Rightarrow> None)"
| "as_updateFromTagsError _ = None"

text \<open>\<^verbatim>\<open>fromInfoError\<close>.\<close>

definition fromInfoError ::
  "decls \<Rightarrow> render \<Rightarrow> info \<Rightarrow> parameter \<Rightarrow> string \<Rightarrow> err \<Rightarrow> err" where
  "fromInfoError D rd i p dataType e =
     (let ty = map_option snd (GetSourceAndType D (fld_Type (i_Field i)));
          fieldType = Some (fld_Type (i_Field i));
          mk = (\<lambda>t msg underlineMsg.
                  HandlerError (InvalidParamStyleError (i_Struct i) (i_Field i) t (p_Style p)
                                  dataType (p_In p) e msg underlineMsg))
      in
      if errors_Is e ErrInvalidLocForStyle then
        mk fieldType (''invalid style '' @ rd_Quote rd (p_Style p) @ '' for location '' @
                        rd_Quote rd (p_In p))
           ''invalid location for style''
      else if errors_Is e ErrInvalidTypeForLocation then
        mk ty (''invalid type '' @ rd_Quote rd dataType @ '' with style '' @ rd_Quote rd (p_Style p))
           ''invalid type for style''
      else
        (case as_updateFromTagsError e of
           Some (name, cause) \<Rightarrow> mk fieldType (''failed to parse: '' @ rd_Quote rd name) (Error_text rd e)
         | None \<Rightarrow> mk fieldType (Error_text rd e) (Error_text rd e)))"

text \<open>
  \<^verbatim>\<open>FromInfo\<close>: a panic, or the parameter and the error (Go returns both), with the
  synthesizer's new state. The first argument bounds the depth of the synthesizer's
  calls; the result is \<open>None\<close> when \<^verbatim>\<open>schemer.Get\<close> does not return within it.
\<close>

datatype fres = FPanic | FRet parameter "err option" sstate

definition FromInfo ::
  "nat \<Rightarrow> decls \<Rightarrow> render \<Rightarrow> (string \<Rightarrow> int \<times> err option) \<Rightarrow> schemer \<Rightarrow> sstate \<Rightarrow> info
   \<Rightarrow> fres option" where
  "FromInfo n D rd parseInt0 cfg st i =
     (let p = New_parameter\<lparr>p_Name := i_Name i, p_In := i_Source i\<rparr> in
      case Get n D cfg st (i_Type i) of
        None \<Rightarrow> None
      | Some SPanic \<Rightarrow> Some FPanic
      | Some (SRet s0 (Some e) st1) \<Rightarrow>
          Some (FRet p (Some (Wrapf ''failed getting schema: '' e [])) st1)
      | Some (SRet s0 None st1) \<Rightarrow>
          let infoHasDefault = (i_Default i \<noteq> []);
              schemaHasDefault = (os_Default (sch_Schema s0) \<noteq> None);
              s = (if infoHasDefault \<and> \<not> schemaHasDefault
                   then s0\<lparr>sch_Schema := set_Default (Some (i_Default i)) (sch_Schema s0)\<rparr>
                   else s0);
              dataType = fst (getSchemasDataType st1 s);
              tg = getTags (fld_Tag (i_Field i));
              p1 = SetSchema s p
          in
          (case updateFromTags rd parseInt0 tg p1 of
             None \<Rightarrow> Some FPanic
           | Some (Some e, p2) \<Rightarrow> Some (FRet p2 (Some (fromInfoError D rd i p2 dataType e)) st1)
           | Some (None, p2) \<Rightarrow>
               (case setDefaults p2 tg of
                  (p3, Some e) \<Rightarrow> Some (FRet p3 (Some e) st1)
                | (p3, None) \<Rightarrow>
                    (case map_of styleValidation (p_Style p3) of
                       None \<Rightarrow>
                         Some (FRet p3 (Some (fromInfoError D rd i p3 dataType ErrInvalidStyle)) st1)
                     | Some validationRule \<Rightarrow>
                         (case Validate_style validationRule (p_In p3) dataType of
                            Some e \<Rightarrow> Some (FRet p3 (Some (fromInfoError D rd i p3 dataType e)) st1)
                          | None \<Rightarrow> Some (FRet p3 None st1))))))"

section \<open>The schema validator (jsonschema/validate.go)\<close>

text \<open>
  The external validation engine and \<^verbatim>\<open>encoding/json\<close> are parameters of the model:
  \<^item> \<open>lib_UnmarshalJSON\<close>: \<^verbatim>\<open>jsonschema.UnmarshalJSON\<close>, from the schema text to a document;
  \<^item> \<open>lib_AddResource\<close>: \<^verbatim>\<open>Compiler.AddResource(name, doc)\<close>, on the compiler's state;
  \<^item> \<open>lib_Compile\<close>: \<^verbatim>\<open>Compiler.Compile(name)\<close>, given the loader the compiler was set up
    with, which it calls for every reference it cannot resolve among its resources;
  \<^item> \<open>lib_json_Unmarshal\<close>: \<^verbatim>\<open>json.Unmarshal\<close> of the input;
  \<^item> \<open>lib_Validate\<close>: \<^verbatim>\<open>Schema.Validate\<close>, whose error is a validation error tree (\<open>Inl\<close>)
    or another error (\<open>Inr\<close>);
  \<^item> \<open>lib_NewCompiler\<close>: the state of a new compiler with the 2020 draft as default.
\<close>

record ('j, 'c, 's, 'v) jslib =
  lib_UnmarshalJSON :: "string \<Rightarrow> err + 'j"
  lib_AddResource :: "'c \<Rightarrow> string \<Rightarrow> 'j \<Rightarrow> err option \<times> 'c"
  lib_Compile :: "(string \<Rightarrow> err + 'j) \<Rightarrow> 'c \<Rightarrow> string \<Rightarrow> (err + 's) \<times> 'c"
  lib_json_Unmarshal :: "string \<Rightarrow> err + 'v"
  lib_Validate :: "'s \<Rightarrow> 'v \<Rightarrow> (lib_verr + err) option"
  lib_NewCompiler :: "'c"

text \<open>\<^verbatim>\<open>noopLoader.Load\<close>: the loader of every validator.\<close>

definition noopLoader_Load :: "string \<Rightarrow> err + 'j" where
  "noopLoader_Load url = Inl ErrSchemaLoad"

record ('c, 's) validator =
  v_compiler :: "'c"
  v_schemas :: "string \<Rightarrow> 's option"

text \<open>\<^verbatim>\<open>NewValidator\<close>.\<close>

definition NewValidator :: "('j, 'c, 's, 'v) jslib \<Rightarrow> ('c, 's) validator" where
  "NewValidator lib = \<lparr>v_compiler = lib_NewCompiler lib, v_schemas = (\<lambda>_. None)\<rparr>"

text \<open>\<^verbatim>\<open>Validator.compile\<close> and \<^verbatim>\<open>Validator.Add\<close>: the error and the validator afterwards.\<close>

definition compile ::
  "('j, 'c, 's, 'v) jslib \<Rightarrow> ('c, 's) validator \<Rightarrow> string \<Rightarrow> err option \<times> ('c, 's) validator" where
  "compile lib v name =
     (case lib_Compile lib noopLoader_Load (v_compiler v) name of
        (Inl e, c) \<Rightarrow> (Some (Wrapf (''compile('' @ name @ ''): '') e []), v\<lparr>v_compiler := c\<rparr>)
      | (Inr s, c) \<Rightarrow> (None, v\<lparr>v_compiler := c, v_schemas := (v_schemas v)(name \<mapsto> s)\<rparr>))"

definition Add ::
  "('j, 'c, 's, 'v) jslib \<Rightarrow> ('c, 's) validator \<Rightarrow> string \<Rightarrow> string
   \<Rightarrow> err option \<times> ('c, 's) validator" where
  "Add lib v name schema_text =
     (case lib_UnmarshalJSON lib schema_text of
        Inl e \<Rightarrow> (Some (Wrapf (''jsonschema.UnmarshalJSON('' @ name @ ''): '') e []), v)
      | Inr s \<Rightarrow>
          (case lib_AddResource lib (v_compiler v) name s of
             (Some e, c) \<Rightarrow>
               (Some (Wrapf (''compiler.AddResource('' @ name @ ''): '') e []), v\<lparr>v_compiler := c\<rparr>)
           | (None, c) \<Rightarrow> compile lib (v\<lparr>v_compiler := c\<rparr>) name))"

text \<open>\<^verbatim>\<open>validationErrToErrorDetail\<close> and \<^verbatim>\<open>convertError\<close>.\<close>

fun strings_Join :: "string list \<Rightarrow> string \<Rightarrow> string" where
  "strings_Join [] sep = []"
| "strings_Join [x] sep = x"
| "strings_Join (x # y # ys) sep = x @ sep @ strings_Join (y # ys) sep"

fun validationErrToErrorDetail :: "lib_verr \<Rightarrow> validation_error list" where
  "validationErrToErrorDetail (LibVErr msg loc causes) =
     (if length causes = 0
      then [VError None [] msg (''/'' @ strings_Join loc ''/'')] else [])
     @ concat (map validationErrToErrorDetail causes)"

definition convertError :: "lib_verr \<Rightarrow> validation_error" where
  "convertError e =
     (let causes = validationErrToErrorDetail e in
      if length causes = 0
      then (case e of LibVErr msg loc cs \<Rightarrow>
              VError (Some e) causes msg (''/'' @ strings_Join loc ''/''))
      else VError (Some e) causes [] [])"

text \<open>\<^verbatim>\<open>Validator.Validate\<close>.\<close>

definition Validate ::
  "('j, 'c, 's, 'v) jslib \<Rightarrow> ('c, 's) validator \<Rightarrow> string \<Rightarrow> string \<Rightarrow> err option" where
  "Validate lib v name input =
     (case v_schemas v name of
        None \<Rightarrow> Some ErrSchemaNotFound
      | Some s \<Rightarrow>
          (case lib_json_Unmarshal lib input of
             Inl e \<Rightarrow> Some e
           | Inr x \<Rightarrow>
               (case lib_Validate lib s x of
                  None \<Rightarrow> None
                | Some (Inl verr) \<Rightarrow> Some (ValidationError (convertError verr))
                | Some (Inr e) \<Rightarrow> Some (Wrapf (''validate('' @ name @ ''): '') e []))))"

text \<open>
  A run of \<^verbatim>\<open>Add\<close> calls on a validator: the validator afterwards, and for each call its
  name and whether it returned nil.
\<close>

fun run_adds ::
  "('j, 'c, 's, 'v) jslib \<Rightarrow> ('c, 's) validator \<Rightarrow> (string \<times> string) list
   \<Rightarrow> ('c, 's) validator \<times> (string \<times> bool) list" where
  "run_adds lib v [] = (v, [])"
| "run_adds lib v ((name, schema_text) # ops) =
     (case Add lib v name schema_text of
        (e, v') \<Rightarrow>
          (case run_adds lib v' ops of
             (v'', results) \<Rightarrow> (v'', (name, e = None) # results)))"

text \<open>The info of the field \<^verbatim>\<open>ID\<close> of \<^verbatim>\<open>PathInput\<close>, as the walker gives it.\<close>

definition PathInput_info :: info where
  "PathInput_info =
     \<lparr>i_Name = ''ID'', i_Source = ''path'', i_Default = [], i_Type = Some (Prim PInt),
      i_Field = PathInput_ID, i_Struct = StructT ''PathInput'', i_ParentFields = []\<rparr>"

text \<open>
  A stand-in engine for concrete runs: the text \<open>{\<close> is malformed, every other text is a
  document; the schema named \<open>remote\<close> holds a reference that has to be loaded, the others
  compile; every input is valid.
\<close>

definition toy_lib :: "(nat, nat, nat, nat) jslib" where
  "toy_lib =
     \<lparr>lib_UnmarshalJSON = (\<lambda>t. if t = ''{'' then Inl (OtherError ''unexpected EOF'')
                                 else Inr (length t)),
      lib_AddResource = (\<lambda>c name doc. (None, Suc c)),
      lib_Compile = (\<lambda>loader c name.
                       if name = ''remote''
                       then (case loader ''http://example.com/schema.json'' of
                               Inl e \<Rightarrow> (Inl e, c) | Inr d \<Rightarrow> (Inr d, c))
                       else (Inr c, c)),
      lib_json_Unmarshal = (\<lambda>t. Inr (length t)),
      lib_Validate = (\<lambda>s x. None),
      lib_NewCompiler = 0\<rparr>"

text \<open>One recursive call of the walker or of the compiler returns whatever the other does.\<close>

definition call_le :: "('a \<Rightarrow> 'b option) \<Rightarrow> ('a \<Rightarrow> 'b option) \<Rightarrow> bool" where
  "call_le r1 r2 = (\<forall>x r. r1 x = Some r \<longrightarrow> r2 x = Some r)"

section \<open>The parser chain law\<close>

lemma Parsers_loop_first_overwrites:
  "ps \<noteq> [] \<Longrightarrow> Parsers_loop ps e v params = Parsers_loop ps e' v params"
  by (cases ps) simp_all

lemma Parsers_loop_after_sentinels:
  "after_sentinels pre v params = Some v' \<Longrightarrow>
   Parsers_loop (pre @ p # post) e v params = Parsers_loop (p # post) e'' v' params"
proof (induction pre arbitrary: e v)
  case Nil
  then show ?case by simp
next
  case (Cons q qs)
  then show ?case
    by (auto split: outcome.splits if_splits)
qed

lemma Parsers_loop_append:
  "Parsers_loop (inner @ post) e v params =
     (case Parsers_loop inner e v params of
        Panic \<Rightarrow> Panic
      | Ret e' v' \<Rightarrow>
          if inner \<noteq> [] \<and> \<not> errors_Is_InvalidParamType e' then Ret e' v'
          else Parsers_loop post e' v' params)"
proof (induction inner arbitrary: e v)
  case Nil
  then show ?case by simp
next
  case (Cons q qs)
  note IH = Cons.IH
  show ?case
  proof (cases "q v params")
    case Panic
    then show ?thesis by simp
  next
    case (Ret e1 v1)
    show ?thesis
    proof (cases "errors_Is_InvalidParamType e1")
      case False
      with Ret show ?thesis by simp
    next
      case True
      show ?thesis
      proof (cases "qs = []")
        case True
        with Ret \<open>errors_Is_InvalidParamType e1\<close> show ?thesis by simp
      next
        case False
        with Ret \<open>errors_Is_InvalidParamType e1\<close> IH[of e1 v1] show ?thesis
          by (simp split: outcome.splits)
      qed
    qed
  qed
qed

lemma Parsers_loop_nested_head:
  assumes "inner \<noteq> []"
  shows "Parsers_loop (Parsers_Parse inner # post) e v params = Parsers_loop (inner @ post) e v params"
proof -
  have "Parsers_loop inner None v params = Parsers_loop inner e v params"
    using assms by (rule Parsers_loop_first_overwrites)
  then show ?thesis
    using assms
    by (simp add: Parsers_loop_append Parsers_Parse_def split: outcome.splits)
qed

lemma Parsers_loop_cong_suffix:
  "(\<And>e v. Parsers_loop xs e v params = Parsers_loop ys e v params) \<Longrightarrow>
   Parsers_loop (pre @ xs) e v params = Parsers_loop (pre @ ys) e v params"
  by (induction pre arbitrary: e v) (auto split: outcome.splits)

text \<open>
  C3 (as amended). For a chain \<open>pre @ p # post\<close> whose parsers in \<open>pre\<close> all return the
  "invalid type" sentinel, \<open>Parsers.Parse\<close> returns the result of \<open>p\<close> (success, a concrete
  error or a panic) when that result is not the sentinel, whatever \<open>post\<close> holds; when
  every parser of a non-empty chain returns the sentinel, the result is that of the last
  parser, a sentinel; a non-empty chain used as one element of another chain behaves as
  its parsers spliced in place; and the empty chain returns nil and leaves the variable
  as it was.
\<close>

theorem Parsers_Parse_chain_law:
  "(after_sentinels pre v params = Some v' \<and> \<not> is_sentinel (p v' params) \<longrightarrow>
      Parsers_Parse (pre @ p # post) v params = p v' params)
   \<and> (after_sentinels pre v params = Some v' \<and> is_sentinel (p v' params) \<longrightarrow>
      Parsers_Parse (pre @ [p]) v params = p v' params)
   \<and> (inner \<noteq> [] \<longrightarrow>
      Parsers_Parse (pre @ Parsers_Parse inner # post) v params =
      Parsers_Parse (pre @ inner @ post) v params)
   \<and> Parsers_Parse [] v params = Ret None v"
proof (intro conjI impI)
  assume a: "after_sentinels pre v params = Some v' \<and> \<not> is_sentinel (p v' params)"
  then have "Parsers_loop (pre @ p # post) None v params = Parsers_loop (p # post) None v' params"
    using Parsers_loop_after_sentinels by blast
  with a show "Parsers_Parse (pre @ p # post) v params = p v' params"
    by (auto simp: Parsers_Parse_def is_sentinel_def split: outcome.splits)
next
  assume a: "after_sentinels pre v params = Some v' \<and> is_sentinel (p v' params)"
  then have "Parsers_loop (pre @ [p]) None v params = Parsers_loop [p] None v' params"
    using Parsers_loop_after_sentinels by blast
  with a show "Parsers_Parse (pre @ [p]) v params = p v' params"
    by (auto simp: Parsers_Parse_def is_sentinel_def split: outcome.splits)
next
  assume "inner \<noteq> []"
  then have "\<And>e v. Parsers_loop (Parsers_Parse inner # post) e v params =
                 Parsers_loop (inner @ post) e v params"
    by (rule Parsers_loop_nested_head)
  then show "Parsers_Parse (pre @ Parsers_Parse inner # post) v params =
             Parsers_Parse (pre @ inner @ post) v params"
    unfolding Parsers_Parse_def by (rule Parsers_loop_cong_suffix)
next
  show "Parsers_Parse [] v params = Ret None v"
    by (simp add: Parsers_Parse_def)
qed

lemma ParseInt_42: "ParseInt (VInt 0) [''42''] = Ret None (VInt 42)"
  by (simp add: ParseInt_def strconv_ParseInt_def strconv_ParseUint_def intSize_def is_digit_def digit_val_def)

lemma ParseBool_VInt: "ParseBool (VInt 0) ps = Ret (Some ErrInvalidParamType) (VInt 0)"
  by (simp add: ParseBool_def)

theorem Parsers_Parse_chain_law_witness:
  "Parsers_Parse [ParseBool, ParseInt, ParseString] (VInt 0) [''42''] = Ret None (VInt 42)
   \<and> Parsers_Parse [ParseBool, ParseString] (VInt 0) [''42''] = Ret (Some ErrInvalidParamType) (VInt 0)
   \<and> Parsers_Parse [ParseString, Parsers_Parse [ParseBool, ParseInt], ParseString] (VInt 0) [''42''] =
     Parsers_Parse [ParseString, ParseBool, ParseInt, ParseString] (VInt 0) [''42'']"
proof -
  have a: "after_sentinels [ParseBool] (VInt 0) [''42''] = Some (VInt 0)"
    by (simp add: ParseBool_def errors_Is_InvalidParamType_def)
  have b: "\<not> is_sentinel (ParseInt (VInt 0) [''42''])"
    by (simp add: ParseInt_42 is_sentinel_def errors_Is_InvalidParamType_def)
  have c: "is_sentinel (ParseString (VInt 0) [''42''])"
    by (simp add: ParseString_def is_sentinel_def errors_Is_InvalidParamType_def)
  have d: "ParseString (VInt 0) [''42''] = Ret (Some ErrInvalidParamType) (VInt 0)"
    by (simp add: ParseString_def)
  have e: "[ParseBool, ParseInt] \<noteq> []" by simp
  from a b Parsers_Parse_chain_law[of "[ParseBool]" "VInt 0" "[''42'']" "VInt 0" ParseInt "[ParseString]"]
  have 1: "Parsers_Parse [ParseBool, ParseInt, ParseString] (VInt 0) [''42''] = Ret None (VInt 42)"
    by (simp add: ParseInt_42)
  from a c Parsers_Parse_chain_law[of "[ParseBool]" "VInt 0" "[''42'']" "VInt 0" ParseString]
  have 2: "Parsers_Parse [ParseBool, ParseString] (VInt 0) [''42''] = Ret (Some ErrInvalidParamType) (VInt 0)"
    by (simp add: d)
  from e Parsers_Parse_chain_law[of "[ParseString]" "VInt 0" "[''42'']" _ _ "[ParseString]" "[ParseBool, ParseInt]"]
  have 3: "Parsers_Parse [ParseString, Parsers_Parse [ParseBool, ParseInt], ParseString] (VInt 0) [''42''] =
     Parsers_Parse [ParseString, ParseBool, ParseInt, ParseString] (VInt 0) [''42'']"
    by simp
  from 1 2 3 show ?thesis by blast
qed

text \<open>
  The law as the claim states it fails for the chain of length zero: every parser of the
  empty chain returns the sentinel, and the result is nil, not the sentinel.
\<close>

theorem Parsers_Parse_empty_chain_counterexample:
  "after_sentinels [] (VInt 0) [''1''] = Some (VInt 0)
   \<and> \<not> is_sentinel (Parsers_Parse [] (VInt 0) [''1''])
   \<and> Parsers_Parse [] (VInt 0) [''1''] = Ret None (VInt 0)"
  by (simp add: Parsers_Parse_def is_sentinel_def errors_Is_InvalidParamType_def)

section \<open>The built-in parsers and the empty slice\<close>

text \<open>
  C10 (as amended). \<open>ParseInt\<close>, \<open>ParseUint\<close> and \<open>ParseFloat\<close> read the first raw value
  whatever the target is, so an empty slice makes them panic; \<open>ParseBool\<close>,
  \<open>ParseString\<close> and \<open>ParseTextUnmarshaller\<close> read it only when the target has their
  type, so on an empty slice they panic for such a target and return the sentinel for any
  other. \<open>Opts.Parse\<close> returns nil and leaves the target unchanged when the slice is
  empty and no default is set, and in every other case calls its parser with a non-empty
  slice.
\<close>

theorem builtin_parsers_first_element:
  "ParseInt v [] = Panic \<and> ParseUint v [] = Panic \<and> ParseFloat pf v [] = Panic
   \<and> ParseBool (VBool b) [] = Panic
   \<and> ((\<forall>x. v \<noteq> VBool x) \<longrightarrow> ParseBool v [] = Ret (Some ErrInvalidParamType) v)
   \<and> ParseString (VString s) [] = Panic
   \<and> ((\<forall>x. v \<noteq> VString x) \<longrightarrow> ParseString v [] = Ret (Some ErrInvalidParamType) v)
   \<and> ParseTextUnmarshaller (VText obj) [] = Panic
   \<and> ((\<forall>x. v \<noteq> VText x) \<longrightarrow> ParseTextUnmarshaller v [] = Ret (Some ErrInvalidParamType) v)
   \<and> (o_Default opt = [] \<longrightarrow> Opts_Parse opt v [] = Ret None v)
   \<and> (Opts_Parse opt v params = Ret None v \<and> params = [] \<and> o_Default opt = []
        \<or> (\<exists>ps. ps \<noteq> [] \<and> Opts_Parse opt v params = call_parser (o_Parser opt) v ps))"
proof -
  have 1: "ParseInt v [] = Panic" by (simp add: ParseInt_def)
  have 2: "ParseUint v [] = Panic" by (simp add: ParseUint_def)
  have 3: "ParseFloat pf v [] = Panic" by (simp add: ParseFloat_def)
  have 4: "ParseBool (VBool b) [] = Panic" by (simp add: ParseBool_def)
  have 5: "(\<forall>x. v \<noteq> VBool x) \<longrightarrow> ParseBool v [] = Ret (Some ErrInvalidParamType) v"
    by (cases v) (simp_all add: ParseBool_def)
  have 6: "ParseString (VString s) [] = Panic" by (simp add: ParseString_def)
  have 7: "(\<forall>x. v \<noteq> VString x) \<longrightarrow> ParseString v [] = Ret (Some ErrInvalidParamType) v"
    by (cases v) (simp_all add: ParseString_def)
  have 8: "ParseTextUnmarshaller (VText obj) [] = Panic" by (simp add: ParseTextUnmarshaller_def)
  have 9: "(\<forall>x. v \<noteq> VText x) \<longrightarrow> ParseTextUnmarshaller v [] = Ret (Some ErrInvalidParamType) v"
    by (cases v) (simp_all add: ParseTextUnmarshaller_def)
  have 10: "o_Default opt = [] \<longrightarrow> Opts_Parse opt v [] = Ret None v"
    by (simp add: Opts_Parse_def)
  have 11: "Opts_Parse opt v params = Ret None v \<and> params = [] \<and> o_Default opt = []
        \<or> (\<exists>ps. ps \<noteq> [] \<and> Opts_Parse opt v params = call_parser (o_Parser opt) v ps)"
  proof (cases "params = []")
    case False
    then have "Opts_Parse opt v params = call_parser (o_Parser opt) v params" by (simp add: Opts_Parse_def)
    with False show ?thesis by blast
  next
    case True
    show ?thesis
    proof (cases "o_Default opt = []")
      case True
      with \<open>params = []\<close> show ?thesis by (simp add: Opts_Parse_def)
    next
      case False
      with \<open>params = []\<close> have "Opts_Parse opt v params = call_parser (o_Parser opt) v [o_Default opt]"
        by (simp add: Opts_Parse_def)
      then show ?thesis by blast
    qed
  qed
  from 1 2 3 4 5 6 7 8 9 10 11 show ?thesis by blast
qed

theorem builtin_parsers_first_element_witness:
  "ParseInt (VInt 0) [] = Panic \<and> ParseBool (VBool False) [] = Panic
   \<and> ParseBool (VInt 0) [] = Ret (Some ErrInvalidParamType) (VInt 0)
   \<and> ParseString (VInt 0) [] = Ret (Some ErrInvalidParamType) (VInt 0)
   \<and> ParseTextUnmarshaller (VInt 0) [] = Ret (Some ErrInvalidParamType) (VInt 0)
   \<and> Opts_Parse \<lparr>o_Name = ''n'', o_Default = [], o_Parser = Some ParseInt, o_Pather = None\<rparr> (VInt 0) [] = Ret None (VInt 0)"
  using builtin_parsers_first_element
    [of "VInt 0" _ False _ _ "\<lparr>o_Name = ''n'', o_Default = [], o_Parser = Some ParseInt, o_Pather = None\<rparr>" "[]"]
  by simp

text \<open>
  Three of the six parsers do not read the first raw value when the target is not of
  their type: on an empty slice they return the sentinel instead of panicking.
\<close>

theorem conditional_parsers_empty_counterexample:
  "ParseBool (VInt 0) [] \<noteq> Panic \<and> ParseString (VInt 0) [] \<noteq> Panic
   \<and> ParseTextUnmarshaller (VInt 0) [] \<noteq> Panic"
  by (simp add: ParseBool_def ParseString_def ParseTextUnmarshaller_def)


section \<open>The schema synthesizer\<close>

lemmas schema_consts =
  BooleanType_def IntegerType_def NumberType_def StringType_def ObjectType_def ArrayType_def
  NullType_def Int32Format_def Int64Format_def FloatFormat_def DoubleFormat_def

lemmas schema_setters =
  set_Type_def set_Format_def set_Minimum_def set_Default_def set_Description_def
  set_Properties_def set_Required_def set_Items_def set_AdditionalProperties_def
  New_def empty_oschema_def

lemma method_of_Prim [simp]: "method_of D m (Prim p) = None"
  by (simp add: method_of_def)

lemma method_of_PtrT [simp]: "method_of D m (PtrT t) = None"
  by (simp add: method_of_def)

subsection \<open>More depth never changes a result\<close>

lemma rec_leD: "rec_le r1 r2 \<Longrightarrow> r1 st t = Some r \<Longrightarrow> r2 st t = Some r"
  by (simp add: rec_le_def)

lemma createArraySchema_mono:
  assumes "rec_le r1 r2" and "createArraySchema r1 cfg st typ = Some r"
  shows "createArraySchema r2 cfg st typ = Some r"
proof -
  obtain s st0 where w: "with_Type ArrayType st = (s, st0)" by (cases "with_Type ArrayType st")
  with assms(2) obtain x where x: "r1 st0 (Elem typ) = Some x"
    by (auto simp: createArraySchema_def split: option.splits)
  then have "r2 st0 (Elem typ) = Some x" using assms(1) by (rule rec_leD[rotated])
  with x w assms(2) show ?thesis by (simp add: createArraySchema_def)
qed

lemma createPointerSchema_mono:
  assumes "rec_le r1 r2" and "createPointerSchema r1 st typ = Some r"
  shows "createPointerSchema r2 st typ = Some r"
proof -
  from assms(2) obtain x where x: "r1 st (Elem typ) = Some x"
    by (auto simp: createPointerSchema_def split: option.splits)
  then have "r2 st (Elem typ) = Some x" using assms(1) by (rule rec_leD[rotated])
  with x assms(2) show ?thesis by (simp add: createPointerSchema_def)
qed

lemma createMapSchema_mono:
  assumes "rec_le r1 r2" and "createMapSchema r1 st typ = Some r"
  shows "createMapSchema r2 st typ = Some r"
proof (cases "Kind (Key typ) \<noteq> KString")
  case True
  with assms(2) show ?thesis by (simp add: createMapSchema_def)
next
  case False
  obtain s st0 where w: "with_Type ObjectType st = (s, st0)" by (cases "with_Type ObjectType st")
  with assms(2) False obtain x where x: "r1 st0 (Elem typ) = Some x"
    by (auto simp: createMapSchema_def split: option.splits)
  then have "r2 st0 (Elem typ) = Some x" using assms(1) by (rule rec_leD[rotated])
  with x w False assms(2) show ?thesis by (simp add: createMapSchema_def)
qed

lemma updateSchema_mono:
  assumes "rec_le r1 r2" and "updateSchema r1 cfg c s st f = Some r"
  shows "updateSchema r2 cfg c s st f = Some r"
proof -
  from assms(2) obtain x where x: "r1 st (fld_Type f) = Some x"
    by (auto simp: updateSchema_def Let_def split: option.splits)
  then have "r2 st (fld_Type f) = Some x" using assms(1) by (rule rec_leD[rotated])
  with x assms(2) show ?thesis by (simp add: updateSchema_def)
qed

lemma fields_loop_mono:
  assumes "rec_le r1 r2"
  shows "fields_loop r1 cfg c s st fs = Some r \<Longrightarrow> fields_loop r2 cfg c s st fs = Some r"
proof (induction fs arbitrary: s st)
  case Nil
  then show ?case by simp
next
  case (Cons f fs)
  from Cons.prems obtain x where x: "updateSchema r1 cfg c s st f = Some x"
    by (auto split: option.splits)
  then have y: "updateSchema r2 cfg c s st f = Some x"
    using assms by (rule updateSchema_mono[rotated])
  show ?case
  proof (cases x)
    case SPanic
    with x y Cons.prems show ?thesis by simp
  next
    case (SRet s' e st')
    show ?thesis
    proof (cases e)
      case None
      with SRet x Cons.prems have "fields_loop r1 cfg c s' st' fs = Some r" by simp
      then have "fields_loop r2 cfg c s' st' fs = Some r" by (rule Cons.IH)
      with None SRet y show ?thesis by simp
    next
      case (Some a)
      with SRet x y Cons.prems show ?thesis by auto
    qed
  qed
qed

lemma createStructSchema_mono:
  assumes "rec_le r1 r2" and "createStructSchema r1 D cfg st typ = Some r"
  shows "createStructSchema r2 D cfg st typ = Some r"
proof -
  from assms(2) obtain x where x: "schemaFromStruct r1 D cfg st typ = Some x"
    by (auto simp: createStructSchema_def split: option.splits)
  then have "schemaFromStruct r2 D cfg st typ = Some x"
    by (auto simp: schemaFromStruct_def split: prod.splits intro: fields_loop_mono[OF assms(1)])
  with x assms(2) show ?thesis by (simp add: createStructSchema_def)
qed

lemma createSchemaByKind_mono:
  assumes "rec_le r1 r2" and "createSchemaByKind r1 D cfg st typ = Some r"
  shows "createSchemaByKind r2 D cfg st typ = Some r"
  using assms(2)
  by (auto simp: createSchemaByKind_def Let_def
      intro: createArraySchema_mono[OF assms(1)] createPointerSchema_mono[OF assms(1)]
        createMapSchema_mono[OF assms(1)] createStructSchema_mono[OF assms(1)]
      split: if_splits)

lemma schemaFromType_fuel_Suc:
  "schemaFromType n D cfg st t = Some r \<Longrightarrow> schemaFromType (Suc n) D cfg st t = Some r"
proof (induction n arbitrary: st t r)
  case 0
  then show ?case by simp
next
  case (Suc n)
  have le: "rec_le (\<lambda>st' t'. schemaFromType n D cfg st' (Some t'))
                   (\<lambda>st' t'. schemaFromType (Suc n) D cfg st' (Some t'))"
    unfolding rec_le_def using Suc.IH by blast
  show ?case
  proof (cases t)
    case None
    with Suc.prems show ?thesis by simp
  next
    case (Some ty)
    show ?thesis
    proof (cases "st_types st ty = None \<and> method_of D sd_JSONSchema ty = None")
      case False
      with Suc.prems Some show ?thesis by (auto split: option.splits)
    next
      case True
      with Suc.prems Some obtain x where
        x: "createSchemaByKind (\<lambda>st' t'. schemaFromType n D cfg st' (Some t')) D cfg st ty = Some x"
        by (auto split: option.splits)
      then have "createSchemaByKind (\<lambda>st' t'. schemaFromType (Suc n) D cfg st' (Some t')) D cfg st ty = Some x"
        using le by (rule createSchemaByKind_mono[rotated])
      with x True Some Suc.prems show ?thesis by simp
    qed
  qed
qed

lemma schemaFromType_fuel_mono:
  "schemaFromType n D cfg st t = Some r \<Longrightarrow> schemaFromType (n + k) D cfg st t = Some r"
  by (induction k) (simp_all add: schemaFromType_fuel_Suc)

subsection \<open>Primitive kinds\<close>

text \<open>
  C5 (as amended). For every primitive kind of the table the synthesized schema has the
  type, format and minimum of the table: bool gives boolean; string gives string; the
  signed integer kinds give integer, with format int32 or int64 only for the 32-bit and
  64-bit variants; the unsigned integer kinds give integer with minimum 0 and the same
  format rule; float32 and float64 both give number with format float.
\<close>

theorem primitive_kind_schema:
  assumes "spec_primitive_schema p = Some (t, f, m)" and "st_types st (Prim p) = None"
  shows "\<exists>s st'. Get (Suc n) D cfg st (Some (Prim p)) = Some (SRet s None st')
           \<and> GetType st' s = [t] \<and> os_Format (sch_Schema s) = f
           \<and> os_Minimum (sch_Schema s) = m"
proof -
  have "\<exists>s st'. createSchemaByKind (\<lambda>st' t'. schemaFromType n D cfg st' (Some t')) D cfg st (Prim p)
            = Some (SRet s None st')
           \<and> GetType st' s = [t] \<and> os_Format (sch_Schema s) = f
           \<and> os_Minimum (sch_Schema s) = m"
    using assms(1)
    by (cases p)
       (simp_all add: createSchemaByKind_def createBoolSchema_def createStringSchema_def
          createIntSchema_def createUintSchema_def createFloatSchema_def with_Type_def
          NewSingleOrArray_def GetType_def schema_consts schema_setters)
  then obtain s st' where
    k: "createSchemaByKind (\<lambda>st' t'. schemaFromType n D cfg st' (Some t')) D cfg st (Prim p)
          = Some (SRet s None st')"
    and r: "GetType st' s = [t] \<and> os_Format (sch_Schema s) = f \<and> os_Minimum (sch_Schema s) = m"
    by blast
  have "Get (Suc n) D cfg st (Some (Prim p)) = Some (SRet s None st')"
    using assms(2) k by (simp add: Get_def applyExtensions_def)
  with r show ?thesis by blast
qed
theorem primitive_kind_schema_witness:
  "\<exists>s st'. Get (Suc 0) no_decls (NewSchemer no_decls) empty_sstate (Some (Prim PUint32)) = Some (SRet s None st')
           \<and> GetType st' s = [''integer''] \<and> os_Format (sch_Schema s) = ''int32''
           \<and> os_Minimum (sch_Schema s) = Some 0"
proof -
  have a: "spec_primitive_schema PUint32 = Some (''integer'', ''int32'', Some 0)" by simp
  have b: "st_types empty_sstate (Prim PUint32) = None" by (simp add: empty_sstate_def)
  from primitive_kind_schema[OF a b] show ?thesis .
qed

text \<open>
  The format of float64 does not differ from that of float32: both are \<open>float\<close>.
\<close>

theorem float64_format_counterexample:
  "(case Get (Suc 0) no_decls (NewSchemer no_decls) empty_sstate (Some (Prim PFloat32)) of
      Some (SRet s32 None st32) \<Rightarrow>
        (case Get (Suc 0) no_decls (NewSchemer no_decls) empty_sstate (Some (Prim PFloat64)) of
           Some (SRet s64 None st64) \<Rightarrow>
             os_Format (sch_Schema s64) = os_Format (sch_Schema s32)
             \<and> os_Format (sch_Schema s64) = ''float''
         | _ \<Rightarrow> False)
    | _ \<Rightarrow> False)"
  by (simp add: Get_def empty_sstate_def createSchemaByKind_def createFloatSchema_def
        with_Type_def NewSingleOrArray_def applyExtensions_def schema_consts schema_setters)

subsection \<open>Pointers\<close>

text \<open>
  When the schema synthesized for a type \<open>T\<close> has a type list, the schema synthesized
  for the pointer to \<open>T\<close> (a type not entered in the cache by hand) is the same schema,
  and its type list is that of \<open>T\<close>'s schema with null added at the end; nothing else
  changes.
\<close>

theorem pointer_schema_adds_null:
  assumes "Get n D cfg st (Some T) = Some (SRet s None st1)"
    and "os_Type (sch_Schema s) = Some a"
    and "st_types st (PtrT T) = None"
  shows "Get (Suc n) D cfg st (Some (PtrT T)) = Some (SRet s None (Add_type a NullType st1))
         \<and> GetType (Add_type a NullType st1) s = GetType st1 s @ [NullType]
         \<and> st_types (Add_type a NullType st1) = st_types st1"
proof -
  have "createPointerSchema (\<lambda>st' t'. schemaFromType n D cfg st' (Some t')) st (PtrT T)
          = Some (SRet s None (Add_type a NullType st1))"
    using assms(1,2) by (simp add: createPointerSchema_def Get_def)
  then have "Get (Suc n) D cfg st (Some (PtrT T)) = Some (SRet s None (Add_type a NullType st1))"
    using assms(3) by (simp add: Get_def createSchemaByKind_def applyExtensions_def)
  moreover have "GetType (Add_type a NullType st1) s = GetType st1 s @ [NullType]"
    using assms(2) by (simp add: GetType_def Add_type_def)
  moreover have "st_types (Add_type a NullType st1) = st_types st1"
    by (simp add: Add_type_def)
  ultimately show ?thesis by blast
qed

theorem pointer_schema_adds_null_witness:
  "\<exists>s st1 st2. Get (Suc 0) no_decls (NewSchemer no_decls) empty_sstate (Some (Prim PString)) = Some (SRet s None st1)
     \<and> GetType st1 s = [''string'']
     \<and> Get (Suc (Suc 0)) no_decls (NewSchemer no_decls) empty_sstate (Some (PtrT (Prim PString))) = Some (SRet s None st2)
     \<and> GetType st2 s = [''string'', ''null'']"
proof -
  obtain s st1 where
    g: "Get (Suc 0) no_decls (NewSchemer no_decls) empty_sstate (Some (Prim PString)) = Some (SRet s None st1)"
    and t: "GetType st1 s = [''string'']" and a: "os_Type (sch_Schema s) = Some 0"
    by (simp add: Get_def empty_sstate_def createSchemaByKind_def createStringSchema_def
        with_Type_def NewSingleOrArray_def applyExtensions_def GetType_def schema_consts schema_setters)
  have c: "st_types empty_sstate (PtrT (Prim PString)) = None" by (simp add: empty_sstate_def)
  from pointer_schema_adds_null[OF g a c] t g show ?thesis
    by (auto simp: NullType_def)
qed

text \<open>
  When the schema synthesized for \<open>T\<close> has no type list (its \<^verbatim>\<open>Type\<close> pointer is nil),
  \<^verbatim>\<open>createPointerSchema\<close> calls \<^verbatim>\<open>Add\<close> through the nil pointer.
\<close>

lemma pointer_to_typeless_schema:
  assumes "Get n D cfg st (Some T) = Some (SRet s None st1)"
    and "os_Type (sch_Schema s) = None"
    and "st_types st (PtrT T) = None"
  shows "Get (Suc n) D cfg st (Some (PtrT T)) = Some SPanic"
proof -
  have "createPointerSchema (\<lambda>st' t'. schemaFromType n D cfg st' (Some t')) st (PtrT T) = Some SPanic"
    using assms(1,2) by (simp add: createPointerSchema_def Get_def)
  then show ?thesis
    using assms(3) by (simp add: Get_def createSchemaByKind_def)
qed

lemma interface_schema:
  "Get (Suc n) D cfg empty_sstate (Some (InterfaceT name)) = Some (SRet New None empty_sstate)"
  by (simp add: Get_def empty_sstate_def method_of_def createSchemaByKind_def applyExtensions_def)

text \<open>
  C7. The schema of an interface type such as \<^verbatim>\<open>any\<close> is the empty schema, whose type set
  is empty. The schema of the pointer \<^verbatim>\<open>*any\<close> should then be that schema with null as its
  one type; instead \<open>Get\<close> panics on \<^verbatim>\<open>*any\<close>, in a new schemer, with any configuration and
  at every depth that lets it return.
\<close>

theorem pointer_to_interface_panics:
  "Get (Suc n) D cfg empty_sstate (Some (InterfaceT name)) = Some (SRet New None empty_sstate)
   \<and> GetType empty_sstate New = []
   \<and> Get (Suc (Suc n)) D cfg empty_sstate (Some (PtrT (InterfaceT name))) = Some SPanic"
proof -
  have 1: "Get (Suc n) D cfg empty_sstate (Some (InterfaceT name)) = Some (SRet New None empty_sstate)"
    by (rule interface_schema)
  have 2: "os_Type (sch_Schema New) = None" by (simp add: New_def empty_oschema_def)
  have 3: "st_types empty_sstate (PtrT (InterfaceT name)) = None" by (simp add: empty_sstate_def)
  from pointer_to_typeless_schema[OF 1 2 3] 1 2 show ?thesis by (simp add: GetType_def)
qed

text \<open>
  The slice and the map of the same element type are synthesized without a panic: both
  paths test \<^verbatim>\<open>hasType\<close> before they use the element's schema.
\<close>

lemma slice_and_map_of_interface:
  "\<exists>s st'. Get (Suc (Suc n)) D cfg empty_sstate (Some (SliceT (InterfaceT name))) = Some (SRet s None st')
      \<and> GetType st' s = [ArrayType] \<and> os_Items (sch_Schema s) = None"
  "\<exists>s st'. Get (Suc (Suc n)) D cfg empty_sstate (Some (MapT (Prim PString) (InterfaceT name))) = Some (SRet s None st')
      \<and> GetType st' s = [ObjectType] \<and> os_AdditionalProperties (sch_Schema s) = None"
  by (simp_all add: Get_def empty_sstate_def method_of_def createSchemaByKind_def
        applyExtensions_def createArraySchema_def createMapSchema_def with_Type_def
        NewSingleOrArray_def hasType_def GetType_def New_def empty_oschema_def set_Type_def
        Let_def)

subsection \<open>Termination and the cache\<close>

lemma updateSchema_returns:
  "returns (rec st (fld_Type f)) \<Longrightarrow> returns (updateSchema rec cfg c s st f)"
  by (auto simp: returns_def updateSchema_def Let_def split: option.splits sres.splits)

lemma fields_loop_returns:
  "(\<And>f st. f \<in> set fs \<Longrightarrow> returns (rec st (fld_Type f))) \<Longrightarrow>
   returns (fields_loop rec cfg c s st fs)"
proof (induction fs arbitrary: s st)
  case Nil
  then show ?case by (simp add: returns_def)
next
  case (Cons f fs)
  have "returns (updateSchema rec cfg c s st f)"
    using Cons.prems by (simp add: updateSchema_returns)
  moreover have "\<And>s' st'. returns (fields_loop rec cfg c s' st' fs)"
    using Cons.IH Cons.prems by simp
  ultimately show ?case
    by (auto simp: returns_def split: option.splits sres.splits)
qed

lemma createStructSchema_returns:
  "(\<And>f st. f \<in> set (Fields D typ) \<Longrightarrow> returns (rec st (fld_Type f))) \<Longrightarrow>
   returns (createStructSchema rec D cfg st typ)"
proof -
  assume a: "\<And>f st. f \<in> set (Fields D typ) \<Longrightarrow> returns (rec st (fld_Type f))"
  have "returns (schemaFromStruct rec D cfg st typ)"
    unfolding schemaFromStruct_def
    by (auto split: prod.splits intro: fields_loop_returns a)
  then show ?thesis
    by (auto simp: returns_def createStructSchema_def Let_def split: option.splits sres.splits)
qed

lemma createArraySchema_returns:
  "(\<And>st. returns (rec st (Elem typ))) \<Longrightarrow> returns (createArraySchema rec cfg st typ)"
proof -
  assume a: "\<And>st. returns (rec st (Elem typ))"
  obtain s st0 where w: "with_Type ArrayType st = (s, st0)" by (cases "with_Type ArrayType st")
  from a[of st0] w show ?thesis
    by (auto simp: returns_def createArraySchema_def Let_def split: option.splits sres.splits)
qed

lemma createPointerSchema_returns:
  "(\<And>st. returns (rec st (Elem typ))) \<Longrightarrow> returns (createPointerSchema rec st typ)"
proof -
  assume a: "\<And>st. returns (rec st (Elem typ))"
  from a[of st] show ?thesis
    by (auto simp: returns_def createPointerSchema_def split: option.splits sres.splits)
qed

lemma createMapSchema_returns:
  "(\<And>st. returns (rec st (Elem typ))) \<Longrightarrow> returns (createMapSchema rec st typ)"
proof -
  assume a: "\<And>st. returns (rec st (Elem typ))"
  obtain s st0 where w: "with_Type ObjectType st = (s, st0)" by (cases "with_Type ObjectType st")
  from a[of st0] w show ?thesis
    by (auto simp: returns_def createMapSchema_def split: option.splits sres.splits)
qed

lemma schemaFromType_returns_if:
  "returns (createSchemaByKind (\<lambda>st' t'. schemaFromType n D cfg st' (Some t')) D cfg st typ) \<Longrightarrow>
   returns (schemaFromType (Suc n) D cfg st (Some typ))"
  by (auto simp: returns_def split: option.splits sres.splits)

lemma createSchemaByKind_leaf_returns:
  "Kind t \<notin> {KSlice, KArray, KPointer, KMap, KStruct} \<Longrightarrow>
   returns (createSchemaByKind rec D cfg st t)"
  by (auto simp: returns_def createSchemaByKind_def Let_def split: prod.splits)

lemma type_depth_returns:
  "type_depth D t n \<Longrightarrow> returns (schemaFromType n D cfg st (Some t))"
proof (induction t n arbitrary: st rule: type_depth.induct)
  case (depth_leaf t n)
  then show ?case
    by (intro schemaFromType_returns_if createSchemaByKind_leaf_returns)
next
  case (depth_slice t n)
  have "returns (createArraySchema (\<lambda>st' t'. schemaFromType n D cfg st' (Some t')) cfg st (SliceT t))"
    by (rule createArraySchema_returns) (simp add: depth_slice.IH)
  then show ?case
    by (intro schemaFromType_returns_if) (simp add: createSchemaByKind_def)
next
  case (depth_array t n)
  have "returns (createArraySchema (\<lambda>st' t'. schemaFromType n D cfg st' (Some t')) cfg st (ArrayT t))"
    by (rule createArraySchema_returns) (simp add: depth_array.IH)
  then show ?case
    by (intro schemaFromType_returns_if) (simp add: createSchemaByKind_def)
next
  case (depth_ptr t n)
  have "returns (createPointerSchema (\<lambda>st' t'. schemaFromType n D cfg st' (Some t')) st (PtrT t))"
    by (rule createPointerSchema_returns) (simp add: depth_ptr.IH)
  then show ?case
    by (intro schemaFromType_returns_if) (simp add: createSchemaByKind_def)
next
  case (depth_map t n k)
  have "returns (createMapSchema (\<lambda>st' t'. schemaFromType n D cfg st' (Some t')) st (MapT k t))"
    by (rule createMapSchema_returns) (simp add: depth_map.IH)
  then show ?case
    by (intro schemaFromType_returns_if) (simp add: createSchemaByKind_def)
next
  case (depth_struct name n)
  have "returns (createStructSchema (\<lambda>st' t'. schemaFromType n D cfg st' (Some t')) D cfg st (StructT name))"
    by (rule createStructSchema_returns) (use depth_struct.IH in \<open>simp add: Fields_def\<close>)
  then show ?case
    by (intro schemaFromType_returns_if) (simp add: createSchemaByKind_def)
qed

lemma struct_cached_after:
  assumes "schemaFromType n D cfg st (Some (StructT name)) = Some (SRet s None st')"
  shows "st_types st' (StructT name) = Some s"
proof (cases n)
  case 0
  with assms show ?thesis by simp
next
  case (Suc m)
  show ?thesis
  proof (cases "st_types st (StructT name)")
    case (Some c)
    with assms Suc show ?thesis by simp
  next
    case None
    note miss = None
    show ?thesis
    proof (cases "method_of D sd_JSONSchema (StructT name)")
      case (Some js)
      with assms Suc miss show ?thesis
        by (auto simp: handleCustomSchemer_def Let_def split: prod.splits option.splits)
    next
      case None
      let ?rec = "\<lambda>st' t'. schemaFromType m D cfg st' (Some t')"
      from assms Suc miss None obtain s1 st1 where
        k: "createStructSchema ?rec D cfg st (StructT name) = Some (SRet s1 None st1)"
        and e: "applyExtensions D st1 (StructT name) s1 = SRet s None st'"
        by (auto simp: createSchemaByKind_def split: option.splits sres.splits)
      from k have c: "st_types st1 (StructT name) = Some s1"
        by (auto simp: createStructSchema_def Let_def split: option.splits sres.splits if_splits)
      from e c show ?thesis
        by (auto simp: applyExtensions_def Let_def split: option.splits)
    qed
  qed
qed

lemma cached_is_returned:
  "st_types st typ = Some s \<Longrightarrow> schemaFromType (Suc m) D cfg st (Some typ) = Some (SRet s None st)"
  by simp
lemma Node_never_returns:
  "st_types st (StructT ''Node'') = None \<Longrightarrow> st_types st (PtrT (StructT ''Node'')) = None \<Longrightarrow>
   schemaFromType n Node_decls cfg st (Some (StructT ''Node'')) = None
   \<and> schemaFromType n Node_decls cfg st (Some (PtrT (StructT ''Node''))) = None"
proof (induction n arbitrary: st)
  case 0
  then show ?case by simp
next
  case (Suc n)
  obtain s0 st0 where w: "with_Type ObjectType st = (s0, st0)" by (cases "with_Type ObjectType st")
  then have t0: "st_types st0 = st_types st"
    by (auto simp: with_Type_def NewSingleOrArray_def)
  have p: "schemaFromType n Node_decls cfg st0 (Some (PtrT (StructT ''Node''))) = None"
    using Suc.IH[of st0] Suc.prems t0 by simp
  have q: "schemaFromType n Node_decls cfg st (Some (StructT ''Node'')) = None"
    using Suc.IH[of st] Suc.prems by simp
  have 1: "schemaFromType (Suc n) Node_decls cfg st (Some (StructT ''Node'')) = None"
    using Suc.prems w p
    by (simp add: method_of_def Node_decls_def plain_struct_def createSchemaByKind_def
          createStructSchema_def schemaFromStruct_def Fields_def updateSchema_def)
  have 2: "schemaFromType (Suc n) Node_decls cfg st (Some (PtrT (StructT ''Node''))) = None"
    using Suc.prems q
    by (simp add: createSchemaByKind_def createPointerSchema_def)
  from 1 2 show ?case by simp
qed

text \<open>
  C1 (as amended). \<open>Get\<close> returns on every type whose field graph has finite depth,
  within that depth. It enters a struct type in the cache after the schemas of the
  type's fields have been derived: once \<open>Get\<close> has returned a schema for a struct type
  without error, the cache holds that schema for the type, and every later \<open>Get\<close> of
  the type returns the cached schema at once and leaves the state as it is.
\<close>

theorem Get_returns_on_finite_depth_and_caches_after:
  "(type_depth D T n \<longrightarrow> returns (Get n D cfg st (Some T)))
   \<and> (Get n D cfg st (Some (StructT name)) = Some (SRet s None st') \<longrightarrow>
        st_types st' (StructT name) = Some s
        \<and> Get (Suc m) D cfg st' (Some (StructT name)) = Some (SRet s None st'))"
proof (intro conjI impI)
  assume "type_depth D T n"
  then show "returns (Get n D cfg st (Some T))"
    unfolding Get_def by (rule type_depth_returns)
next
  assume "Get n D cfg st (Some (StructT name)) = Some (SRet s None st')"
  then show "st_types st' (StructT name) = Some s"
    unfolding Get_def by (rule struct_cached_after)
next
  assume "Get n D cfg st (Some (StructT name)) = Some (SRet s None st')"
  then have "st_types st' (StructT name) = Some s"
    unfolding Get_def by (rule struct_cached_after)
  then show "Get (Suc m) D cfg st' (Some (StructT name)) = Some (SRet s None st')"
    unfolding Get_def by (rule cached_is_returned)
qed

lemma Pair_depth: "type_depth Pair_decls (StructT ''Pair'') (Suc (Suc (Suc 0)))"
proof (rule depth_struct)
  have a: "type_depth Pair_decls (Prim PInt) (Suc (Suc 0))"
    by (rule depth_leaf) simp
  have "type_depth Pair_decls (Prim PString) (Suc 0)"
    by (rule depth_leaf) simp
  then have b: "type_depth Pair_decls (PtrT (Prim PString)) (Suc (Suc 0))"
    by (rule depth_ptr)
  from a b show "\<forall>f \<in> set (sd_Fields (Pair_decls ''Pair'')). type_depth Pair_decls (fld_Type f) (Suc (Suc 0))"
    by (simp add: Pair_decls_def plain_struct_def)
qed

theorem Get_returns_on_finite_depth_and_caches_after_witness:
  "returns (Get (Suc (Suc (Suc 0))) Pair_decls (NewSchemer Pair_decls) empty_sstate (Some (StructT ''Pair'')))
   \<and> (\<exists>s st'. Get (Suc (Suc (Suc 0))) Pair_decls (NewSchemer Pair_decls) empty_sstate (Some (StructT ''Pair''))
                  = Some (SRet s None st')
        \<and> st_types st' (StructT ''Pair'') = Some s
        \<and> Get (Suc 0) Pair_decls (NewSchemer Pair_decls) st' (Some (StructT ''Pair'')) = Some (SRet s None st'))"
proof -
  let ?g = "Get (Suc (Suc (Suc 0))) Pair_decls (NewSchemer Pair_decls) empty_sstate (Some (StructT ''Pair''))"
  have r: "returns ?g"
    using Get_returns_on_finite_depth_and_caches_after
      [of Pair_decls "StructT ''Pair''" "Suc (Suc (Suc 0))" "NewSchemer Pair_decls" empty_sstate]
      Pair_depth
    by blast
  have "(case ?g of Some (SRet s None st') \<Rightarrow> True | _ \<Rightarrow> False)"
    by code_simp
  then obtain s st' where g: "?g = Some (SRet s None st')"
    by (auto split: option.splits sres.splits)
  from g Get_returns_on_finite_depth_and_caches_after
      [of Pair_decls _ "Suc (Suc (Suc 0))" "NewSchemer Pair_decls" empty_sstate "''Pair''" s st' 0]
  have "st_types st' (StructT ''Pair'') = Some s
        \<and> Get (Suc 0) Pair_decls (NewSchemer Pair_decls) st' (Some (StructT ''Pair'')) = Some (SRet s None st')"
    by blast
  with r g show ?thesis by blast
qed

text \<open>
  A struct that points to itself: the type is not in the cache while its field is
  derived, the field's pointee is the type again, and \<open>Get\<close> does not return at any
  depth.
\<close>

theorem self_referential_struct_counterexample:
  "\<forall>n. Get n Node_decls (NewSchemer Node_decls) empty_sstate (Some (StructT ''Node'')) = None"
  using Node_never_returns[of empty_sstate] by (simp add: Get_def empty_sstate_def)

subsection \<open>The pointer's schema and the cached pointee\<close>

lemma schemaFromType_pointer:
  assumes "schemaFromType n D cfg st (Some T) = Some (SRet s None st1)"
    and "os_Type (sch_Schema s) = Some a"
    and "st_types st (PtrT T) = None"
  shows "schemaFromType (Suc n) D cfg st (Some (PtrT T)) = Some (SRet s None (Add_type a NullType st1))"
proof -
  have "createPointerSchema (\<lambda>st' t'. schemaFromType n D cfg st' (Some t')) st (PtrT T)
          = Some (SRet s None (Add_type a NullType st1))"
    using assms(1,2) by (simp add: createPointerSchema_def)
  then show ?thesis
    using assms(3) by (simp add: createSchemaByKind_def applyExtensions_def)
qed

text \<open>
  The schema returned for a struct type and the cache entry of the type share one type
  list. Synthesizing the schema of the pointer to the struct appends null to that list,
  so afterwards the cache entry of the struct type itself, and every later \<open>Get\<close> of the
  struct type, has null in its type list too.
\<close>

theorem pointer_synthesis_changes_cached_pointee:
  assumes "Get n D cfg st (Some (StructT nm)) = Some (SRet s None st1)"
    and "os_Type (sch_Schema s) = Some a"
    and "st_types st (PtrT (StructT nm)) = None"
  shows "\<exists>st2. Get (Suc n) D cfg st (Some (PtrT (StructT nm))) = Some (SRet s None st2)
           \<and> st_types st2 (StructT nm) = Some s
           \<and> GetType st2 s = GetType st1 s @ [NullType]
           \<and> Get (Suc m) D cfg st2 (Some (StructT nm)) = Some (SRet s None st2)"
proof -
  let ?st2 = "Add_type a NullType st1"
  have g: "Get (Suc n) D cfg st (Some (PtrT (StructT nm))) = Some (SRet s None ?st2)"
    using assms unfolding Get_def by (rule schemaFromType_pointer)
  have c: "st_types ?st2 (StructT nm) = Some s"
    using struct_cached_after[of n D cfg st nm s st1] assms(1)
    by (simp add: Get_def Add_type_def)
  have t: "GetType ?st2 s = GetType st1 s @ [NullType]"
    using assms(2) by (simp add: GetType_def Add_type_def)
  have r: "Get (Suc m) D cfg ?st2 (Some (StructT nm)) = Some (SRet s None ?st2)"
    using c by (simp add: Get_def)
  from g c t r show ?thesis by blast
qed

lemma Pair_Get_shape:
  "(case Get (Suc (Suc (Suc 0))) Pair_decls (NewSchemer Pair_decls) empty_sstate (Some (StructT ''Pair'')) of
      Some (SRet s None st') \<Rightarrow> os_Type (sch_Schema s) \<noteq> None \<and> GetType st' s = [''object'']
    | _ \<Rightarrow> False)"
  by code_simp

theorem pointer_synthesis_changes_cached_pointee_witness:
  "\<exists>s st2. Get (Suc (Suc (Suc (Suc 0)))) Pair_decls (NewSchemer Pair_decls) empty_sstate
              (Some (PtrT (StructT ''Pair''))) = Some (SRet s None st2)
     \<and> GetType st2 s = [''object'', ''null'']
     \<and> Get (Suc 0) Pair_decls (NewSchemer Pair_decls) st2 (Some (StructT ''Pair'')) = Some (SRet s None st2)"
proof -
  obtain s st1 a where
    g: "Get (Suc (Suc (Suc 0))) Pair_decls (NewSchemer Pair_decls) empty_sstate (Some (StructT ''Pair''))
          = Some (SRet s None st1)"
    and a: "os_Type (sch_Schema s) = Some a" and t: "GetType st1 s = [''object'']"
    using Pair_Get_shape by (auto split: option.splits sres.splits)
  have c: "st_types empty_sstate (PtrT (StructT ''Pair'')) = None" by (simp add: empty_sstate_def)
  from pointer_synthesis_changes_cached_pointee[OF g a c, of 0] t show ?thesis
    by (auto simp: NullType_def)
qed

section \<open>The type walker\<close>

subsection \<open>A walk that returns within a depth returns the same within any greater depth\<close>

lemma call_leD: "call_le r1 r2 \<Longrightarrow> r1 x = Some r \<Longrightarrow> r2 x = Some r"
  by (simp add: call_le_def)

lemma getParamsFromStruct_mono:
  assumes "call_le r1 r2" and "getParamsFromStruct r1 f p = Some r"
  shows "getParamsFromStruct r2 f p = Some r"
proof (cases "p = None \<or> Kind (fld_Type f) \<noteq> KStruct")
  case True
  with assms(2) show ?thesis by (auto simp: getParamsFromStruct_def)
next
  case False
  with assms(2) obtain x where x: "r1 (fld_Type f) = Some x"
    by (auto simp: getParamsFromStruct_def split: option.splits)
  then have "r2 (fld_Type f) = Some x" using assms(1) by (rule call_leD[rotated])
  with x False assms(2) show ?thesis by (auto simp add: getParamsFromStruct_def)
qed

lemma infoFromField_mono:
  assumes "call_le r1 r2" and "infoFromField r1 D rd T f nm p = Some r"
  shows "infoFromField r2 D rd T f nm p = Some r"
proof (cases "GetSourceAndType D (fld_Type f)")
  case None
  with assms show ?thesis
    by (simp add: infoFromField_def getParamsFromStruct_mono)
next
  case (Some a)
  with assms(2) show ?thesis by (simp add: infoFromField_def)
qed

lemma info_loop_mono:
  assumes "call_le r1 r2"
  shows "info_loop r1 D rd T nm p params fs = Some r \<Longrightarrow> info_loop r2 D rd T nm p params fs = Some r"
proof (induction fs arbitrary: params)
  case Nil
  then show ?case by simp
next
  case (Cons f fs)
  from Cons.prems obtain x where x: "infoFromField r1 D rd T f nm p = Some x"
    by (auto split: option.splits)
  then have y: "infoFromField r2 D rd T f nm p = Some x"
    using assms by (rule infoFromField_mono[rotated])
  show ?case
  proof (cases x)
    case WPanic
    with x y Cons.prems show ?thesis by auto
  next
    case (WErr e)
    with x y Cons.prems show ?thesis by auto
  next
    case (WOk js)
    with x Cons.prems have "info_loop r1 D rd T nm p (params @ js) fs = Some r" by simp
    then have "info_loop r2 D rd T nm p (params @ js) fs = Some r" by (rule Cons.IH)
    with WOk y show ?thesis by simp
  qed
qed

lemma infoFromValue_fuel_Suc:
  "infoFromValue n D rd nm p T = Some r \<Longrightarrow> infoFromValue (Suc n) D rd nm p T = Some r"
proof (induction n arbitrary: T r)
  case 0
  then show ?case by simp
next
  case (Suc n)
  have le: "call_le (infoFromValue n D rd nm p) (infoFromValue (Suc n) D rd nm p)"
    unfolding call_le_def using Suc.IH by blast
  show ?case
  proof (cases "Kind T \<noteq> KStruct")
    case True
    with Suc.prems show ?thesis by simp
  next
    case False
    with Suc.prems have
      "info_loop (infoFromValue n D rd nm p) D rd T nm p [] (Fields D T) = Some r"
      by simp
    then have "info_loop (infoFromValue (Suc n) D rd nm p) D rd T nm p [] (Fields D T) = Some r"
      by (rule info_loop_mono[OF le])
    with False show ?thesis by simp
  qed
qed

subsection \<open>Parent fields\<close>

lemma infoFromField_param_at:
  assumes rec: "\<And>T' infos' i'. rec T' = Some (WOk infos') \<Longrightarrow> i' \<in> set infos' \<Longrightarrow>
                  param_at D T' (rev (i_ParentFields i')) (i_Struct i') (i_Field i')"
    and f: "f \<in> set (Fields D T)"
    and r: "infoFromField rec D rd T f nm p = Some (WOk js)"
    and i: "i \<in> set js"
  shows "param_at D T (rev (i_ParentFields i)) (i_Struct i) (i_Field i)"
proof (cases "GetSourceAndType D (fld_Type f)")
  case None
  with r have g: "getParamsFromStruct rec f p = Some (WOk js)"
    by (simp add: infoFromField_def)
  show ?thesis
  proof (cases "Kind (fld_Type f) = KStruct")
    case False
    with g i show ?thesis
      by (auto simp: getParamsFromStruct_def split: if_splits)
  next
    case True
    with g obtain infos' where
      r': "rec (fld_Type f) = Some (WOk infos')"
      and js: "js = map (\<lambda>i. i\<lparr>i_ParentFields := i_ParentFields i @ [f]\<rparr>) infos'"
      by (auto simp: getParamsFromStruct_def split: if_splits option.splits wres.splits)
    from i js obtain i' where i': "i' \<in> set infos'"
      and ii: "i = i'\<lparr>i_ParentFields := i_ParentFields i' @ [f]\<rparr>"
      by auto
    from rec[OF r' i'] have "param_at D (fld_Type f) (rev (i_ParentFields i')) (i_Struct i') (i_Field i')" .
    then have "param_at D T (f # rev (i_ParentFields i')) (i_Struct i') (i_Field i')"
      using f None True by (intro at_nested)
    with ii show ?thesis by simp
  qed
next
  case (Some a)
  obtain source ty where a: "a = (source, ty)" by (cases a)
  with Some r i have "i_ParentFields i = [] \<and> i_Struct i = T \<and> i_Field i = f"
    by (auto simp: infoFromField_def Let_def
             split: outcome.splits option.splits if_splits)
  moreover have "param_at D T [] T f"
    using f Some by (intro at_top) simp_all
  ultimately show ?thesis by simp
qed

lemma info_loop_param_at:
  assumes rec: "\<And>T' infos' i'. rec T' = Some (WOk infos') \<Longrightarrow> i' \<in> set infos' \<Longrightarrow>
                  param_at D T' (rev (i_ParentFields i')) (i_Struct i') (i_Field i')"
  shows "info_loop rec D rd T nm p params fs = Some (WOk infos) \<Longrightarrow>
         set fs \<subseteq> set (Fields D T) \<Longrightarrow>
         (\<And>i. i \<in> set params \<Longrightarrow> param_at D T (rev (i_ParentFields i)) (i_Struct i) (i_Field i)) \<Longrightarrow>
         i \<in> set infos \<Longrightarrow>
         param_at D T (rev (i_ParentFields i)) (i_Struct i) (i_Field i)"
proof (induction fs arbitrary: params)
  case Nil
  then show ?case by simp
next
  case (Cons f fs)
  from Cons.prems(1) obtain js where
    r: "infoFromField rec D rd T f nm p = Some (WOk js)"
    and l: "info_loop rec D rd T nm p (params @ js) fs = Some (WOk infos)"
    by (auto split: option.splits wres.splits)
  have f: "f \<in> set (Fields D T)" using Cons.prems(2) by simp
  have "\<And>j. j \<in> set (params @ js) \<Longrightarrow>
          param_at D T (rev (i_ParentFields j)) (i_Struct j) (i_Field j)"
    using Cons.prems(3) infoFromField_param_at[OF rec f r] by auto
  with Cons.IH[OF l] Cons.prems(2,4) show ?case by simp
qed

lemma infoFromValue_param_at:
  "infoFromValue n D rd nm p T = Some (WOk infos) \<Longrightarrow> i \<in> set infos \<Longrightarrow>
   param_at D T (rev (i_ParentFields i)) (i_Struct i) (i_Field i)"
proof (induction n arbitrary: T infos i)
  case 0
  then show ?case by simp
next
  case (Suc n)
  from Suc.prems(1) have
    l: "info_loop (infoFromValue n D rd nm p) D rd T nm p [] (Fields D T) = Some (WOk infos)"
    by (simp split: if_splits)
  show ?case
    by (rule info_loop_param_at[OF _ l _ _ Suc.prems(2)]) (use Suc.IH in auto)
qed
lemma Outer_walk:
  "InfoFromStruct (Suc (Suc (Suc (Suc 0)))) Example_decls plain_render (StructT ''Outer'')
     (Some plain_namer) (Some ParseInt) =
   Some (WOk [\<lparr>i_Name = ''P'', i_Source = ''query'', i_Default = [], i_Type = Some (Prim PInt),
               i_Field = Inner_P, i_Struct = StructT ''Inner'',
               i_ParentFields = [Mid_B, Outer_A]\<rparr>])"
  by code_simp

text \<open>
  C4 (as amended). For every parameter the walker discovers, the reverse of the info's
  \<open>ParentFields\<close> is the list of the enclosing fields, outermost first, through which
  the parameter's field is reached from the walked struct: \<open>ParentFields\<close> lists the
  enclosing fields innermost first, since the walker appends the current containing field
  at every nesting level; it is empty for a top-level parameter and has one entry per
  nesting level.
\<close>

theorem ParentFields_innermost_first:
  "InfoFromStruct n D rd T nm p = Some (WOk infos) \<and> i \<in> set infos \<longrightarrow>
   param_at D T (rev (i_ParentFields i)) (i_Struct i) (i_Field i)"
  unfolding InfoFromStruct_def using infoFromValue_param_at by blast

theorem ParentFields_innermost_first_witness:
  "InfoFromStruct (Suc (Suc (Suc (Suc 0)))) Example_decls plain_render (StructT ''Outer'')
     (Some plain_namer) (Some ParseInt) =
   Some (WOk [\<lparr>i_Name = ''P'', i_Source = ''query'', i_Default = [], i_Type = Some (Prim PInt),
               i_Field = Inner_P, i_Struct = StructT ''Inner'',
               i_ParentFields = [Mid_B, Outer_A]\<rparr>])
   \<and> param_at Example_decls (StructT ''Outer'') (rev [Mid_B, Outer_A]) (StructT ''Inner'') Inner_P"
  using Outer_walk
    ParentFields_innermost_first
      [of "Suc (Suc (Suc (Suc 0)))" Example_decls plain_render "StructT ''Outer''"
          "Some plain_namer" "Some ParseInt"
          "[\<lparr>i_Name = ''P'', i_Source = ''query'', i_Default = [], i_Type = Some (Prim PInt),
              i_Field = Inner_P, i_Struct = StructT ''Inner'',
              i_ParentFields = [Mid_B, Outer_A]\<rparr>]"
          "\<lparr>i_Name = ''P'', i_Source = ''query'', i_Default = [], i_Type = Some (Prim PInt),
             i_Field = Inner_P, i_Struct = StructT ''Inner'',
             i_ParentFields = [Mid_B, Outer_A]\<rparr>"]
  by simp

text \<open>
  For \<^verbatim>\<open>Outer{A Mid}\<close>, \<^verbatim>\<open>Mid{B Inner}\<close>, \<^verbatim>\<open>Inner{P Query[int]}\<close> the parameter \<open>P\<close> is
  reached through \<open>A\<close> and then \<open>B\<close>; its \<open>ParentFields\<close> are \<open>[B, A]\<close>, the innermost
  field first, and not \<open>[A, B]\<close>.
\<close>

theorem ParentFields_outermost_first_counterexample:
  "InfoFromStruct (Suc (Suc (Suc (Suc 0)))) Example_decls plain_render (StructT ''Outer'')
     (Some plain_namer) (Some ParseInt) =
   Some (WOk [\<lparr>i_Name = ''P'', i_Source = ''query'', i_Default = [], i_Type = Some (Prim PInt),
               i_Field = Inner_P, i_Struct = StructT ''Inner'',
               i_ParentFields = [Mid_B, Outer_A]\<rparr>])
   \<and> [Mid_B, Outer_A] \<noteq> [Outer_A, Mid_B]
   \<and> param_at Example_decls (StructT ''Outer'') [Outer_A, Mid_B] (StructT ''Inner'') Inner_P"
proof -
  let ?i = "\<lparr>i_Name = ''P'', i_Source = ''query'', i_Default = [], i_Type = Some (Prim PInt),
             i_Field = Inner_P, i_Struct = StructT ''Inner'',
             i_ParentFields = [Mid_B, Outer_A]\<rparr>"
  have w: "infoFromValue (Suc (Suc (Suc (Suc 0)))) Example_decls plain_render (Some plain_namer)
             (Some ParseInt) (StructT ''Outer'') = Some (WOk [?i])"
    using Outer_walk by (simp add: InfoFromStruct_def)
  have "param_at Example_decls (StructT ''Outer'') (rev (i_ParentFields ?i)) (i_Struct ?i) (i_Field ?i)"
    by (rule infoFromValue_param_at[OF w]) simp
  moreover have "[Mid_B, Outer_A] \<noteq> [Outer_A, Mid_B]"
    by (simp add: Mid_B_def Outer_A_def)
  ultimately show ?thesis using Outer_walk by simp
qed

subsection \<open>Defaults are parsed at walk time\<close>

lemma info_loop_error_at:
  assumes "\<forall>g \<in> set pre. \<exists>js. infoFromField rec D rd T g nm p = Some (WOk js)"
    and "infoFromField rec D rd T f nm p = Some (WErr e)"
  shows "info_loop rec D rd T nm p params (pre @ f # post) = Some (WErr e)"
  using assms
proof (induction pre arbitrary: params)
  case Nil
  then show ?case by simp
next
  case (Cons g pre)
  from Cons.prems(1) obtain js where "infoFromField rec D rd T g nm p = Some (WOk js)"
    by auto
  moreover have "info_loop rec D rd T nm p (params @ js) (pre @ f # post) = Some (WErr e)"
    using Cons.IH Cons.prems by simp
  ultimately show ?case by simp
qed

lemma infoFromField_bad_default:
  assumes "GetSourceAndType D (fld_Type f) = Some (source, ty)"
    and "canParseType D (Some p) (zero_val D ty) f = Ret None v"
    and "Tag_Get (fld_Tag f) ''default'' = d" and "d \<noteq> []"
    and "p v [d] = Ret (Some e) v'"
  shows "infoFromField rec D rd T f nm (Some p) =
         Some (WErr (InvalidParamError
           \<lparr>ipe_Struct = T, ipe_Field = f, ipe_ParamType = Some ty,
            ipe_Message = ErrUnparsableDefault @ '': '' @ d,
            ipe_Err = Error_text rd e, ipe_UnderlineAll = False\<rparr>))"
  using assms by (simp add: infoFromField_def call_parser_def)

lemma infoFromField_bad_type:
  assumes "GetSourceAndType D (fld_Type f) = Some (source, ty)"
    and "p (zero_val D ty) [[]] = Ret (Some ErrInvalidParamType) v"
    and "method_of D sd_CanParse (fld_Type f) = None"
  shows "infoFromField rec D rd T f nm (Some p) =
         Some (WErr (InvalidParamError
           \<lparr>ipe_Struct = T, ipe_Field = f, ipe_ParamType = Some ty,
            ipe_Message = [], ipe_Err = [], ipe_UnderlineAll = False\<rparr>))"
  using assms
  by (simp add: infoFromField_def canParseType_def call_parser_def errors_Is_InvalidParamType_def)

lemma Fields_struct: "f \<in> set (Fields D T) \<Longrightarrow> Kind T = KStruct"
  by (cases T) (simp_all add: Fields_def)

lemma Fields_split_struct: "Fields D T = pre @ f # post \<Longrightarrow> Kind T = KStruct"
  by (rule Fields_struct[of f D]) simp

lemma info_loop_ok_all:
  "info_loop rec D rd T nm p params fs = Some (WOk js) \<Longrightarrow> g \<in> set fs \<Longrightarrow>
   \<exists>js'. infoFromField rec D rd T g nm p = Some (WOk js')"
proof (induction fs arbitrary: params)
  case Nil
  then show ?case by simp
next
  case (Cons h fs)
  from Cons.prems(1) obtain hs where h: "infoFromField rec D rd T h nm p = Some (WOk hs)"
    and rest: "info_loop rec D rd T nm p (params @ hs) fs = Some (WOk js)"
    by (auto split: option.splits wres.splits)
  show ?case
  proof (cases "g = h")
    case True
    with h show ?thesis by simp
  next
    case False
    with Cons.prems(2) have "g \<in> set fs" by simp
    with rest show ?thesis by (rule Cons.IH)
  qed
qed

lemma info_loop_total:
  "\<forall>g \<in> set fs. \<exists>r. infoFromField rec D rd T g nm p = Some r \<Longrightarrow>
   \<exists>r. info_loop rec D rd T nm p params fs = Some r"
proof (induction fs arbitrary: params)
  case Nil
  then show ?case by simp
next
  case (Cons h fs)
  from Cons.prems obtain r where h: "infoFromField rec D rd T h nm p = Some r" by auto
  from Cons.prems have rest: "\<And>ps. \<exists>r. info_loop rec D rd T nm p ps fs = Some r"
    using Cons.IH by simp
  show ?case
  proof (cases r)
    case WPanic
    with h show ?thesis by simp
  next
    case (WErr e)
    with h show ?thesis by simp
  next
    case (WOk js)
    with h rest[of "params @ js"] show ?thesis by simp
  qed
qed

lemma infoFromField_param_total:
  "GetSourceAndType D (fld_Type f) = Some x \<Longrightarrow> \<exists>r. infoFromField rec D rd T f nm p = Some r"
  by (cases x) (auto simp: infoFromField_def Let_def split: outcome.splits option.splits)

lemma infoFromValue_total:
  "walk_depth D T n \<Longrightarrow> \<exists>r. infoFromValue n D rd nm (Some p) T = Some r"
proof (induction rule: walk_depth.induct)
  case (walk_depth_struct T n)
  have "\<exists>r. infoFromField (infoFromValue n D rd nm (Some p)) D rd T g nm (Some p) = Some r"
    if g: "g \<in> set (Fields D T)" for g
  proof (cases "GetSourceAndType D (fld_Type g)")
    case (Some x)
    then show ?thesis by (rule infoFromField_param_total)
  next
    case None
    show ?thesis
    proof (cases "Kind (fld_Type g) = KStruct")
      case False
      with None show ?thesis by (simp add: infoFromField_def getParamsFromStruct_def)
    next
      case True
      with None g walk_depth_struct obtain r where
        "infoFromValue n D rd nm (Some p) (fld_Type g) = Some r" by blast
      with None True show ?thesis
        by (cases r) (simp_all add: infoFromField_def getParamsFromStruct_def)
    qed
  qed
  then have "\<exists>r. info_loop (infoFromValue n D rd nm (Some p)) D rd T nm (Some p) [] (Fields D T) = Some r"
    by (intro info_loop_total) blast
  then show ?case by simp
qed

lemma walk_never_ok:
  assumes "param_at D T path S f"
    and "\<And>rec. infoFromField rec D rd S f nm p = Some (WErr E)"
  shows "infoFromValue n D rd nm p T \<noteq> Some (WOk js)"
  using assms
proof (induction arbitrary: n js rule: param_at.induct)
  case (at_top f T)
  show ?case
  proof (cases n)
    case 0
    then show ?thesis by simp
  next
    case (Suc m)
    show ?thesis
    proof
      assume a: "infoFromValue n D rd nm p T = Some (WOk js)"
      from at_top(1) have "Kind T = KStruct" by (rule Fields_struct)
      with a Suc have "info_loop (infoFromValue m D rd nm p) D rd T nm p [] (Fields D T) = Some (WOk js)"
        by simp
      from info_loop_ok_all[OF this at_top(1)] at_top(3) show False by simp
    qed
  qed
next
  case (at_nested g T path S f)
  show ?case
  proof (cases n)
    case 0
    then show ?thesis by simp
  next
    case (Suc m)
    show ?thesis
    proof
      assume a: "infoFromValue n D rd nm p T = Some (WOk js)"
      from at_nested(1) have "Kind T = KStruct" by (rule Fields_struct)
      with a Suc have "info_loop (infoFromValue m D rd nm p) D rd T nm p [] (Fields D T) = Some (WOk js)"
        by simp
      from info_loop_ok_all[OF this at_nested(1)] obtain js' where
        "infoFromField (infoFromValue m D rd nm p) D rd T g nm p = Some (WOk js')" by blast
      with at_nested(2,3) obtain js'' where "infoFromValue m D rd nm p (fld_Type g) = Some (WOk js'')"
        by (auto simp: infoFromField_def getParamsFromStruct_def split: if_splits option.splits wres.splits)
      with at_nested.IH[OF at_nested.prems] show False by blast
    qed
  qed
qed

lemma walked_first_struct:
  "walked_first D rd nm p n T path S f \<Longrightarrow> Kind T = KStruct"
  by (cases rule: walked_first.cases) (auto dest: Fields_split_struct)

lemma walked_first_error:
  assumes "walked_first D rd nm (Some p) n T path S f"
    and "\<And>rec. infoFromField rec D rd S f nm (Some p) = Some (WErr E)"
  shows "infoFromValue n D rd nm (Some p) T = Some (WErr E)"
  using assms
proof (induction rule: walked_first.induct)
  case (first_top T pre f post n)
  from first_top(1) have k: "Kind T = KStruct" by (rule Fields_split_struct)
  have "info_loop (infoFromValue n D rd nm (Some p)) D rd T nm (Some p) [] (pre @ f # post) = Some (WErr E)"
    using first_top(3) first_top(4) by (intro info_loop_error_at)
  with k first_top(1) show ?case by simp
next
  case (first_nested T pre g post n path S f)
  from first_nested(1) have k: "Kind T = KStruct" by (rule Fields_split_struct)
  have kg: "Kind (fld_Type g) = KStruct" using first_nested(4) by (rule walked_first_struct)
  have "infoFromValue n D rd nm (Some p) (fld_Type g) = Some (WErr E)"
    using first_nested.IH first_nested.prems by blast
  with first_nested(2) kg have
    "infoFromField (infoFromValue n D rd nm (Some p)) D rd T g nm (Some p) = Some (WErr E)"
    by (simp add: infoFromField_def getParamsFromStruct_def)
  with first_nested(3) have
    "info_loop (infoFromValue n D rd nm (Some p)) D rd T nm (Some p) [] (pre @ g # post) = Some (WErr E)"
    by (intro info_loop_error_at)
  with k first_nested(1) show ?case by simp
qed

text \<open>
  On a variable of an integer type the parser of the router does what the built-in parser of
  that type does, and each of them rejects the default that \<^verbatim>\<open>strconv\<close> rejects, after
  passing the test of the type.
\<close>

lemma strconv_ParseUint_error:
  "strconv_ParseUint s b = (i, Some e) \<Longrightarrow> \<exists>c. e = NumError ''ParseUint'' s c"
  by (auto simp: strconv_ParseUint_def Let_def split: if_splits prod.splits option.splits)

lemma strconv_ParseInt_error:
  "strconv_ParseInt s b = (i, Some e) \<Longrightarrow> \<exists>c. e = NumError ''ParseInt'' s c"
  by (auto simp: strconv_ParseInt_def Let_def
      split: list.splits if_splits prod.splits option.splits err.splits numerr.splits)

lemma strconv_not_sentinel:
  "\<not> errors_Is_InvalidParamType (snd (strconv_ParseInt s b))"
  "\<not> errors_Is_InvalidParamType (snd (strconv_ParseUint s b))"
proof -
  show "\<not> errors_Is_InvalidParamType (snd (strconv_ParseInt s b))"
    using strconv_ParseInt_error[of s b]
    by (cases "strconv_ParseInt s b") (auto simp: errors_Is_InvalidParamType_def split: option.splits)
  show "\<not> errors_Is_InvalidParamType (snd (strconv_ParseUint s b))"
    using strconv_ParseUint_error[of s b]
    by (cases "strconv_ParseUint s b") (auto simp: errors_Is_InvalidParamType_def split: option.splits)
qed

lemma ParseInt_signed:
  "ParseInt (VInt x) [s] = Ret (snd (strconv_ParseInt s 0)) (VInt (fst (strconv_ParseInt s 0)))"
  "ParseInt (VInt8 x) [s] = Ret (snd (strconv_ParseInt s 8)) (VInt8 (fst (strconv_ParseInt s 8)))"
  "ParseInt (VInt16 x) [s] = Ret (snd (strconv_ParseInt s 16)) (VInt16 (fst (strconv_ParseInt s 16)))"
  "ParseInt (VInt32 x) [s] = Ret (snd (strconv_ParseInt s 32)) (VInt32 (fst (strconv_ParseInt s 32)))"
  "ParseInt (VInt64 x) [s] = Ret (snd (strconv_ParseInt s 64)) (VInt64 (fst (strconv_ParseInt s 64)))"
  by (simp_all add: ParseInt_def split: prod.splits)

lemma ParseUint_unsigned:
  "ParseUint (VUint x) [s] = Ret (snd (strconv_ParseUint s 0)) (VUint (fst (strconv_ParseUint s 0)))"
  "ParseUint (VUint8 x) [s] = Ret (snd (strconv_ParseUint s 8)) (VUint8 (fst (strconv_ParseUint s 8)))"
  "ParseUint (VUint16 x) [s] = Ret (snd (strconv_ParseUint s 16)) (VUint16 (fst (strconv_ParseUint s 16)))"
  "ParseUint (VUint32 x) [s] = Ret (snd (strconv_ParseUint s 32)) (VUint32 (fst (strconv_ParseUint s 32)))"
  "ParseUint (VUint64 x) [s] = Ret (snd (strconv_ParseUint s 64)) (VUint64 (fst (strconv_ParseUint s 64)))"
  by (simp_all add: ParseUint_def split: prod.splits)

lemma ParseInt_unsigned:
  "ParseInt (VUint x) [s] = Ret (Some ErrInvalidParamType) (VUint x)"
  "ParseInt (VUint8 x) [s] = Ret (Some ErrInvalidParamType) (VUint8 x)"
  "ParseInt (VUint16 x) [s] = Ret (Some ErrInvalidParamType) (VUint16 x)"
  "ParseInt (VUint32 x) [s] = Ret (Some ErrInvalidParamType) (VUint32 x)"
  "ParseInt (VUint64 x) [s] = Ret (Some ErrInvalidParamType) (VUint64 x)"
  by (simp_all add: ParseInt_def)

lemma sentinel_Is: "errors_Is_InvalidParamType (Some ErrInvalidParamType)"
  by (simp add: errors_Is_InvalidParamType_def)

lemma newParamParsers_integer:
  assumes "int_parser k = Some (q, sp)"
  shows "newParamParsers pf D (zero_val D (Prim k)) [s] = q (zero_val D (Prim k)) [s]"
  using assms
  by (cases k)
     (simp_all add: newParamParsers_def Let_def Parsers_Parse_def ParseTextUnmarshaller_def zero_val_def
        ParseInt_signed ParseUint_unsigned ParseInt_unsigned strconv_not_sentinel sentinel_Is)

lemma int_parser_result:
  assumes "int_parser k = Some (q, sp)"
  shows "\<exists>v'. q (zero_val D (Prim k)) [s] = Ret (snd (sp s)) v'"
  using assms
  by (cases k) (auto simp: zero_val_def ParseInt_signed ParseUint_unsigned)

lemma int_parser_empty:
  assumes "int_parser k = Some (q, sp)"
  shows "\<exists>e. q (zero_val D (Prim k)) [[]] = Ret (Some e) (zero_val D (Prim k)) \<and> \<not> is_ErrInvalidParamType e"
  using assms
  by (cases k) (auto simp: ParseInt_def ParseUint_def zero_val_def strconv_ParseInt_def strconv_ParseUint_def)

lemma integer_default_rejected:
  assumes k: "int_parser k = Some (q, sp)" and bad: "snd (sp d) = Some e"
    and p: "p = q \<or> p = newParamParsers pf D"
  shows "canParseType D (Some p) (zero_val D (Prim k)) f = Ret None (zero_val D (Prim k))"
    and "\<exists>v'. p (zero_val D (Prim k)) [d] = Ret (Some e) v'"
proof -
  have eq: "p (zero_val D (Prim k)) [s] = q (zero_val D (Prim k)) [s]" for s
    using p newParamParsers_integer[OF k] by auto
  obtain e0 where "q (zero_val D (Prim k)) [[]] = Ret (Some e0) (zero_val D (Prim k))"
    and "\<not> is_ErrInvalidParamType e0"
    using int_parser_empty[OF k] by blast
  then show "canParseType D (Some p) (zero_val D (Prim k)) f = Ret None (zero_val D (Prim k))"
    by (simp add: canParseType_def call_parser_def errors_Is_InvalidParamType_def eq)
  from int_parser_result[OF k, of D d] bad eq
  show "\<exists>v'. p (zero_val D (Prim k)) [d] = Ret (Some e) v'" by simp
qed

text \<open>
  The struct of the repository's test, \<^verbatim>\<open>BadDefault\<close>, walked with the parser of the router.
\<close>

lemma BadDefault_walk:
  "InfoFromStruct (Suc 0) Example_decls plain_render (StructT ''BadDefault'') (Some plain_namer)
     (Some (newParamParsers no_floats Example_decls)) =
   Some (WErr (InvalidParamError
     \<lparr>ipe_Struct = StructT ''BadDefault'', ipe_Field = BadDefault_Field,
      ipe_ParamType = Some (Prim PInt),
      ipe_Message = ''default value cannot be parsed: 1.'',
      ipe_Err = ''strconv.ParseInt: parsing '' @ [CHR 0x22] @ ''1.'' @ [CHR 0x22] @ '': invalid syntax'',
      ipe_UnderlineAll = False\<rparr>))"
  by code_simp

text \<open>The example: \<^verbatim>\<open>Search\<close>, whose nested struct has the default \<^verbatim>\<open>1.\<close> on an \<^verbatim>\<open>int\<close>.\<close>

lemma Search_facts:
  "Fields Example_decls (StructT ''Search'') = [Search_Term] @ Search_Limits # []"
  "Fields Example_decls (StructT ''Limits'') = [] @ Limits_Max # []"
  "GetSourceAndType Example_decls (fld_Type Search_Term) = Some (''query'', Prim PString)"
  "GetSourceAndType Example_decls (fld_Type Search_Limits) = None"
  "Kind (fld_Type Search_Limits) = KStruct"
  "fld_Type Search_Limits = StructT ''Limits''"
  "GetSourceAndType Example_decls (fld_Type Limits_Max) = Some (''query'', Prim PInt)"
  "Tag_Get (fld_Tag Limits_Max) ''default'' = ''1.''"
  by (simp_all add: Fields_def Example_decls_def plain_struct_def Search_Term_def
        Search_Limits_def Limits_Max_def GetSourceAndType_def method_of_def Query_decl_def
        Tag_Get_def)

lemma Search_parser_facts:
  "canParseType Example_decls (Some (newParamParsers no_floats Example_decls))
     (zero_val Example_decls (Prim PInt)) Limits_Max = Ret None (VInt 0)"
  "newParamParsers no_floats Example_decls (VInt 0) [''1.''] =
     Ret (Some (NumError ''ParseInt'' ''1.'' ErrSyntax)) (VInt 0)"
  "newParamParsers no_floats Example_decls (zero_val Example_decls FuncT) [[]] =
     Ret (Some ErrInvalidParamType) (VOther FuncT)"
  by (simp_all add: canParseType_def NewReflectParser_def ParseUint_def ParseFloat_def
        ParseString_def ParseBool_def call_parser_def newParamParsers_def Let_def Parsers_Parse_def
        ParseTextUnmarshaller_def ParseInt_def zero_val_def errors_Is_InvalidParamType_def
        strconv_ParseInt_def strconv_ParseUint_def intSize_def is_digit_def digit_val_def)

lemma Search_Term_walk:
  "infoFromField
     (infoFromValue (Suc 0) Example_decls plain_render (Some plain_namer)
        (Some (newParamParsers no_floats Example_decls)))
     Example_decls plain_render (StructT ''Search'') Search_Term (Some plain_namer)
     (Some (newParamParsers no_floats Example_decls)) =
   Some (WOk [\<lparr>i_Name = ''Term'', i_Source = ''query'', i_Default = [],
               i_Type = Some (Prim PString), i_Field = Search_Term,
               i_Struct = StructT ''Search'', i_ParentFields = []\<rparr>])"
  by code_simp

lemma Hook_facts:
  "GetSourceAndType Example_decls (fld_Type Hook_Field) = Some (''query'', FuncT)"
  "method_of Example_decls sd_CanParse (fld_Type Hook_Field) = None"
  by (simp_all add: Example_decls_def Hook_Field_def GetSourceAndType_def method_of_def
        Query_decl_def plain_struct_def)

lemma Search_reach:
  "param_at Example_decls (StructT ''Search'') [Search_Limits] (StructT ''Limits'') Limits_Max"
proof -
  have "param_at Example_decls (StructT ''Limits'') [] (StructT ''Limits'') Limits_Max"
    by (rule at_top) (simp_all add: Search_facts(2,7))
  then have inner:
    "param_at Example_decls (fld_Type Search_Limits) [] (StructT ''Limits'') Limits_Max"
    by (simp add: Search_facts(6))
  show ?thesis
    by (rule at_nested[OF _ Search_facts(4) Search_facts(5) inner]) (simp add: Search_facts(1))
qed

lemma Search_depth: "walk_depth Example_decls (StructT ''Search'') (Suc (Suc 0))"
proof -
  have "walk_depth Example_decls (StructT ''Limits'') (Suc 0)"
    by (rule walk_depth_struct) (simp add: Search_facts(2,7))
  then have "walk_depth Example_decls (fld_Type Search_Limits) (Suc 0)"
    by (simp add: Search_facts(6))
  then show ?thesis
    by (intro walk_depth_struct) (simp add: Search_facts(1,3))
qed

lemma Search_first:
  "walked_first Example_decls plain_render (Some plain_namer)
     (Some (newParamParsers no_floats Example_decls)) (Suc (Suc 0))
     (StructT ''Search'') [Search_Limits] (StructT ''Limits'') Limits_Max"
proof -
  let ?p = "Some (newParamParsers no_floats Example_decls)"
  have "walked_first Example_decls plain_render (Some plain_namer) ?p (Suc 0)
          (StructT ''Limits'') [] (StructT ''Limits'') Limits_Max"
    by (rule first_top[OF Search_facts(2)]) (simp_all add: Search_facts(7))
  then have inner: "walked_first Example_decls plain_render (Some plain_namer) ?p (Suc 0)
          (fld_Type Search_Limits) [] (StructT ''Limits'') Limits_Max"
    by (simp add: Search_facts(6))
  show ?thesis
    by (rule first_nested[OF Search_facts(1) Search_facts(4) _ inner])
       (simp add: Search_Term_walk)
qed

text \<open>
  C6. Let \<open>f\<close> be a parameter field that the walk of \<open>T\<close> reaches, directly or inside
  nested structs (\<open>param_at\<close>), of a type the parser given to the walk handles, and tagged
  with a default \<open>d\<close> that this parser rejects with the error \<open>e\<close>. (For the ten integer
  types these are the literals \<^verbatim>\<open>strconv\<close> rejects, such as \<^verbatim>\<open>1.\<close>, with the built-in
  parsers as with the parser of the router: lemma \<open>integer_default_rejected\<close>.) Then
  \<^item> \<open>InfoFromStruct\<close> never returns the list of parameters, whatever else the struct holds;
  \<^item> it returns, within the depth of the struct;
  \<^item> where no field walked before \<open>f\<close> fails (\<open>walked_first\<close>), it returns the
    \<open>InvalidParamError\<close> of \<open>f\<close> whose message is "default value cannot be parsed: "
    followed by \<open>d\<close>, and whose underlined text is the text of \<open>e\<close>;
  \<^item> the error of a parameter whose type the parser cannot parse has the empty message
    instead (it is rendered under another title).
  All of this happens in the walk, before any request.
\<close>

theorem unparsable_default_fails_at_walk:
  assumes "param_at D T path S f"
    and "GetSourceAndType D (fld_Type f) = Some (source, ty)"
    and "canParseType D (Some p) (zero_val D ty) f = Ret None v"
    and "Tag_Get (fld_Tag f) ''default'' = d" and "d \<noteq> []"
    and "p v [d] = Ret (Some e) v'"
  shows "(\<forall>n js. InfoFromStruct n D rd T nm (Some p) \<noteq> Some (WOk js))
       \<and> (\<forall>n. walk_depth D T n \<longrightarrow> (\<exists>r. InfoFromStruct n D rd T nm (Some p) = Some r))
       \<and> (\<forall>n. walked_first D rd nm (Some p) n T path S f \<longrightarrow>
            InfoFromStruct n D rd T nm (Some p) =
            Some (WErr (InvalidParamError
              \<lparr>ipe_Struct = S, ipe_Field = f, ipe_ParamType = Some ty,
               ipe_Message = ''default value cannot be parsed: '' @ d,
               ipe_Err = Error_text rd e, ipe_UnderlineAll = False\<rparr>)))
       \<and> (\<forall>rec T' g src ty' v0.
             GetSourceAndType D (fld_Type g) = Some (src, ty')
             \<and> p (zero_val D ty') [[]] = Ret (Some ErrInvalidParamType) v0
             \<and> method_of D sd_CanParse (fld_Type g) = None \<longrightarrow>
             (\<exists>x. infoFromField rec D rd T' g nm (Some p) = Some (WErr (InvalidParamError x))
                  \<and> ipe_Message x = []
                  \<and> ipe_Message x \<noteq> ''default value cannot be parsed: '' @ d))"
proof -
  let ?E = "InvalidParamError
              \<lparr>ipe_Struct = S, ipe_Field = f, ipe_ParamType = Some ty,
               ipe_Message = ''default value cannot be parsed: '' @ d,
               ipe_Err = Error_text rd e, ipe_UnderlineAll = False\<rparr>"
  have E: "infoFromField rec D rd S f nm (Some p) = Some (WErr ?E)" for rec
    using infoFromField_bad_default[OF assms(2,3,4,5,6)]
    by (simp add: ErrUnparsableDefault_def)
  have 1: "\<forall>n js. InfoFromStruct n D rd T nm (Some p) \<noteq> Some (WOk js)"
    using walk_never_ok[OF assms(1) E] by (simp add: InfoFromStruct_def)
  have 2: "\<forall>n. walk_depth D T n \<longrightarrow> (\<exists>r. InfoFromStruct n D rd T nm (Some p) = Some r)"
    using infoFromValue_total by (simp add: InfoFromStruct_def)
  have 3: "\<forall>n. walked_first D rd nm (Some p) n T path S f \<longrightarrow>
            InfoFromStruct n D rd T nm (Some p) = Some (WErr ?E)"
    using walked_first_error[OF _ E] by (simp add: InfoFromStruct_def)
  have 4: "\<forall>rec T' g src ty' v0.
             GetSourceAndType D (fld_Type g) = Some (src, ty')
             \<and> p (zero_val D ty') [[]] = Ret (Some ErrInvalidParamType) v0
             \<and> method_of D sd_CanParse (fld_Type g) = None \<longrightarrow>
             (\<exists>x. infoFromField rec D rd T' g nm (Some p) = Some (WErr (InvalidParamError x))
                  \<and> ipe_Message x = []
                  \<and> ipe_Message x \<noteq> ''default value cannot be parsed: '' @ d)"
    using infoFromField_bad_type by fastforce
  from 1 2 3 4 show ?thesis by blast
qed

theorem unparsable_default_fails_at_walk_witness:
  "InfoFromStruct (Suc (Suc 0)) Example_decls plain_render (StructT ''Search'') (Some plain_namer)
     (Some (newParamParsers no_floats Example_decls)) =
   Some (WErr (InvalidParamError
     \<lparr>ipe_Struct = StructT ''Limits'', ipe_Field = Limits_Max,
      ipe_ParamType = Some (Prim PInt),
      ipe_Message = ''default value cannot be parsed: 1.'',
      ipe_Err = ''strconv.ParseInt: parsing '' @ [CHR 0x22] @ ''1.'' @ [CHR 0x22] @ '': invalid syntax'',
      ipe_UnderlineAll = False\<rparr>))
   \<and> (\<forall>n js. InfoFromStruct n Example_decls plain_render (StructT ''Search'') (Some plain_namer)
               (Some (newParamParsers no_floats Example_decls)) \<noteq> Some (WOk js))
   \<and> (\<exists>x. infoFromField (\<lambda>t. None) Example_decls plain_render (StructT ''Search'') Hook_Field
             (Some plain_namer) (Some (newParamParsers no_floats Example_decls)) =
             Some (WErr (InvalidParamError x))
          \<and> ipe_Message x = [])"
proof -
  have d: "''1.'' \<noteq> []" by simp
  have z: "zero_val Example_decls (Prim PInt) = VInt 0" by (simp add: zero_val_def)
  note t = unparsable_default_fails_at_walk
      [OF Search_reach Search_facts(7) Search_parser_facts(1) Search_facts(8) d
          Search_parser_facts(2),
       of plain_render "Some plain_namer"]
  from t Search_first have 1:
    "InfoFromStruct (Suc (Suc 0)) Example_decls plain_render (StructT ''Search'') (Some plain_namer)
       (Some (newParamParsers no_floats Example_decls)) =
     Some (WErr (InvalidParamError
       \<lparr>ipe_Struct = StructT ''Limits'', ipe_Field = Limits_Max,
        ipe_ParamType = Some (Prim PInt),
        ipe_Message = ''default value cannot be parsed: 1.'',
        ipe_Err = ''strconv.ParseInt: parsing '' @ [CHR 0x22] @ ''1.'' @ [CHR 0x22] @ '': invalid syntax'',
        ipe_UnderlineAll = False\<rparr>))"
    by (simp add: plain_render_def)
  from t Hook_facts Search_parser_facts(3) have 2:
    "\<exists>x. infoFromField (\<lambda>t. None) Example_decls plain_render (StructT ''Search'') Hook_Field
             (Some plain_namer) (Some (newParamParsers no_floats Example_decls)) =
             Some (WErr (InvalidParamError x))
          \<and> ipe_Message x = []"
    by blast
  from t have 3:
    "\<forall>n js. InfoFromStruct n Example_decls plain_render (StructT ''Search'') (Some plain_namer)
               (Some (newParamParsers no_floats Example_decls)) \<noteq> Some (WOk js)"
    by blast
  from t Search_depth have
    "\<exists>r. InfoFromStruct (Suc (Suc 0)) Example_decls plain_render (StructT ''Search'')
           (Some plain_namer) (Some (newParamParsers no_floats Example_decls)) = Some r"
    by blast
  with 1 2 3 show ?thesis by blast
qed

section \<open>The compiled extractor and the default tag\<close>

subsection \<open>A compilation that returns within a depth returns the same within any greater depth\<close>

lemma extractFromStructOfExtractors_mono:
  "call_le r1 r2 \<Longrightarrow> extractFromStructOfExtractors r1 f = Some c \<Longrightarrow>
   extractFromStructOfExtractors r2 f = Some c"
  by (auto simp: extractFromStructOfExtractors_def dest: call_leD split: if_splits)

lemma extractorFromField_mono:
  assumes "call_le r1 r2" and "extractorFromField r1 D reg f eo = Some c"
  shows "extractorFromField r2 D reg f eo = Some c"
proof (cases "first_strategy
             [extractHTTPRequest f, extractHTTPResponse f, extractExtractor D f,
              extractParamExtractor D f eo, extractFromExtractors reg f] = CNil")
  case False
  with assms(2) show ?thesis
    by (auto simp: extractorFromField_def split: cres.splits)
next
  case True
  with assms(2) obtain x where x: "extractFromStructOfExtractors r1 f = Some x"
    by (auto simp: extractorFromField_def split: option.splits)
  then have "extractFromStructOfExtractors r2 f = Some x"
    using assms(1) by (rule extractFromStructOfExtractors_mono[rotated])
  with x True assms(2) show ?thesis by (simp add: extractorFromField_def)
qed

lemma findRelatedExtractors_mono:
  assumes "call_le r1 r2" and "findRelatedExtractors r1 D reg f eo = Some c"
  shows "findRelatedExtractors r2 D reg f eo = Some c"
proof -
  let ?f1 = "f\<lparr>fld_Type := PtrT (fld_Type f)\<rparr>"
  let ?f2 = "f\<lparr>fld_Type := Elem (fld_Type f)\<rparr>"
  from assms(2) obtain c1 where c1: "extractorFromField r1 D reg ?f1 eo = Some c1"
    by (auto simp: findRelatedExtractors_def Let_def split: option.splits)
  then have d1: "extractorFromField r2 D reg ?f1 eo = Some c1"
    using assms(1) by (rule extractorFromField_mono[rotated])
  show ?thesis
  proof (cases "c1 = CPanic \<or> Kind (fld_Type f) \<noteq> KPointer")
    case True
    with c1 d1 assms(2) show ?thesis
      by (auto simp: findRelatedExtractors_def Let_def split: cres.splits)
  next
    case False
    with c1 assms(2) obtain c2 where c2: "extractorFromField r1 D reg ?f2 eo = Some c2"
      by (auto simp: findRelatedExtractors_def Let_def split: option.splits cres.splits)
    then have d2: "extractorFromField r2 D reg ?f2 eo = Some c2"
      using assms(1) by (rule extractorFromField_mono[rotated])
    with c1 d1 c2 False assms(2) show ?thesis
      by (auto simp: findRelatedExtractors_def Let_def split: cres.splits)
  qed
qed

lemma extractorFromFieldWithRelated_mono:
  assumes "call_le r1 r2" and "extractorFromFieldWithRelated r1 D reg f eo = Some c"
  shows "extractorFromFieldWithRelated r2 D reg f eo = Some c"
proof -
  from assms(2) obtain x where x: "extractorFromField r1 D reg f eo = Some x"
    by (auto simp: extractorFromFieldWithRelated_def split: option.splits)
  then have y: "extractorFromField r2 D reg f eo = Some x"
    using assms(1) by (rule extractorFromField_mono[rotated])
  show ?thesis
  proof (cases "\<exists>fname ftype st related. x = CErr (UnknownFieldTypeError fname ftype st related)")
    case False
    with x y assms(2) show ?thesis
      by (auto simp: extractorFromFieldWithRelated_def split: cres.splits err.splits)
  next
    case True
    then obtain fname ftype st related where
      u: "x = CErr (UnknownFieldTypeError fname ftype st related)" by blast
    with x assms(2) obtain z where z: "findRelatedExtractors r1 D reg f eo = Some z"
      by (auto simp: extractorFromFieldWithRelated_def split: option.splits)
    then have "findRelatedExtractors r2 D reg f eo = Some z"
      using assms(1) by (rule findRelatedExtractors_mono[rotated])
    with x y z u assms(2) show ?thesis
      by (simp add: extractorFromFieldWithRelated_def)
  qed
qed

lemma compile_fields_mono:
  assumes "call_le r1 r2"
  shows "compile_fields r1 D reg T eo fs = Some c \<Longrightarrow> compile_fields r2 D reg T eo fs = Some c"
proof (induction fs arbitrary: c)
  case Nil
  then show ?case by simp
next
  case (Cons f fs)
  from Cons.prems obtain x where x: "extractorFromFieldWithRelated r1 D reg f eo = Some x"
    by (auto split: option.splits)
  then have y: "extractorFromFieldWithRelated r2 D reg f eo = Some x"
    using assms by (rule extractorFromFieldWithRelated_mono[rotated])
  show ?case
  proof (cases "x = CPanic \<or> (\<exists>e. x = CErr e)")
    case True
    with x y Cons.prems show ?thesis by auto
  next
    case False
    with x Cons.prems obtain z where z: "compile_fields r1 D reg T eo fs = Some z"
      by (cases x) (auto split: option.splits)
    then have "compile_fields r2 D reg T eo fs = Some z" by (rule Cons.IH)
    with x y z False Cons.prems show ?thesis by (cases x) auto
  qed
qed

lemma extractorFor_fuel_Suc:
  "extractorFor n D reg eo T = Some c \<Longrightarrow> extractorFor (Suc n) D reg eo T = Some c"
proof (induction n arbitrary: T c)
  case 0
  then show ?case by simp
next
  case (Suc n)
  have le: "call_le (extractorFor n D reg eo) (extractorFor (Suc n) D reg eo)"
    unfolding call_le_def using Suc.IH by blast
  show ?case
  proof (cases "Kind T \<noteq> KStruct")
    case True
    with Suc.prems show ?thesis by simp
  next
    case False
    with Suc.prems obtain x where
      x: "compile_fields (extractorFor n D reg eo) D reg T eo (Fields D T) = Some x"
      by (auto split: option.splits)
    then have "compile_fields (extractorFor (Suc n) D reg eo) D reg T eo (Fields D T) = Some x"
      by (rule compile_fields_mono[OF le])
    with x False Suc.prems show ?thesis by simp
  qed
qed

subsection \<open>The default tag\<close>

lemma compiled_Query_step:
  assumes "method_of D sd_ParamExtract (fld_Type f) = Some Query_Extract"
    and "method_of D sd_Source (fld_Type f) = Some source"
    and "method_of D sd_Extract (fld_Type f) = None"
    and "fld_Type f \<noteq> httpReqType" and "fld_Type f \<noteq> httpRespType"
    and "NameFromField f (eo_Namer eo) source = Some name"
  shows "extractorFromFieldWithRelated rec D reg f eo =
         Some (CFn (\<lambda>r v. Query_Extract r \<lparr>o_Name = name, o_Default = [], o_Parser = eo_Parser eo,
                                            o_Pather = eo_Pather eo\<rparr> v))"
  using assms
  by (simp add: extractorFromFieldWithRelated_def extractorFromField_def extractHTTPRequest_def
        extractHTTPResponse_def extractExtractor_def extractParamExtractor_def)

lemma Query_Extract_with_default:
  "Query_Extract no_query \<lparr>o_Name = ''Field'', o_Default = ''1'', o_Parser = Some ParseInt,
                            o_Pather = None\<rparr> (VStruct ''Query[int]'' [VInt 0]) =
     (Ret None (VStruct ''Query[int]'' [VInt 1]), no_query\<lparr>rq_cachedQuery := Some (\<lambda>_. [])\<rparr>)"
  by (simp add: Query_Extract_def GetAndSetQueryValues_def Opts_Parse_def wrap_failed_def
        no_query_def call_parser_def ParseInt_def strconv_ParseInt_def strconv_ParseUint_def
        intSize_def is_digit_def digit_val_def)

lemma Input_walk_reports_default:
  "InfoFromStruct (Suc 0) Example_decls plain_render (StructT ''Input'') (Some plain_namer) (Some ParseInt) =
   Some (WOk [\<lparr>i_Name = ''Field'', i_Source = ''query'', i_Default = ''1'',
               i_Type = Some (Prim PInt), i_Field = Input_Field, i_Struct = StructT ''Input'',
               i_ParentFields = []\<rparr>])"
  by code_simp

text \<open>
  C2 (the code at the scenario). For \<^verbatim>\<open>struct { Field routey.Query[int] `default:"1"` }\<close>
  the walker reports the default \<open>1\<close>, and \<open>Query.Extract\<close> given options with that
  default sets the value to 1 on a request without a query string (the two lemmas
  above); but the step \<open>extractorFor\<close> compiles for the field passes options whose
  default is empty, so for every namer, parser and pather the compiled extractor returns
  nil on such a request and leaves the value 0.
\<close>

theorem compiled_extractor_passes_empty_default:
  "\<exists>fn. extractorFor (Suc n) Example_decls reg
           \<lparr>eo_Namer = Some nm, eo_Parser = p, eo_Pather = pa, eo_CollectAllErrors = c\<rparr>
           (StructT ''Input'') = Some (CFn fn)
        \<and> fn no_query (VStruct ''Input'' [VStruct ''Query[int]'' [VInt 0]]) =
            (Ret None (VStruct ''Input'' [VStruct ''Query[int]'' [VInt 0]]),
             no_query\<lparr>rq_cachedQuery := Some (\<lambda>_. [])\<rparr>)"
proof -
  let ?eo = "\<lparr>eo_Namer = Some nm, eo_Parser = p, eo_Pather = pa, eo_CollectAllErrors = c\<rparr>"
  let ?step = "\<lambda>r v. Query_Extract r \<lparr>o_Name = nm ''Field'' ''query'', o_Default = [],
                                        o_Parser = eo_Parser ?eo, o_Pather = eo_Pather ?eo\<rparr> v"
  have s: "extractorFromFieldWithRelated (extractorFor n Example_decls reg ?eo) Example_decls reg
             Input_Field ?eo = Some (CFn ?step)"
    by (rule compiled_Query_step)
       (simp_all add: Input_Field_def method_of_def Example_decls_def Query_decl_def
          plain_struct_def httpReqType_def httpRespType_def NameFromField_def Tag_Get_def)
  have f: "Fields Example_decls (StructT ''Input'') = [Input_Field]"
    by (simp add: Fields_def Example_decls_def plain_struct_def)
  have e: "extractorFor (Suc n) Example_decls reg ?eo (StructT ''Input'') =
           Some (CFn (run_extractor c [?step]))"
    using s f by simp
  have q: "?step no_query (VStruct ''Query[int]'' [VInt 0]) =
           (Ret None (VStruct ''Query[int]'' [VInt 0]), no_query\<lparr>rq_cachedQuery := Some (\<lambda>_. [])\<rparr>)"
    by (simp add: Query_Extract_def GetAndSetQueryValues_def Opts_Parse_def wrap_failed_def
          no_query_def)
  have "run_extractor c [?step] no_query (VStruct ''Input'' [VStruct ''Query[int]'' [VInt 0]]) =
            (Ret None (VStruct ''Input'' [VStruct ''Query[int]'' [VInt 0]]),
             no_query\<lparr>rq_cachedQuery := Some (\<lambda>_. [])\<rparr>)"
    using q by (simp add: run_extractor_def errors_Join_def)
  with e show ?thesis by blast
qed

section \<open>Path parameters are required\<close>

lemma setDefaults_path_required:
  "setDefaults p tg = (p', None) \<Longrightarrow> p_In p = LocationPath \<Longrightarrow> p_Required p' \<and> p_In p' = LocationPath"
  by (auto simp: setDefaults_def Let_def split: if_splits prod.splits option.splits sum.splits)

lemma updateFromTags_In:
  "updateFromTags rd parseInt0 tg p = Some (e, p') \<Longrightarrow> p_In p' = p_In p"
  by (auto simp: updateFromTags_def Let_def split: if_splits prod.splits option.splits ref_or_spec.splits)
lemma PathInput_walk:
  "InfoFromStruct (Suc 0) Example_decls plain_render (StructT ''PathInput'') (Some plain_namer)
     (Some ParseInt) = Some (WOk [PathInput_info])"
  by code_simp

lemma PathInput_FromInfo_shape:
  "(case FromInfo (Suc 0) Example_decls plain_render (\<lambda>s. strconv_ParseInt s 0)
           (NewSchemer Example_decls) empty_sstate PathInput_info of
      Some (FRet p None st') \<Rightarrow> p_Style p = ''simple'' | _ \<Rightarrow> False)"
  by code_simp

text \<open>
  C9. For every parameter info whose source is \<open>path\<close>, the parameter \<open>FromInfo\<close>
  produces (it returns it without an error) has \<open>Required\<close> set, whatever the field's tags
  say, a \<open>required\<close> tag included: \<open>setDefaults\<close> runs after the tags are applied.
\<close>

theorem path_parameter_is_required:
  assumes "FromInfo n D rd parseInt0 cfg st i = Some (FRet p None st')"
    and "i_Source i = ''path''"
  shows "p_Required p"
proof -
  let ?p0 = "New_parameter\<lparr>p_Name := i_Name i, p_In := i_Source i\<rparr>"
  from assms(1) obtain s0 st1 where
    g: "Get n D cfg st (i_Type i) = Some (SRet s0 None st1)"
    by (auto simp: FromInfo_def Let_def split: option.splits sres.splits)
  define s where "s = (if i_Default i \<noteq> [] \<and> \<not> os_Default (sch_Schema s0) \<noteq> None
                   then s0\<lparr>sch_Schema := set_Default (Some (i_Default i)) (sch_Schema s0)\<rparr>
                   else s0)"
  define tg where "tg = getTags (fld_Tag (i_Field i))"
  from assms(1) g obtain p2 where
    u: "updateFromTags rd parseInt0 tg (SetSchema s ?p0) = Some (None, p2)"
    by (auto simp: FromInfo_def Let_def s_def tg_def split: option.splits prod.splits)
  from assms(1) g u obtain p3 where
    d: "setDefaults p2 tg = (p3, None)" and pp: "p = p3"
    by (auto simp: FromInfo_def Let_def s_def tg_def split: option.splits prod.splits)
  have "p_In p2 = LocationPath"
    using updateFromTags_In[OF u] assms(2) by (simp add: SetSchema_def LocationPath_def)
  with setDefaults_path_required[OF d] pp show ?thesis by simp
qed

theorem path_parameter_is_required_witness:
  "\<exists>p st'. FromInfo (Suc 0) Example_decls plain_render (\<lambda>s. strconv_ParseInt s 0)
             (NewSchemer Example_decls) empty_sstate PathInput_info = Some (FRet p None st')
     \<and> i_Source PathInput_info = ''path''
     \<and> Tag_Get (fld_Tag (i_Field PathInput_info)) ''required'' = ''false''
     \<and> p_Required p"
proof -
  obtain p st' where
    f: "FromInfo (Suc 0) Example_decls plain_render (\<lambda>s. strconv_ParseInt s 0)
             (NewSchemer Example_decls) empty_sstate PathInput_info = Some (FRet p None st')"
    using PathInput_FromInfo_shape by (auto split: option.splits fres.splits)
  have s: "i_Source PathInput_info = ''path''" by (simp add: PathInput_info_def)
  have t: "Tag_Get (fld_Tag (i_Field PathInput_info)) ''required'' = ''false''"
    by (simp add: PathInput_info_def PathInput_ID_def Tag_Get_def)
  from path_parameter_is_required[OF f s] f s t show ?thesis by blast
qed

section \<open>The schema validator\<close>

lemma Add_other_names:
  "Add lib v name t = (e, v') \<Longrightarrow> n \<noteq> name \<Longrightarrow> v_schemas v' n = v_schemas v n"
  by (auto simp: Add_def compile_def split: sum.splits prod.splits option.splits)

lemma Add_failed_schemas:
  "Add lib v name t = (Some e, v') \<Longrightarrow> v_schemas v' = v_schemas v"
  by (auto simp: Add_def compile_def split: sum.splits prod.splits option.splits)

lemma run_adds_never_added:
  "run_adds lib v ops = (v', results) \<Longrightarrow>
   (\<forall>(n, ok) \<in> set results. n = name \<longrightarrow> \<not> ok) \<Longrightarrow>
   v_schemas v' name = v_schemas v name"
proof (induction ops arbitrary: v v' results)
  case Nil
  then show ?case by simp
next
  case (Cons op ops)
  obtain n t where op: "op = (n, t)" by (cases op)
  obtain e v1 where a: "Add lib v n t = (e, v1)" by (cases "Add lib v n t")
  obtain v2 rs where r: "run_adds lib v1 ops = (v2, rs)" by (cases "run_adds lib v1 ops")
  from Cons.prems(1) op a r have v': "v' = v2" and res: "results = (n, e = None) # rs"
    by simp_all
  from Cons.prems(2) res have rest: "\<forall>(m, ok) \<in> set rs. m = name \<longrightarrow> \<not> ok"
    and this_: "n = name \<longrightarrow> e \<noteq> None"
    by auto
  have "v_schemas v2 name = v_schemas v1 name"
    by (rule Cons.IH[OF r rest])
  moreover have "v_schemas v1 name = v_schemas v name"
  proof (cases "n = name")
    case True
    with this_ obtain x where "e = Some x" by auto
    with a show ?thesis by (simp add: Add_failed_schemas)
  next
    case False
    with a show ?thesis by (simp add: Add_other_names)
  qed
  ultimately show ?case using v' by simp
qed
lemma toy_facts:
  "lib_UnmarshalJSON toy_lib ''{'' = Inl (OtherError ''unexpected EOF'')"
  "lib_UnmarshalJSON toy_lib ''{}'' = Inr 2"
  "lib_AddResource toy_lib (v_compiler (NewValidator toy_lib)) ''remote'' 2 = (None, Suc 0)"
  "lib_Compile toy_lib noopLoader_Load (Suc 0) ''remote'' = (Inl ErrSchemaLoad, Suc 0)"
  by (simp_all add: toy_lib_def NewValidator_def noopLoader_Load_def)

lemma toy_run:
  "run_adds toy_lib (NewValidator toy_lib) [(''a'', ''{''), (''remote'', ''{}''), (''b'', ''{}'')] =
     (snd (Add toy_lib (snd (Add toy_lib (NewValidator toy_lib) ''remote'' ''{}'')) ''b'' ''{}''),
      [(''a'', False), (''remote'', False), (''b'', True)])"
  by (simp add: Add_def compile_def toy_lib_def NewValidator_def noopLoader_Load_def)

text \<open>
  C8. \<open>Add\<close> returns an error, and registers nothing, when the schema text is malformed
  (the engine cannot unmarshal it) and when the engine cannot compile the schema with
  the validator's loader, the only one it is ever given; that loader fails for every
  URL, so nothing is loaded from outside. \<open>Validate\<close> with a name that no \<open>Add\<close> of the
  validator's history has added successfully returns \<open>ErrSchemaNotFound\<close>, whatever the
  input and without a call of the engine.
\<close>

theorem Add_rejects_and_Validate_unregistered:
  "(lib_UnmarshalJSON lib t = Inl e \<longrightarrow> (\<exists>e'. Add lib v name t = (Some e', v)))
   \<and> (lib_UnmarshalJSON lib t = Inr doc
        \<and> lib_AddResource lib (v_compiler v) name doc = (None, c)
        \<and> lib_Compile lib noopLoader_Load c name = (Inl e, c') \<longrightarrow>
      (\<exists>e'. fst (Add lib v name t) = Some e')
      \<and> v_schemas (snd (Add lib v name t)) = v_schemas v)
   \<and> (noopLoader_Load url :: err + 'j) = Inl ErrSchemaLoad
   \<and> (run_adds lib (NewValidator lib) ops = (v', results)
        \<and> (\<forall>(n, ok) \<in> set results. n = name \<longrightarrow> \<not> ok) \<longrightarrow>
      Validate lib v' name input = Some ErrSchemaNotFound)"
  for lib :: "('j, 'c, 's, 'v) jslib"
proof (intro conjI impI)
  assume "lib_UnmarshalJSON lib t = Inl e"
  then show "\<exists>e'. Add lib v name t = (Some e', v)"
    by (simp add: Add_def)
next
  assume a: "lib_UnmarshalJSON lib t = Inr doc
        \<and> lib_AddResource lib (v_compiler v) name doc = (None, c)
        \<and> lib_Compile lib noopLoader_Load c name = (Inl e, c')"
  then show "\<exists>e'. fst (Add lib v name t) = Some e'"
    by (simp add: Add_def compile_def)
  from a show "v_schemas (snd (Add lib v name t)) = v_schemas v"
    by (simp add: Add_def compile_def)
next
  show "(noopLoader_Load url :: err + 'j) = Inl ErrSchemaLoad"
    by (simp add: noopLoader_Load_def)
next
  assume a: "run_adds lib (NewValidator lib) ops = (v', results)
        \<and> (\<forall>(n, ok) \<in> set results. n = name \<longrightarrow> \<not> ok)"
  then have "v_schemas v' name = v_schemas (NewValidator lib) name"
    using run_adds_never_added by blast
  then show "Validate lib v' name input = Some ErrSchemaNotFound"
    by (simp add: Validate_def NewValidator_def)
qed

theorem Add_rejects_and_Validate_unregistered_witness:
  "(\<exists>e'. Add toy_lib (NewValidator toy_lib) ''a'' ''{'' = (Some e', NewValidator toy_lib))
   \<and> (\<exists>e'. fst (Add toy_lib (NewValidator toy_lib) ''remote'' ''{}'') = Some e')
   \<and> v_schemas (snd (Add toy_lib (NewValidator toy_lib) ''remote'' ''{}'')) = v_schemas (NewValidator toy_lib)
   \<and> Validate toy_lib
        (snd (Add toy_lib (snd (Add toy_lib (NewValidator toy_lib) ''remote'' ''{}'')) ''b'' ''{}''))
        ''remote'' ''{}'' = Some ErrSchemaNotFound"
proof -
  have l: "\<forall>(n, ok) \<in> set [(''a'', False), (''remote'', False), (''b'', True)]. n = ''remote'' \<longrightarrow> \<not> ok"
    by simp
  note t1 = Add_rejects_and_Validate_unregistered
      [of toy_lib "''{''" "OtherError ''unexpected EOF''" "NewValidator toy_lib" "''a''"]
  note t2 = Add_rejects_and_Validate_unregistered
      [of toy_lib "''{}''" ErrSchemaLoad "NewValidator toy_lib" "''remote''" 2 "Suc 0" "Suc 0" _
          "[(''a'', ''{''), (''remote'', ''{}''), (''b'', ''{}'')]"
          "snd (Add toy_lib (snd (Add toy_lib (NewValidator toy_lib) ''remote'' ''{}'')) ''b'' ''{}'')"
          "[(''a'', False), (''remote'', False), (''b'', True)]" "''{}''"]
  from t1 toy_facts(1) have 1:
    "\<exists>e'. Add toy_lib (NewValidator toy_lib) ''a'' ''{'' = (Some e', NewValidator toy_lib)"
    by blast
  from t2 toy_facts(2,3,4) have 2:
    "(\<exists>e'. fst (Add toy_lib (NewValidator toy_lib) ''remote'' ''{}'') = Some e')
     \<and> v_schemas (snd (Add toy_lib (NewValidator toy_lib) ''remote'' ''{}'')) = v_schemas (NewValidator toy_lib)"
    by blast
  from t2 toy_run l have 3:
    "Validate toy_lib
        (snd (Add toy_lib (snd (Add toy_lib (NewValidator toy_lib) ''remote'' ''{}'')) ''b'' ''{}''))
        ''remote'' ''{}'' = Some ErrSchemaNotFound"
    by blast
  from 1 2 3 show ?thesis by blast
qed

end
